theory Spec2Isabelle
  imports Main "HOL-Library.Product_Lexorder" "HOL-Library.Sublist"
begin

section \<open>Python values\<close>

text \<open>
  The extractor of \<^verbatim>\<open>src/extract/extractor.py\<close> works on decoded JSON payloads: nested
  \<^verbatim>\<open>dict\<close>s, \<^verbatim>\<open>list\<close>s and scalars. \<^verbatim>\<open>generate_data_object\<close> turns every \<^verbatim>\<open>dict\<close>
  into a \<^verbatim>\<open>SimpleNamespace\<close>, so both kinds of mapping are constructors of one value type:
  \<open>PDict\<close> for a raw dictionary and \<open>PObj\<close> for a namespace object. A mapping is an
  association list in insertion order; Python dictionaries have no duplicate keys and lookup
  takes the first binding.

  Boundaries of the model, where HOL is not Python:
  \<^item> JSON numbers with a fraction (Python \<^verbatim>\<open>float\<close>) are not represented;
  \<^item> a string is a list of 8-bit characters, exact for ASCII text;
  \<^item> attribute access sees the named children of a namespace only. The attributes that
    Python itself gives to a value (the methods of \<^verbatim>\<open>str\<close>, \<^verbatim>\<open>int\<close> and \<^verbatim>\<open>list\<close>,
    \<^verbatim>\<open>__dict__\<close>, \<^verbatim>\<open>__class__\<close>) are not modelled: a path is taken to name payload
    keys, and a name that is no child of a value is absent from it.
\<close>

datatype pyerror =
  TypeError | IndexError | ValueError | KeyError | AttributeError | OverflowError
  | DownloaderError

datatype pyval =
    PNone
  | PBool bool
  | PInt int
  | PStr string
  | PList "pyval list"
  | PDict "(string \<times> pyval) list"
  | PObj "(string \<times> pyval) list"

text \<open>Sequencing of computations that may raise: the first exception wins.\<close>

definition bind_exc :: "pyerror + 'a \<Rightarrow> ('a \<Rightarrow> pyerror + 'b) \<Rightarrow> pyerror + 'b" where
  "bind_exc m f = (case m of Inl e \<Rightarrow> Inl e | Inr a \<Rightarrow> f a)"

text \<open>Python truthiness (\<^verbatim>\<open>bool(x)\<close>); a \<^verbatim>\<open>SimpleNamespace\<close> is always true.\<close>

fun truthy :: "pyval \<Rightarrow> bool" where
  "truthy PNone = False"
| "truthy (PBool b) = b"
| "truthy (PInt i) = (i \<noteq> 0)"
| "truthy (PStr s) = (s \<noteq> [])"
| "truthy (PList xs) = (xs \<noteq> [])"
| "truthy (PDict kvs) = (kvs \<noteq> [])"
| "truthy (PObj kvs) = True"

text \<open>\<^verbatim>\<open>a or b\<close>\<close>

definition py_or :: "pyval \<Rightarrow> pyval \<Rightarrow> pyval" where
  "py_or a b = (if truthy a then a else b)"

subsection \<open>\<^verbatim>\<open>Extractor.generate_data_object\<close>\<close>

text \<open>
  \<^verbatim>\<open>
  def depth_conversion(element):
      if isinstance(element, dict):
          return SimpleNamespace(**{k: depth_conversion(v) for k, v in element.items()})
      elif isinstance(element, list):
          return [depth_conversion(item) for item in element]
      else:
          return element
  \<close>
\<close>

fun generate_data_object :: "pyval \<Rightarrow> pyval" where
  "generate_data_object (PDict kvs) =
     PObj (map (\<lambda>kv. (fst kv, generate_data_object (snd kv))) kvs)"
| "generate_data_object (PList xs) = PList (map generate_data_object xs)"
| "generate_data_object v = v"

subsection \<open>Attribute access, subscripting, \<^verbatim>\<open>int()\<close>, \<^verbatim>\<open>str.split\<close>\<close>

text \<open>\<^verbatim>\<open>getattr(data, attribute, None)\<close>\<close>

fun getattr_none :: "pyval \<Rightarrow> string \<Rightarrow> pyval" where
  "getattr_none (PObj kvs) a = (case map_of kvs a of Some v \<Rightarrow> v | None \<Rightarrow> PNone)"
| "getattr_none v a = PNone"

text \<open>
  \<^verbatim>\<open>xs[i]\<close> on a sequence of length \<open>n\<close>: a negative index counts from the end, and an
  index outside \<open>[-n, n)\<close> raises \<^verbatim>\<open>IndexError\<close>.
\<close>

definition seq_get :: "'a list \<Rightarrow> int \<Rightarrow> pyerror + 'a" where
  "seq_get xs i =
     (let n = int (length xs); j = (if i < 0 then i + n else i)
      in if 0 \<le> j \<and> j < n then Inr (xs ! nat j) else Inl IndexError)"

text \<open>
  \<^verbatim>\<open>value[i]\<close> with an integer \<open>i\<close>: lists and strings are indexed, a dictionary whose keys
  are strings raises \<^verbatim>\<open>KeyError\<close>, every other value is not subscriptable
  (\<^verbatim>\<open>TypeError\<close>).
\<close>

fun subscript :: "pyval \<Rightarrow> int \<Rightarrow> pyerror + pyval" where
  "subscript (PList xs) i = seq_get xs i"
| "subscript (PStr s) i = bind_exc (seq_get s i) (\<lambda>c. Inr (PStr [c]))"
| "subscript (PDict kvs) i = Inl KeyError"
| "subscript v i = Inl TypeError"

definition py_isspace :: "char \<Rightarrow> bool" where
  "py_isspace c = ((of_char c :: nat) \<in> {9, 10, 11, 12, 13, 28, 29, 30, 31, 32})"

definition py_strip :: "string \<Rightarrow> string" where
  "py_strip s = rev (dropWhile py_isspace (rev (dropWhile py_isspace s)))"

definition digit_val :: "char \<Rightarrow> int option" where
  "digit_val c =
     (let n = (of_char c :: nat) in if 48 \<le> n \<and> n \<le> 57 then Some (int n - 48) else None)"

text \<open>Decimal digits, a single underscore allowed between two digits.\<close>

fun digits_acc :: "int \<Rightarrow> string \<Rightarrow> int option" where
  "digits_acc acc [] = Some acc"
| "digits_acc acc [c] =
     (case digit_val c of None \<Rightarrow> None | Some v \<Rightarrow> Some (acc * 10 + v))"
| "digits_acc acc (c # d # ds) =
     (if c = CHR ''_'' then
        (case digit_val d of None \<Rightarrow> None | Some v \<Rightarrow> digits_acc (acc * 10 + v) ds)
      else
        (case digit_val c of None \<Rightarrow> None | Some v \<Rightarrow> digits_acc (acc * 10 + v) (d # ds)))"

definition py_digits :: "string \<Rightarrow> int option" where
  "py_digits s =
     (case s of [] \<Rightarrow> None
      | c # cs \<Rightarrow> (case digit_val c of None \<Rightarrow> None | Some v \<Rightarrow> digits_acc v cs))"

text \<open>
  \<^verbatim>\<open>int(s)\<close> for a string: surrounding whitespace is stripped, one sign is allowed, and
  anything else that is not a decimal literal raises \<^verbatim>\<open>ValueError\<close>.
\<close>

definition py_int :: "string \<Rightarrow> pyerror + int" where
  "py_int s =
     (let t = py_strip s;
          r = (case t of [] \<Rightarrow> None
               | c # cs \<Rightarrow>
                   if c = CHR ''-'' then map_option uminus (py_digits cs)
                   else if c = CHR ''+'' then py_digits cs
                   else py_digits t)
      in case r of None \<Rightarrow> Inl ValueError | Some i \<Rightarrow> Inr i)"

text \<open>\<^verbatim>\<open>s.split(c)\<close> for a one-character separator: never empty.\<close>

fun split_on :: "char \<Rightarrow> string \<Rightarrow> string list" where
  "split_on c [] = [[]]"
| "split_on c (x # xs) =
     (if x = c then [] # split_on c xs
      else (case split_on c xs of w # ws \<Rightarrow> (x # w) # ws | [] \<Rightarrow> [[x]]))"

subsection \<open>\<^verbatim>\<open>Extractor.safe_extract\<close>\<close>

text \<open>
  \<^verbatim>\<open>
  attributes = attribute_chain.split(".")
  for attribute in attributes:
      if "[" in attribute:
          parts = attribute.split("[", 1)
          attribute = parts[0]
          index = parts[1].split("]", 1)[0]
          try:
              index = int(index)
              data = getattr(data, attribute, None)[index]
          except (IndexError, TypeError, ValueError):
              return default
      else:
          data = getattr(data, attribute, None)
          if not data:
              return default
  return data or default
  \<close>
  \<open>seg_step\<close> is one iteration of the loop: it raises, returns the default (\<open>None\<close>) or
  goes on with the new \<^verbatim>\<open>data\<close>. \<open>descend\<close> is the loop.
\<close>

definition seg_name :: "string \<Rightarrow> string" where
  "seg_name attribute = takeWhile (\<lambda>c. c \<noteq> CHR ''['') attribute"

definition seg_index :: "string \<Rightarrow> string" where
  "seg_index attribute =
     takeWhile (\<lambda>c. c \<noteq> CHR '']'') (tl (dropWhile (\<lambda>c. c \<noteq> CHR ''['') attribute))"

definition seg_step :: "pyval \<Rightarrow> string \<Rightarrow> pyerror + pyval option" where
  "seg_step data attribute =
     (if CHR ''['' \<in> set attribute then
        (case bind_exc (py_int (seg_index attribute))
                (\<lambda>i. subscript (getattr_none data (seg_name attribute)) i) of
           Inr v \<Rightarrow> Inr (Some v)
         | Inl e \<Rightarrow>
             if e = IndexError \<or> e = TypeError \<or> e = ValueError then Inr None else Inl e)
      else
        (let d = getattr_none data attribute in if truthy d then Inr (Some d) else Inr None))"

fun descend :: "pyval \<Rightarrow> string list \<Rightarrow> pyerror + pyval option" where
  "descend data [] = Inr (Some data)"
| "descend data (a # as) =
     (case seg_step data a of
        Inl e \<Rightarrow> Inl e
      | Inr None \<Rightarrow> Inr None
      | Inr (Some d) \<Rightarrow> descend d as)"

definition safe_extract :: "pyval \<Rightarrow> string \<Rightarrow> pyval \<Rightarrow> pyerror + pyval" where
  "safe_extract data attribute_chain dflt =
     (case descend data (split_on CHR ''.'' attribute_chain) of
        Inl e \<Rightarrow> Inl e
      | Inr None \<Rightarrow> Inr dflt
      | Inr (Some v) \<Rightarrow> Inr (py_or v dflt))"

subsection \<open>Data-object trees and the failure modes of a path segment\<close>

text \<open>
  A decoded JSON payload holds no namespace object; a data-object tree holds no raw
  dictionary: it is what \<open>generate_data_object\<close> returns for a JSON payload.
\<close>

fun is_json :: "pyval \<Rightarrow> bool" where
  "is_json (PList xs) = list_all is_json xs"
| "is_json (PDict kvs) = list_all (\<lambda>kv. is_json (snd kv)) kvs"
| "is_json (PObj kvs) = False"
| "is_json v = True"

fun no_dict :: "pyval \<Rightarrow> bool" where
  "no_dict (PList xs) = list_all no_dict xs"
| "no_dict (PObj kvs) = list_all (\<lambda>kv. no_dict (snd kv)) kvs"
| "no_dict (PDict kvs) = False"
| "no_dict v = True"


subsection \<open>Path resolution as the specification words it\<close>

text \<open>
  The specification describes \<open>resolve(root, path, default)\<close>: the path is split on dots,
  a segment may carry an index; resolution stops with the default when the current node
  lacks the named child, when an index is out of range and on a type mismatch (indexing a
  non-sequence, naming a non-mapping); a falsy value is replaced by the default at the final
  segment only. \<open>resolve_spec\<close> follows these words, with the segment syntax of the source;
  it never looks at the truth value of an intermediate node.
\<close>

definition spec_child :: "pyval \<Rightarrow> string \<Rightarrow> pyval option" where
  "spec_child node name = (case node of PObj kvs \<Rightarrow> map_of kvs name | _ \<Rightarrow> None)"

definition spec_index :: "pyval \<Rightarrow> int \<Rightarrow> pyval option" where
  "spec_index node i =
     (case node of
        PList xs \<Rightarrow> (case seq_get xs i of Inr v \<Rightarrow> Some v | Inl e \<Rightarrow> None)
      | PStr s \<Rightarrow> (case seq_get s i of Inr c \<Rightarrow> Some (PStr [c]) | Inl e \<Rightarrow> None)
      | _ \<Rightarrow> None)"

definition spec_segment :: "pyval \<Rightarrow> string \<Rightarrow> pyval option" where
  "spec_segment node seg =
     (if CHR ''['' \<in> set seg then
        (case py_int (seg_index seg) of
           Inl e \<Rightarrow> None
         | Inr i \<Rightarrow>
             (case spec_child node (seg_name seg) of
                None \<Rightarrow> None
              | Some c \<Rightarrow> spec_index c i))
      else spec_child node seg)"

fun spec_walk :: "pyval \<Rightarrow> string list \<Rightarrow> pyval option" where
  "spec_walk node [] = Some node"
| "spec_walk node (s # ss) =
     (case spec_segment node s of None \<Rightarrow> None | Some n \<Rightarrow> spec_walk n ss)"

definition resolve_spec :: "pyval \<Rightarrow> string \<Rightarrow> pyval \<Rightarrow> pyval" where
  "resolve_spec root path dflt =
     (case spec_walk root (split_on CHR ''.'' path) of
        None \<Rightarrow> dflt
      | Some v \<Rightarrow> if truthy v then v else dflt)"

section \<open>Effects: the logger, the filter counters and the recorder\<close>

text \<open>
  The extractor writes to a logger, the custom filter counts in the module-level dictionary
  \<^verbatim>\<open>filter_stats\<close>, and the pipelines append rows to the caller's recorder. The three
  are the fields of one explicit state. A log entry keeps the kind of the message and the
  values formatted into it.
\<close>

datatype log_msg =
    LogVideoParseFailed pyval
  | LogUserInfoFailed pyval
  | LogSecUidMismatch string pyval
  | LogExtractOk pyval pyval
  | LogSummary nat

record filter_stats =
  total :: int
  filtered :: int
  image :: int
  live :: int

record pstate =
  logs :: "log_msg list"
  stats :: filter_stats
  rows :: "pyval list list"

type_synonym 'a prog = "pstate \<Rightarrow> (pyerror + 'a) \<times> pstate"

definition ret :: "'a \<Rightarrow> 'a prog" where
  "ret x = (\<lambda>s. (Inr x, s))"

definition raise :: "pyerror \<Rightarrow> 'a prog" where
  "raise e = (\<lambda>s. (Inl e, s))"

definition lift_exc :: "pyerror + 'a \<Rightarrow> 'a prog" where
  "lift_exc r = (\<lambda>s. (r, s))"

definition bind_st :: "'a prog \<Rightarrow> ('a \<Rightarrow> 'b prog) \<Rightarrow> 'b prog" where
  "bind_st m f = (\<lambda>s. case m s of (Inl e, s') \<Rightarrow> (Inl e, s') | (Inr a, s') \<Rightarrow> f a s')"

definition log_write :: "log_msg \<Rightarrow> unit prog" where
  "log_write m = (\<lambda>s. (Inr (), s\<lparr>logs := logs s @ [m]\<rparr>))"

text \<open>A comprehension or \<^verbatim>\<open>for\<close> loop whose body may raise: the first exception ends it.\<close>

fun map_exc :: "('a \<Rightarrow> pyerror + 'b) \<Rightarrow> 'a list \<Rightarrow> pyerror + 'b list" where
  "map_exc f [] = Inr []"
| "map_exc f (x # xs) =
     bind_exc (f x) (\<lambda>y. bind_exc (map_exc f xs) (\<lambda>ys. Inr (y # ys)))"

fun map_st :: "('a \<Rightarrow> 'b prog) \<Rightarrow> 'a list \<Rightarrow> 'b list prog" where
  "map_st f [] = ret []"
| "map_st f (x # xs) =
     bind_st (f x) (\<lambda>y. bind_st (map_st f xs) (\<lambda>ys. ret (y # ys)))"

section \<open>Comparison, iteration and sorting of Python values\<close>

text \<open>\<^verbatim>\<open>obj.name\<close>: \<^verbatim>\<open>AttributeError\<close> when the object has no such attribute.\<close>

fun getattr :: "pyval \<Rightarrow> string \<Rightarrow> pyerror + pyval" where
  "getattr (PObj kvs) a = (case map_of kvs a of Some v \<Rightarrow> Inr v | None \<Rightarrow> Inl AttributeError)"
| "getattr v a = Inl AttributeError"

text \<open>\<^verbatim>\<open>for i in value\<close>: a string yields its characters, a dictionary its keys.\<close>

fun py_iter :: "pyval \<Rightarrow> pyerror + pyval list" where
  "py_iter (PList xs) = Inr xs"
| "py_iter (PStr s) = Inr (map (\<lambda>c. PStr [c]) s)"
| "py_iter (PDict kvs) = Inr (map (\<lambda>kv. PStr (fst kv)) kvs)"
| "py_iter v = Inl TypeError"

text \<open>
  \<^verbatim>\<open>a == b\<close>. \<^verbatim>\<open>True\<close> and \<^verbatim>\<open>False\<close> are the integers 1 and 0; mappings are equal
  when they bind the same keys to equal values, in any order.
\<close>

fun py_eq :: "pyval \<Rightarrow> pyval \<Rightarrow> bool"
  and py_eq_list :: "pyval list \<Rightarrow> pyval list \<Rightarrow> bool"
  and py_eq_items :: "(string \<times> pyval) list \<Rightarrow> (string \<times> pyval) list \<Rightarrow> bool" where
  "py_eq PNone PNone = True"
| "py_eq (PBool a) (PBool b) = (a = b)"
| "py_eq (PBool a) (PInt b) = ((if a then 1 else 0) = b)"
| "py_eq (PInt a) (PBool b) = (a = (if b then 1 else 0))"
| "py_eq (PInt a) (PInt b) = (a = b)"
| "py_eq (PStr a) (PStr b) = (a = b)"
| "py_eq (PList xs) (PList ys) = py_eq_list xs ys"
| "py_eq (PDict a) (PDict b) = (length a = length b \<and> py_eq_items a b)"
| "py_eq (PObj a) (PObj b) = (length a = length b \<and> py_eq_items a b)"
| "py_eq a b = False"
| "py_eq_list [] [] = True"
| "py_eq_list (x # xs) (y # ys) = (py_eq x y \<and> py_eq_list xs ys)"
| "py_eq_list xs ys = False"
| "py_eq_items [] b = True"
| "py_eq_items (kv # a) b =
     (case map_of b (fst kv) of None \<Rightarrow> False | Some v \<Rightarrow> py_eq (snd kv) v \<and> py_eq_items a b)"

fun str_lt :: "string \<Rightarrow> string \<Rightarrow> bool" where
  "str_lt [] [] = False"
| "str_lt [] (y # ys) = True"
| "str_lt (x # xs) [] = False"
| "str_lt (x # xs) (y # ys) =
     (if x = y then str_lt xs ys else (of_char x :: nat) < of_char y)"

text \<open>
  \<^verbatim>\<open>a < b\<close>: numbers by value, strings and lists lexicographically (the first pair of
  unequal elements decides), everything else is unorderable and raises \<^verbatim>\<open>TypeError\<close>.
  Tuples compare like lists, so a sort key is a list of values here.
\<close>

fun py_lt :: "pyval \<Rightarrow> pyval \<Rightarrow> pyerror + bool"
  and py_lt_list :: "pyval list \<Rightarrow> pyval list \<Rightarrow> pyerror + bool" where
  "py_lt (PInt a) (PInt b) = Inr (a < b)"
| "py_lt (PInt a) (PBool b) = Inr (a < (if b then 1 else 0))"
| "py_lt (PBool a) (PInt b) = Inr ((if a then 1 else 0) < b)"
| "py_lt (PBool a) (PBool b) = Inr (\<not> a \<and> b)"
| "py_lt (PStr a) (PStr b) = Inr (str_lt a b)"
| "py_lt (PList xs) (PList ys) = py_lt_list xs ys"
| "py_lt a b = Inl TypeError"
| "py_lt_list [] [] = Inr False"
| "py_lt_list [] (y # ys) = Inr True"
| "py_lt_list (x # xs) [] = Inr False"
| "py_lt_list (x # xs) (y # ys) = (if py_eq x y then py_lt_list xs ys else py_lt x y)"

text \<open>\<^verbatim>\<open>max(a, b)\<close> keeps \<open>a\<close> unless \<open>b > a\<close>.\<close>

definition py_max :: "pyval \<Rightarrow> pyval \<Rightarrow> pyerror + pyval" where
  "py_max a b = bind_exc (py_lt a b) (\<lambda>lt. Inr (if lt then b else a))"

text \<open>
  \<^verbatim>\<open>list.sort(key=...)\<close> on elements paired with their keys: a stable sort that uses
  \<^verbatim>\<open><\<close> on keys only, written as insertion from the right. Where every pair of keys is
  comparable the result is the one of Python's sort.
\<close>

fun py_insert :: "pyval list \<times> 'a \<Rightarrow> (pyval list \<times> 'a) list \<Rightarrow> pyerror + (pyval list \<times> 'a) list" where
  "py_insert x [] = Inr [x]"
| "py_insert x (y # ys) =
     bind_exc (py_lt_list (fst y) (fst x))
       (\<lambda>lt. if lt then bind_exc (py_insert x ys) (\<lambda>r. Inr (y # r)) else Inr (x # y # ys))"

fun py_sort :: "(pyval list \<times> 'a) list \<Rightarrow> pyerror + (pyval list \<times> 'a) list" where
  "py_sort [] = Inr []"
| "py_sort (x # xs) = bind_exc (py_sort xs) (py_insert x)"

text \<open>\<^verbatim>\<open>str(i)\<close> of an integer, as an f-string formats it.\<close>

fun dec_nat :: "nat \<Rightarrow> string" where
  "dec_nat n =
     (if n < 10 then [char_of (48 + n)] else dec_nat (n div 10) @ [char_of (48 + n mod 10)])"

declare dec_nat.simps [simp del]

definition dec_int :: "int \<Rightarrow> string" where
  "dec_int i = (if i < 0 then CHR ''-'' # dec_nat (nat (- i)) else dec_nat (nat i))"

section \<open>The quality selector\<close>

text \<open>
  The index constants are imported from the package \<^verbatim>\<open>custom\<close>; the module that assigns
  them is not among the sources, so they are parameters of the model.
\<close>

record config =
  VIDEO_TIKTOK_INDEX :: int
  IMAGE_TIKTOK_INDEX :: int
  BITRATE_INFO_TIKTOK_INDEX :: int

text \<open>
  The element type of the comprehension in \<^verbatim>\<open>__extract_video_download\<close>:
  \<^verbatim>\<open>(i.FPS, i.bit_rate, i.play_addr.data_size, i.play_addr.height, i.play_addr.width,
  i.play_addr.url_list)\<close>.
\<close>

type_synonym variant_tuple = "pyval \<times> pyval \<times> pyval \<times> pyval \<times> pyval \<times> pyval"

definition read_variant :: "pyval \<Rightarrow> pyerror + variant_tuple" where
  "read_variant i =
     bind_exc (getattr i ''FPS'') (\<lambda>fps.
     bind_exc (getattr i ''bit_rate'') (\<lambda>br.
     bind_exc (bind_exc (getattr i ''play_addr'') (\<lambda>p. getattr p ''data_size'')) (\<lambda>sz.
     bind_exc (bind_exc (getattr i ''play_addr'') (\<lambda>p. getattr p ''height'')) (\<lambda>h.
     bind_exc (bind_exc (getattr i ''play_addr'') (\<lambda>p. getattr p ''width'')) (\<lambda>w.
     bind_exc (bind_exc (getattr i ''play_addr'') (\<lambda>p. getattr p ''url_list'')) (\<lambda>urls.
     Inr (fps, br, sz, h, w, urls)))))))"

text \<open>\<^verbatim>\<open>key=lambda x: (max(x[3], x[4]), x[0], x[1], x[2])\<close>\<close>

definition variant_key :: "variant_tuple \<Rightarrow> pyerror + pyval list" where
  "variant_key x =
     (case x of (fps, br, sz, h, w, urls) \<Rightarrow>
        bind_exc (py_max h w) (\<lambda>m. Inr [m, fps, br, sz]))"

definition sort_by_key :: "('a \<Rightarrow> pyerror + pyval list) \<Rightarrow> 'a list \<Rightarrow> pyerror + 'a list" where
  "sort_by_key key xs =
     bind_exc (map_exc (\<lambda>x. bind_exc (key x) (\<lambda>k. Inr (k, x))) xs) (\<lambda>kxs.
     bind_exc (py_sort kxs) (\<lambda>sorted. Inr (map snd sorted)))"

text \<open>
  \<^verbatim>\<open>
  bit_rate = self.safe_extract(data, "video.bit_rate", [])
  try:
      bit_rate = [(i.FPS, ...) for i in bit_rate]
      bit_rate.sort(key=lambda x: (max(x[3], x[4]), x[0], x[1], x[2]))
      return ((bit_rate[-1][-3], bit_rate[-1][-2], bit_rate[-1][-1][-1])
              if bit_rate else (-1, -1, ""))
  except AttributeError:
      self.log.error(f"... {data}", False)
      height = self.safe_extract(bit_rate[0], "play_addr.height", -1)
      width = self.safe_extract(bit_rate[0], "play_addr.width", -1)
      url = self.safe_extract(bit_rate[0], "play_addr.url_list[-1]")
      return height, width, url
  \<close>
  \<open>video_download_try\<close> is the body of the \<^verbatim>\<open>try\<close>, \<open>video_download_degrade\<close> the
  handler after its log call; in the handler \<^verbatim>\<open>bit_rate\<close> is still the raw list.
\<close>

definition video_download_try :: "pyval \<Rightarrow> pyerror + pyval \<times> pyval \<times> pyval" where
  "video_download_try bit_rate =
     bind_exc (py_iter bit_rate) (\<lambda>items.
     bind_exc (map_exc read_variant items) (\<lambda>tuples.
     bind_exc (sort_by_key variant_key tuples) (\<lambda>sorted.
       if sorted \<noteq> [] then
         (case last sorted of (fps, br, sz, h, w, urls) \<Rightarrow>
            bind_exc (subscript urls (- 1)) (\<lambda>u. Inr (h, w, u)))
       else Inr (PInt (- 1), PInt (- 1), PStr []))))"

definition video_download_degrade :: "pyval \<Rightarrow> pyerror + pyval \<times> pyval \<times> pyval" where
  "video_download_degrade bit_rate =
     bind_exc (subscript bit_rate 0) (\<lambda>first.
     bind_exc (safe_extract first ''play_addr.height'' (PInt (- 1))) (\<lambda>h.
     bind_exc (safe_extract first ''play_addr.width'' (PInt (- 1))) (\<lambda>w.
     bind_exc (safe_extract first ''play_addr.url_list[-1]'' (PStr [])) (\<lambda>u.
     Inr (h, w, u)))))"

definition extract_video_download :: "pyval \<Rightarrow> (pyval \<times> pyval \<times> pyval) prog" where
  "extract_video_download data =
     bind_st (lift_exc (safe_extract data ''video.bit_rate'' (PList []))) (\<lambda>bit_rate.
       case video_download_try bit_rate of
         Inr r \<Rightarrow> ret r
       | Inl e \<Rightarrow>
           if e = AttributeError then
             bind_st (log_write (LogVideoParseFailed data))
               (\<lambda>u. lift_exc (video_download_degrade bit_rate))
           else raise e)"

text \<open>
  \<^verbatim>\<open>__extract_video_download_tiktok\<close> has the same shape with the tuple
  \<^verbatim>\<open>(i.Bitrate, i.PlayAddr.DataSize, i.PlayAddr.Height, i.PlayAddr.Width,
  i.PlayAddr.UrlList)\<close>, the key \<^verbatim>\<open>(max(x[2], x[3]), x[0], x[1])\<close> and the URL
  \<^verbatim>\<open>bitrate_info[-1][-1][VIDEO_TIKTOK_INDEX]\<close>; its handler resolves
  \<^verbatim>\<open>f"PlayAddr.UrlList[{VIDEO_TIKTOK_INDEX}]"\<close>.
\<close>

type_synonym variant_tuple_tiktok = "pyval \<times> pyval \<times> pyval \<times> pyval \<times> pyval"

definition read_variant_tiktok :: "pyval \<Rightarrow> pyerror + variant_tuple_tiktok" where
  "read_variant_tiktok i =
     bind_exc (getattr i ''Bitrate'') (\<lambda>br.
     bind_exc (bind_exc (getattr i ''PlayAddr'') (\<lambda>p. getattr p ''DataSize'')) (\<lambda>sz.
     bind_exc (bind_exc (getattr i ''PlayAddr'') (\<lambda>p. getattr p ''Height'')) (\<lambda>h.
     bind_exc (bind_exc (getattr i ''PlayAddr'') (\<lambda>p. getattr p ''Width'')) (\<lambda>w.
     bind_exc (bind_exc (getattr i ''PlayAddr'') (\<lambda>p. getattr p ''UrlList'')) (\<lambda>urls.
     Inr (br, sz, h, w, urls))))))"

definition variant_key_tiktok :: "variant_tuple_tiktok \<Rightarrow> pyerror + pyval list" where
  "variant_key_tiktok x =
     (case x of (br, sz, h, w, urls) \<Rightarrow>
        bind_exc (py_max h w) (\<lambda>m. Inr [m, br, sz]))"

definition video_download_try_tiktok ::
    "config \<Rightarrow> pyval \<Rightarrow> pyerror + pyval \<times> pyval \<times> pyval" where
  "video_download_try_tiktok cfg bitrate_info =
     bind_exc (py_iter bitrate_info) (\<lambda>items.
     bind_exc (map_exc read_variant_tiktok items) (\<lambda>tuples.
     bind_exc (sort_by_key variant_key_tiktok tuples) (\<lambda>sorted.
       if sorted \<noteq> [] then
         (case last sorted of (br, sz, h, w, urls) \<Rightarrow>
            bind_exc (subscript urls (VIDEO_TIKTOK_INDEX cfg)) (\<lambda>u. Inr (h, w, u)))
       else Inr (PInt (- 1), PInt (- 1), PStr []))))"

definition video_download_degrade_tiktok ::
    "config \<Rightarrow> pyval \<Rightarrow> pyerror + pyval \<times> pyval \<times> pyval" where
  "video_download_degrade_tiktok cfg bitrate_info =
     bind_exc (subscript bitrate_info 0) (\<lambda>first.
     bind_exc (safe_extract first ''PlayAddr.Height'' (PInt (- 1))) (\<lambda>h.
     bind_exc (safe_extract first ''PlayAddr.Width'' (PInt (- 1))) (\<lambda>w.
     bind_exc (safe_extract first
         (''PlayAddr.UrlList['' @ dec_int (VIDEO_TIKTOK_INDEX cfg) @ '']'') (PStr [])) (\<lambda>u.
     Inr (h, w, u)))))"

definition extract_video_download_tiktok ::
    "config \<Rightarrow> pyval \<Rightarrow> (pyval \<times> pyval \<times> pyval) prog" where
  "extract_video_download_tiktok cfg data =
     bind_st (lift_exc (safe_extract data ''video.bitrateInfo'' (PList []))) (\<lambda>bitrate_info.
       case video_download_try_tiktok cfg bitrate_info of
         Inr r \<Rightarrow> ret r
       | Inl e \<Rightarrow>
           if e = AttributeError then
             bind_st (log_write (LogVideoParseFailed data))
               (\<lambda>u. lift_exc (video_download_degrade_tiktok cfg bitrate_info))
           else raise e)"

subsection \<open>Well-formed variants\<close>

text \<open>
  A variant as the selector expects it: integer frame rate, bit rate, byte size, height and
  width, and a list of URL strings. \<open>variant_obj\<close> and \<open>variant_obj_tiktok\<close> are the
  values the two comprehensions read from such a variant.
\<close>

record variant =
  v_fps :: int
  v_bit_rate :: int
  v_size :: int
  v_height :: int
  v_width :: int
  v_urls :: "string list"

definition variant_values :: "variant \<Rightarrow> variant_tuple" where
  "variant_values v =
     (PInt (v_fps v), PInt (v_bit_rate v), PInt (v_size v), PInt (v_height v),
      PInt (v_width v), PList (map PStr (v_urls v)))"

definition variant_values_tiktok :: "variant \<Rightarrow> variant_tuple_tiktok" where
  "variant_values_tiktok v =
     (PInt (v_bit_rate v), PInt (v_size v), PInt (v_height v),
      PInt (v_width v), PList (map PStr (v_urls v)))"

definition key_a :: "variant \<Rightarrow> int \<times> int \<times> int \<times> int" where
  "key_a v = (max (v_height v) (v_width v), v_fps v, v_bit_rate v, v_size v)"

definition key_b :: "variant \<Rightarrow> int \<times> int \<times> int" where
  "key_b v = (max (v_height v) (v_width v), v_bit_rate v, v_size v)"

text \<open>The sort keys of a well-formed variant as the two \<^verbatim>\<open>key\<close> lambdas build them.\<close>

definition keylist_a :: "variant \<Rightarrow> pyval list" where
  "keylist_a v =
     [PInt (max (v_height v) (v_width v)), PInt (v_fps v), PInt (v_bit_rate v), PInt (v_size v)]"

definition keylist_b :: "variant \<Rightarrow> pyval list" where
  "keylist_b v = [PInt (max (v_height v) (v_width v)), PInt (v_bit_rate v), PInt (v_size v)]"

text \<open>The element a valid Python index selects.\<close>

definition py_nth :: "'a list \<Rightarrow> int \<Rightarrow> 'a" where
  "py_nth xs i = xs ! nat (if i < 0 then i + int (length xs) else i)"

definition index_ok :: "'a list \<Rightarrow> int \<Rightarrow> bool" where
  "index_ok xs i = (- int (length xs) \<le> i \<and> i < int (length xs))"

text \<open>
  What the handler of the selector reads from the first raw variant: height and width under
  the address object, each replaced by \<open>-1\<close> when missing or falsy, and the URL candidate
  at an index, replaced by the empty string when it cannot be read or is falsy.
\<close>

definition first_variant_values ::
    "pyval \<Rightarrow> string \<Rightarrow> string \<Rightarrow> string \<Rightarrow> string \<Rightarrow> int \<Rightarrow> pyval \<times> pyval \<times> pyval" where
  "first_variant_values first addr h w urls i =
     (py_or (getattr_none (getattr_none first addr) h) (PInt (- 1)),
      py_or (getattr_none (getattr_none first addr) w) (PInt (- 1)),
      (case subscript (getattr_none (getattr_none first addr) urls) i of
         Inr u \<Rightarrow> py_or u (PStr [])
       | Inl e \<Rightarrow> PStr []))"

section \<open>Collaborators and constants\<close>

text \<open>
  The text cleaner, the clock and time zone, the JSON writer, the message catalogue, the
  recorder's column list and the custom filter are collaborators of the extractor. They
  are the fields of \<open>deps\<close>:
  \<^item> \<open>cleaner_filter\<close>, \<open>cleaner_clear_spaces\<close>: \<^verbatim>\<open>self.cleaner.filter\<close> and
    \<^verbatim>\<open>self.cleaner.clear_spaces\<close>;
  \<^item> \<open>cleaner_filter_name\<close>: \<^verbatim>\<open>self.cleaner.filter_name(text, default)\<close>, the second
    argument \<open>None\<close> where the call omits it;
  \<^item> \<open>format_time\<close>: \<^verbatim>\<open>strftime(self.date_format, localtime(t))\<close>, \<open>None\<close> for the
    current time;
  \<^item> \<open>collection_time\<close>: \<^verbatim>\<open>datetime.now().strftime(self.date_format)\<close>;
  \<^item> \<open>json_dumps\<close>: \<^verbatim>\<open>dumps(e, ensure_ascii=False, indent=2, default=...)\<close>;
  \<^item> \<open>tz_offset\<close>: the offset of local time from UTC, in seconds, at an instant;
  \<^item> \<open>translate\<close>: the message catalogue \<^verbatim>\<open>_\<close>;
  \<^item> \<open>container_str\<close>: \<^verbatim>\<open>str(v)\<close> of a list, dictionary or namespace;
  \<^item> \<open>field_keys\<close>: \<^verbatim>\<open>record.field_keys\<close>;
  \<^item> \<open>hook\<close>: the custom filter \<^verbatim>\<open>condition_filter\<close>, which counts in
    \<^verbatim>\<open>filter_stats\<close>.
\<close>

type_synonym item = "(string \<times> pyval) list"

record deps =
  cleaner_filter :: "pyval \<Rightarrow> pyerror + pyval"
  cleaner_clear_spaces :: "pyval \<Rightarrow> pyerror + pyval"
  cleaner_filter_name :: "pyval \<Rightarrow> pyval option \<Rightarrow> pyerror + string"
  format_time :: "int option \<Rightarrow> pyerror + string"
  collection_time :: string
  json_dumps :: "pyval \<Rightarrow> pyerror + string"
  tz_offset :: "int \<Rightarrow> int"
  translate :: "string \<Rightarrow> string"
  container_str :: "pyval \<Rightarrow> string"
  field_keys :: "string list"
  hook :: "item \<Rightarrow> filter_stats \<Rightarrow> bool \<times> filter_stats"

text \<open>
  The type names and the two fallback nicknames of the source are Chinese string literals;
  they are given by their UTF-8 bytes: \<open>TYPE_VIDEO\<close> is the literal for a video,
  \<open>TYPE_IMAGES\<close> for an image set, \<open>TYPE_LIVE\<close> for a live-photo set.
\<close>

definition TYPE_VIDEO :: string where
  "TYPE_VIDEO = [CHR 0xE8, CHR 0xA7, CHR 0x86, CHR 0xE9, CHR 0xA2, CHR 0x91]"

definition TYPE_IMAGES :: string where
  "TYPE_IMAGES = [CHR 0xE5, CHR 0x9B, CHR 0xBE, CHR 0xE9, CHR 0x9B, CHR 0x86]"

definition TYPE_LIVE :: string where
  "TYPE_LIVE = [CHR 0xE5, CHR 0xAE, CHR 0x9E, CHR 0xE5, CHR 0x86, CHR 0xB5]"

definition NAME_CANCELLED :: string where
  "NAME_CANCELLED =
     [CHR 0xE5, CHR 0xB7, CHR 0xB2, CHR 0xE6, CHR 0xB3, CHR 0xA8, CHR 0xE9, CHR 0x94, CHR 0x80,
      CHR 0xE8, CHR 0xB4, CHR 0xA6, CHR 0xE5, CHR 0x8F, CHR 0xB7]"

definition NAME_INVALID :: string where
  "NAME_INVALID =
     [CHR 0xE6, CHR 0x97, CHR 0xA0, CHR 0xE6, CHR 0x95, CHR 0x88, CHR 0xE8, CHR 0xB4, CHR 0xA6,
      CHR 0xE5, CHR 0x8F, CHR 0xB7, CHR 0xE6, CHR 0x98, CHR 0xB5, CHR 0xE7, CHR 0xA7, CHR 0xB0]"

text \<open>A value read as a number: \<^verbatim>\<open>True\<close> is 1 and \<^verbatim>\<open>False\<close> is 0.\<close>

fun as_int :: "pyval \<Rightarrow> int option" where
  "as_int (PInt i) = Some i"
| "as_int (PBool b) = Some (if b then 1 else 0)"
| "as_int v = None"

text \<open>\<^verbatim>\<open>str(v)\<close>, as an f-string formats a value.\<close>

definition py_str :: "deps \<Rightarrow> pyval \<Rightarrow> string" where
  "py_str d v =
     (case v of
        PStr s \<Rightarrow> s
      | PInt i \<Rightarrow> dec_int i
      | PBool b \<Rightarrow> (if b then ''True'' else ''False'')
      | PNone \<Rightarrow> ''None''
      | _ \<Rightarrow> container_str d v)"

text \<open>Dictionary access: \<^verbatim>\<open>d[key]\<close>, \<^verbatim>\<open>d.get(key)\<close> and \<^verbatim>\<open>d[key] = v\<close>.\<close>

definition dict_get :: "item \<Rightarrow> string \<Rightarrow> pyerror + pyval" where
  "dict_get d k = (case map_of d k of Some v \<Rightarrow> Inr v | None \<Rightarrow> Inl KeyError)"

definition dict_get_none :: "item \<Rightarrow> string \<Rightarrow> pyval" where
  "dict_get_none d k = (case map_of d k of Some v \<Rightarrow> v | None \<Rightarrow> PNone)"

fun dict_set :: "string \<Rightarrow> pyval \<Rightarrow> item \<Rightarrow> item" where
  "dict_set k v [] = [(k, v)]"
| "dict_set k v (kv # d) = (if fst kv = k then (k, v) # d else kv # dict_set k v d)"

text \<open>
  \<^verbatim>\<open>value[key]\<close> with a string key: a dictionary looks the key up, a list or string wants
  an integer, nothing else is subscriptable.
\<close>

fun subscript_key :: "pyval \<Rightarrow> string \<Rightarrow> pyerror + pyval" where
  "subscript_key (PDict kvs) k = dict_get kvs k"
| "subscript_key v k = Inl TypeError"

section \<open>Share links\<close>

text \<open>
  \<^verbatim>\<open>
  match bool(unique_id), type_:
      case True, "<video>":  return "https://www.tiktok.com/@" + unique_id + "/video/" + id_
      case True, "<images>": return "https://www.tiktok.com/@" + unique_id + "/photo/" + id_
      case False, "<video>": return "https://www.douyin.com/video/" + id_
      case False, "<images>" | "<live>": return "https://www.douyin.com/note/" + id_
      case _: return ""
  \<close>
  The source writes the four links as f-strings, which format the handle and the identifier
  with \<^verbatim>\<open>str\<close>.
\<close>

definition generate_link :: "deps \<Rightarrow> pyval \<Rightarrow> pyval \<Rightarrow> pyval \<Rightarrow> string" where
  "generate_link d wtype wid unique_id =
     (if truthy unique_id \<and> wtype = PStr TYPE_VIDEO then
        ''https://www.tiktok.com/@'' @ py_str d unique_id @ ''/video/'' @ py_str d wid
      else if truthy unique_id \<and> wtype = PStr TYPE_IMAGES then
        ''https://www.tiktok.com/@'' @ py_str d unique_id @ ''/photo/'' @ py_str d wid
      else if \<not> truthy unique_id \<and> wtype = PStr TYPE_VIDEO then
        ''https://www.douyin.com/video/'' @ py_str d wid
      else if \<not> truthy unique_id \<and> (wtype = PStr TYPE_IMAGES \<or> wtype = PStr TYPE_LIVE) then
        ''https://www.douyin.com/note/'' @ py_str d wid
      else [])"

text \<open>
  \<^verbatim>\<open>
  item["ratio"] = self.safe_extract(data, "video.ratio")
  item["share_url"] = self.__generate_link(
      item["type"], item["id"], item["unique_id"] if tiktok else None)
  \<close>
\<close>

definition extract_additional_info :: "deps \<Rightarrow> item \<Rightarrow> pyval \<Rightarrow> bool \<Rightarrow> pyerror + item" where
  "extract_additional_info d item data tiktok =
     bind_exc (safe_extract data ''video.ratio'' (PStr [])) (\<lambda>ratio.
     bind_exc (dict_get item ''type'') (\<lambda>wtype.
     bind_exc (dict_get item ''id'') (\<lambda>wid.
     bind_exc (if tiktok then dict_get item ''unique_id'' else Inr PNone) (\<lambda>unique_id.
     Inr (dict_set ''share_url'' (PStr (generate_link d wtype wid unique_id))
            (dict_set ''ratio'' ratio item))))))"

section \<open>Date filters\<close>

text \<open>
  \<^verbatim>\<open>datetime.fromtimestamp(t).date()\<close>: the local calendar date of an instant. A date is
  its proleptic Gregorian ordinal (\<^verbatim>\<open>date.toordinal()\<close>: 1 January 1970 is 719163,
  31 December 9999 is 3652059), so that dates compare as the ordinals do. A value that is
  no number raises \<^verbatim>\<open>TypeError\<close>; an instant outside the years 1 to 9999 raises (the
  kind of exception depends on the platform and is \<^verbatim>\<open>ValueError\<close> here).
\<close>

definition date_of_timestamp :: "deps \<Rightarrow> pyval \<Rightarrow> pyerror + int" where
  "date_of_timestamp d v =
     (case as_int v of
        None \<Rightarrow> Inl TypeError
      | Some t \<Rightarrow>
          (let day = 719163 + (t + tz_offset d t) div 86400
           in if 1 \<le> day \<and> day \<le> 3652059 then Inr day else Inl ValueError))"

text \<open>A filtering loop whose test may raise.\<close>

fun filter_exc :: "('a \<Rightarrow> pyerror + bool) \<Rightarrow> 'a list \<Rightarrow> pyerror + 'a list" where
  "filter_exc p [] = Inr []"
| "filter_exc p (x # xs) =
     bind_exc (p x) (\<lambda>b. bind_exc (filter_exc p xs) (\<lambda>r. Inr (if b then x # r else r)))"

text \<open>\<^verbatim>\<open>item.get(key, default)\<close> on a raw payload item.\<close>

fun py_get :: "pyval \<Rightarrow> string \<Rightarrow> pyval \<Rightarrow> pyerror + pyval" where
  "py_get (PDict kvs) k dflt = Inr (case map_of kvs k of Some v \<Rightarrow> v | None \<Rightarrow> dflt)"
| "py_get v k dflt = Inl AttributeError"

text \<open>
  \<^verbatim>\<open>
  def __source_date_filter(self, data, key="create_time", earliest=..., latest=...):
      result = []
      for item in data:
          if not (create_time := item.get(key, 0)):
              result.append(item)
              continue
          create_time = datetime.fromtimestamp(create_time).date()
          if earliest <= create_time <= latest:
              result.append(item)
      self.__summary_detail(result)
      return result
  \<close>
\<close>

definition source_keeps :: "deps \<Rightarrow> string \<Rightarrow> int \<Rightarrow> int \<Rightarrow> pyval \<Rightarrow> pyerror + bool" where
  "source_keeps d key earliest latest item =
     bind_exc (py_get item key (PInt 0)) (\<lambda>create_time.
       if \<not> truthy create_time then Inr True
       else bind_exc (date_of_timestamp d create_time)
              (\<lambda>day. Inr (earliest \<le> day \<and> day \<le> latest)))"

definition summary_detail :: "'a list \<Rightarrow> unit prog" where
  "summary_detail data = log_write (LogSummary (length data))"

definition source_date_filter_impl ::
    "deps \<Rightarrow> pyval list \<Rightarrow> string \<Rightarrow> int \<Rightarrow> int \<Rightarrow> pyval list prog" where
  "source_date_filter_impl d data key earliest latest =
     bind_st (lift_exc (filter_exc (source_keeps d key earliest latest) data)) (\<lambda>result.
     bind_st (summary_detail result) (\<lambda>u. ret result))"

definition source_date_filter ::
    "deps \<Rightarrow> pyval list \<Rightarrow> int \<Rightarrow> int \<Rightarrow> bool \<Rightarrow> pyval list prog" where
  "source_date_filter d data earliest latest tiktok =
     (if tiktok then source_date_filter_impl d data ''createTime'' earliest latest
      else source_date_filter_impl d data ''create_time'' earliest latest)"

section \<open>Identity preprocessing\<close>

definition extract_params_tiktok :: "(string \<times> string) list" where
  "extract_params_tiktok =
     [(''sec_uid'', ''author.secUid''), (''mix_id'', ''playlistId''), (''uid'', ''author.id''),
      (''nickname'', ''author.nickname''), (''mix_title'', ''playlistId'')]"

definition extract_params :: "(string \<times> string) list" where
  "extract_params =
     [(''sec_uid'', ''author.sec_uid''), (''mix_id'', ''mix_info.mix_id''),
      (''uid'', ''author.uid''), (''nickname'', ''author.nickname''),
      (''mix_title'', ''mix_info.mix_name'')]"

definition extract_param :: "bool \<Rightarrow> string \<Rightarrow> pyerror + string" where
  "extract_param tiktok k =
     (case map_of (if tiktok then extract_params_tiktok else extract_params) k of
        Some p \<Rightarrow> Inr p
      | None \<Rightarrow> Inl KeyError)"

text \<open>
  \<^verbatim>\<open>
  def get_user_info(self, data: dict) -> dict:
      try:
          return {"nickname": data["nickname"], "sec_uid": data["sec_uid"], "uid": data["uid"]}
      except (KeyError, TypeError):
          self.log.error(...)
          return {}
  \<close>
  \<^verbatim>\<open>get_user_info_tiktok\<close> reads \<^verbatim>\<open>data["user"]["nickname"]\<close>,
  \<^verbatim>\<open>data["user"]["secUid"]\<close> and \<^verbatim>\<open>data["user"]["id"]\<close>. \<open>user_fields\<close> is the
  dictionary display inside the \<^verbatim>\<open>try\<close>, \<open>user_info_or_empty\<close> the handler.
\<close>

definition user_info_or_empty :: "pyval \<Rightarrow> pyerror + item \<Rightarrow> item prog" where
  "user_info_or_empty data r =
     (case r of
        Inr info \<Rightarrow> ret info
      | Inl e \<Rightarrow>
          if e = KeyError \<or> e = TypeError then
            bind_st (log_write (LogUserInfoFailed data)) (\<lambda>u. ret [])
          else raise e)"

definition user_fields :: "pyval \<Rightarrow> pyerror + item" where
  "user_fields data =
     bind_exc (subscript_key data ''nickname'') (\<lambda>n.
     bind_exc (subscript_key data ''sec_uid'') (\<lambda>s.
     bind_exc (subscript_key data ''uid'') (\<lambda>u.
     Inr [(''nickname'', n), (''sec_uid'', s), (''uid'', u)])))"

definition user_fields_tiktok :: "pyval \<Rightarrow> pyerror + item" where
  "user_fields_tiktok data =
     bind_exc (bind_exc (subscript_key data ''user'') (\<lambda>x. subscript_key x ''nickname'')) (\<lambda>n.
     bind_exc (bind_exc (subscript_key data ''user'') (\<lambda>x. subscript_key x ''secUid'')) (\<lambda>s.
     bind_exc (bind_exc (subscript_key data ''user'') (\<lambda>x. subscript_key x ''id'')) (\<lambda>u.
     Inr [(''nickname'', n), (''sec_uid'', s), (''uid'', u)])))"

definition get_user_info :: "pyval \<Rightarrow> item prog" where
  "get_user_info data = user_info_or_empty data (user_fields data)"

definition get_user_info_tiktok :: "pyval \<Rightarrow> item prog" where
  "get_user_info_tiktok data = user_info_or_empty data (user_fields_tiktok data)"

text \<open>
  \<^verbatim>\<open>__select_item\<close>: the first element whose value under \<^verbatim>\<open>key\<close> equals the
  identifier, as a data object; \<^verbatim>\<open>DownloaderError\<close> when there is none.
\<close>

fun select_item :: "pyval list \<Rightarrow> string \<Rightarrow> string \<Rightarrow> pyerror + pyval" where
  "select_item [] ident key = Inl DownloaderError"
| "select_item (x # xs) ident key =
     bind_exc (safe_extract (generate_data_object x) key (PStr [])) (\<lambda>v.
       if v = PStr ident then Inr (generate_data_object x) else select_item xs ident key)"

text \<open>
  \<^verbatim>\<open>
  id_ = self.safe_extract(item, id_)
  name = self.cleaner.filter_name(title or self.safe_extract(item, name, id_))
  mark = self.cleaner.filter_name(mark, name)
  return id_, name.strip(), mark.strip()
  \<close>
\<close>

definition extract_pretreatment_data ::
    "deps \<Rightarrow> pyval \<Rightarrow> string \<Rightarrow> string \<Rightarrow> pyval \<Rightarrow> pyval \<Rightarrow> pyerror + pyval \<times> pyval \<times> pyval" where
  "extract_pretreatment_data d item id_key name_key mark title =
     bind_exc (safe_extract item id_key (PStr [])) (\<lambda>ident.
     bind_exc (if truthy title then Inr title else safe_extract item name_key ident) (\<lambda>raw.
     bind_exc (cleaner_filter_name d raw None) (\<lambda>name.
     bind_exc (cleaner_filter_name d mark (Some (PStr name))) (\<lambda>mark'.
     Inr (ident, PStr (py_strip name), PStr (py_strip mark'))))))"

text \<open>
  \<^verbatim>\<open>
  if isinstance(data, dict):
      info = self.get_user_info_tiktok(data) if tiktok else self.get_user_info(data)
      if user_id != (s := info.get("sec_uid")):
          self.log.error(...)
          return "", "", ""
      name = self.cleaner.filter_name(info["nickname"], info["uid"])
      mark = self.cleaner.filter_name(mark, name)
      return (info["uid"], name, mark)
  elif isinstance(data, list):
      match mode:
          case "post": ...
          case _: raise DownloaderError
  else:
      raise DownloaderError
  \<close>
  The expected identifier \<^verbatim>\<open>user_id\<close> is a string, so it differs from every value
  that is not that string.
\<close>

definition preprocessing_data ::
    "deps \<Rightarrow> pyval \<Rightarrow> bool \<Rightarrow> pyval \<Rightarrow> pyval \<Rightarrow> string \<Rightarrow> (pyval \<times> pyval \<times> pyval) prog" where
  "preprocessing_data d data tiktok mode mark user_id =
     (case data of
        PDict kvs \<Rightarrow>
          bind_st (if tiktok then get_user_info_tiktok data else get_user_info data) (\<lambda>info.
            if dict_get_none info ''sec_uid'' \<noteq> PStr user_id then
              bind_st (log_write (LogSecUidMismatch user_id (dict_get_none info ''sec_uid'')))
                (\<lambda>u. ret (PStr [], PStr [], PStr []))
            else
              lift_exc
                (bind_exc (dict_get info ''nickname'') (\<lambda>nickname.
                 bind_exc (dict_get info ''uid'') (\<lambda>uid.
                 bind_exc (cleaner_filter_name d nickname (Some uid)) (\<lambda>name.
                 bind_exc (cleaner_filter_name d mark (Some (PStr name))) (\<lambda>mark'.
                 Inr (uid, PStr name, PStr mark')))))))
      | PList xs \<Rightarrow>
          if mode = PStr ''post'' then
            lift_exc
              (bind_exc (extract_param tiktok ''sec_uid'') (\<lambda>key.
               bind_exc (select_item xs user_id key) (\<lambda>item.
               bind_exc (extract_param tiktok ''uid'') (\<lambda>id_key.
               bind_exc (extract_param tiktok ''nickname'') (\<lambda>name_key.
               extract_pretreatment_data d item id_key name_key mark PNone)))))
          else raise DownloaderError
      | _ \<Rightarrow> raise DownloaderError)"

section \<open>Per-item extraction\<close>

text \<open>
  Every extractor method writes fields into the dictionary \<^verbatim>\<open>item\<close> (in batch and
  detail mode: \<^verbatim>\<open>container.cache\<close>). Here it takes the dictionary and returns the
  updated one. \<open>put k m item\<close> is \<^verbatim>\<open>item[k] = m\<close> for a right-hand side that may raise.
\<close>

definition put :: "string \<Rightarrow> pyerror + pyval \<Rightarrow> item \<Rightarrow> pyerror + item" where
  "put k m item = bind_exc m (\<lambda>v. Inr (dict_set k v item))"

definition extract_description :: "pyval \<Rightarrow> pyerror + pyval" where
  "extract_description data = safe_extract data ''desc'' (PStr [])"

definition clean_description :: "deps \<Rightarrow> pyval \<Rightarrow> pyerror + pyval" where
  "clean_description d desc = bind_exc (cleaner_filter d desc) (cleaner_clear_spaces d)"

text \<open>\<^verbatim>\<open>strftime(self.date_format, localtime(data or None))\<close>\<close>

definition format_date :: "deps \<Rightarrow> pyval \<Rightarrow> pyerror + pyval" where
  "format_date d data =
     (if truthy data then
        (case as_int data of
           None \<Rightarrow> Inl TypeError
         | Some t \<Rightarrow> bind_exc (format_time d (Some t)) (\<lambda>s. Inr (PStr s)))
      else bind_exc (format_time d None) (\<lambda>s. Inr (PStr s)))"

text \<open>
  \<^verbatim>\<open>
  text = [self.safe_extract(i, "hashtag_name") for i in self.safe_extract(data, "text_extra", [])]
  item["text_extra"] = [i for i in text if i]
  \<close>
\<close>

definition extract_text_extra :: "item \<Rightarrow> pyval \<Rightarrow> pyerror + item" where
  "extract_text_extra item data =
     bind_exc (safe_extract data ''text_extra'' (PList [])) (\<lambda>extra.
     bind_exc (py_iter extra) (\<lambda>xs.
     bind_exc (map_exc (\<lambda>i. safe_extract i ''hashtag_name'' (PStr [])) xs) (\<lambda>text.
     Inr (dict_set ''text_extra'' (PList (filter truthy text)) item))))"

definition extract_text_extra_tiktok :: "item \<Rightarrow> pyval \<Rightarrow> pyerror + item" where
  "extract_text_extra_tiktok item data =
     bind_exc (safe_extract data ''textExtra'' (PList [])) (\<lambda>extra.
     bind_exc (py_iter extra) (\<lambda>xs.
     bind_exc (map_exc (\<lambda>i. safe_extract i ''hashtagName'' (PStr [])) xs) (\<lambda>text.
     Inr (dict_set ''text_extra'' (PList (filter truthy text)) item))))"

definition extract_cover :: "item \<Rightarrow> pyval \<Rightarrow> bool \<Rightarrow> pyerror + item" where
  "extract_cover item data has =
     (if has then
        bind_exc (put ''dynamic_cover''
                    (safe_extract data ''video.dynamic_cover.url_list[-1]'' (PStr [])) item)
          (put ''static_cover'' (safe_extract data ''video.cover.url_list[0]'' (PStr [])))
      else Inr (dict_set ''static_cover'' (PStr []) (dict_set ''dynamic_cover'' (PStr []) item)))"

definition extract_cover_tiktok :: "item \<Rightarrow> pyval \<Rightarrow> bool \<Rightarrow> pyerror + item" where
  "extract_cover_tiktok item data has =
     (if has then
        bind_exc (put ''dynamic_cover'' (safe_extract data ''video.dynamicCover'' (PStr [])) item)
          (put ''static_cover'' (safe_extract data ''video.cover'' (PStr [])))
      else Inr (dict_set ''static_cover'' (PStr []) (dict_set ''dynamic_cover'' (PStr []) item)))"

definition set_blank_data :: "item \<Rightarrow> pyval \<Rightarrow> string \<Rightarrow> pyerror + item" where
  "set_blank_data item data wtype =
     extract_cover
       (dict_set ''width'' (PInt (- 1))
         (dict_set ''height'' (PInt (- 1))
           (dict_set ''uri'' (PStr [])
             (dict_set ''duration'' (PStr ''00:00:00'')
               (dict_set ''type'' (PStr wtype) item)))))
       data False"

text \<open>The format specifications \<^verbatim>\<open>0>2d\<close> and \<^verbatim>\<open>02d\<close>: at least two characters.\<close>

definition pad2 :: "int \<Rightarrow> string" where
  "pad2 i = (if length (dec_int i) < 2 then CHR ''0'' # dec_int i else dec_int i)"

text \<open>
  \<^verbatim>\<open>
  second = time_ // 1000
  return f"{second // 3600:0>2d}:{second % 3600 // 60:0>2d}:{second % 3600 % 60:0>2d}"
  \<close>
\<close>

definition time_conversion :: "pyval \<Rightarrow> pyerror + pyval" where
  "time_conversion v =
     (case as_int v of
        None \<Rightarrow> Inl TypeError
      | Some t \<Rightarrow>
          (let second = t div 1000
           in Inr (PStr (pad2 (second div 3600) @ '':'' @ pad2 (second mod 3600 div 60) @ '':''
                         @ pad2 (second mod 3600 mod 60)))))"

text \<open>
  \<^verbatim>\<open>
  minutes, seconds = divmod(seconds, 60)
  hours, minutes = divmod(minutes, 60)
  return "{:02d}:{:02d}:{:02d}".format(int(hours), int(minutes), int(seconds))
  \<close>
\<close>

definition time_conversion_tiktok :: "pyval \<Rightarrow> pyerror + pyval" where
  "time_conversion_tiktok v =
     (case as_int v of
        None \<Rightarrow> Inl TypeError
      | Some s \<Rightarrow>
          Inr (PStr (pad2 (s div 60 div 60) @ '':'' @ pad2 (s div 60 mod 60) @ '':''
                     @ pad2 (s mod 60))))"

definition extract_video_info :: "item \<Rightarrow> pyval \<Rightarrow> string \<Rightarrow> item prog" where
  "extract_video_info item data wtype =
     bind_st (extract_video_download data) (\<lambda>hwd.
       lift_exc
         (case hwd of (h, w, dl) \<Rightarrow>
            bind_exc (put ''duration''
                        (bind_exc (safe_extract data ''video.duration'' (PInt 0)) time_conversion)
                        (dict_set ''downloads'' dl
                          (dict_set ''width'' w
                            (dict_set ''height'' h
                              (dict_set ''type'' (PStr wtype) item))))) (\<lambda>item.
            bind_exc (put ''uri'' (safe_extract data ''video.play_addr.uri'' (PStr [])) item) (\<lambda>item.
            extract_cover item data True))))"

definition extract_video_info_tiktok :: "config \<Rightarrow> item \<Rightarrow> pyval \<Rightarrow> string \<Rightarrow> item prog" where
  "extract_video_info_tiktok cfg item data wtype =
     bind_st (extract_video_download_tiktok cfg data) (\<lambda>hwd.
       lift_exc
         (case hwd of (h, w, dl) \<Rightarrow>
            bind_exc (put ''duration''
                        (bind_exc (safe_extract data ''video.duration'' (PInt 0))
                           time_conversion_tiktok)
                        (dict_set ''downloads'' dl
                          (dict_set ''width'' w
                            (dict_set ''height'' h
                              (dict_set ''type'' (PStr wtype) item))))) (\<lambda>item.
            bind_exc (put ''uri''
                        (safe_extract data
                           (''video.bitrateInfo['' @ dec_int (BITRATE_INFO_TIKTOK_INDEX cfg)
                              @ ''].PlayAddr.Uri'') (PStr [])) item) (\<lambda>item.
            extract_cover_tiktok item data True))))"

text \<open>
  \<^verbatim>\<open>
  if self.safe_extract(item, "video"):
      return self.__extract_video_download(item)[-1]
  return self.safe_extract(item, "url_list[-1]")
  \<close>
\<close>

definition classify_slides_item :: "pyval \<Rightarrow> pyval prog" where
  "classify_slides_item i =
     bind_st (lift_exc (safe_extract i ''video'' (PStr []))) (\<lambda>v.
       if truthy v then
         bind_st (extract_video_download i) (\<lambda>hwd. case hwd of (h, w, dl) \<Rightarrow> ret dl)
       else lift_exc (safe_extract i ''url_list[-1]'' (PStr [])))"

text \<open>\<^verbatim>\<open>any(f(i) for i in xs)\<close> stops at the first true element.\<close>

fun any_exc :: "('a \<Rightarrow> pyerror + pyval) \<Rightarrow> 'a list \<Rightarrow> pyerror + bool" where
  "any_exc f [] = Inr False"
| "any_exc f (x # xs) = bind_exc (f x) (\<lambda>v. if truthy v then Inr True else any_exc f xs)"

definition extract_image_info :: "deps \<Rightarrow> item \<Rightarrow> pyval \<Rightarrow> pyval \<Rightarrow> item prog" where
  "extract_image_info d item data images =
     bind_st (lift_exc (py_iter images)) (\<lambda>xs.
     bind_st (lift_exc (any_exc (\<lambda>i. safe_extract i ''video'' (PStr [])) xs)) (\<lambda>has_video.
       if has_video then
         bind_st (lift_exc (set_blank_data item data (translate d TYPE_LIVE))) (\<lambda>item.
         bind_st (map_st classify_slides_item xs) (\<lambda>dls.
         ret (dict_set ''downloads'' (PList dls) item)))
       else
         lift_exc
           (bind_exc (set_blank_data item data (translate d TYPE_IMAGES)) (\<lambda>item.
            bind_exc (map_exc (\<lambda>i. safe_extract i ''url_list[-1]'' (PStr [])) xs) (\<lambda>dls.
            Inr (dict_set ''downloads'' (PList dls) item))))))"

definition extract_image_info_tiktok ::
    "deps \<Rightarrow> config \<Rightarrow> item \<Rightarrow> pyval \<Rightarrow> pyval \<Rightarrow> pyerror + item" where
  "extract_image_info_tiktok d cfg item data images =
     bind_exc (set_blank_data item data (translate d TYPE_IMAGES)) (\<lambda>item.
     bind_exc (py_iter images) (\<lambda>xs.
     bind_exc (map_exc (\<lambda>i. safe_extract i
                  (''imageURL.urlList['' @ dec_int (IMAGE_TIKTOK_INDEX cfg) @ '']'') (PStr [])) xs)
       (\<lambda>dls. Inr (dict_set ''downloads'' (PList dls) item))))"

definition classifying_detail :: "deps \<Rightarrow> item \<Rightarrow> pyval \<Rightarrow> item prog" where
  "classifying_detail d item data =
     bind_st (lift_exc (safe_extract data ''images'' (PStr []))) (\<lambda>images.
       if truthy images then extract_image_info d item data images
       else extract_video_info item data (translate d TYPE_VIDEO))"

definition classifying_detail_tiktok :: "deps \<Rightarrow> config \<Rightarrow> item \<Rightarrow> pyval \<Rightarrow> item prog" where
  "classifying_detail_tiktok d cfg item data =
     bind_st (lift_exc (safe_extract data ''imagePost.images'' (PStr []))) (\<lambda>images.
       if truthy images then lift_exc (extract_image_info_tiktok d cfg item data images)
       else extract_video_info_tiktok cfg item data (translate d TYPE_VIDEO))"

text \<open>
  \<^verbatim>\<open>
  item["id"] = self.safe_extract(data, "aweme_id")
  item["desc"] = (self.__clean_description(self.__extract_description(data)) or item["id"])
  item["create_timestamp"] = self.safe_extract(data, "create_time")
  item["create_time"] = self.__format_date(item["create_timestamp"])
  self.__extract_text_extra(item, data)
  self.__classifying_detail(item, data)
  \<close>
\<close>

definition detail_fields :: "deps \<Rightarrow> string \<Rightarrow> string \<Rightarrow> item \<Rightarrow> pyval \<Rightarrow> pyerror + item" where
  "detail_fields d id_key time_key item data =
     bind_exc (safe_extract data id_key (PStr [])) (\<lambda>ident.
     bind_exc (bind_exc (extract_description data) (clean_description d)) (\<lambda>desc.
     bind_exc (safe_extract data time_key (PStr [])) (\<lambda>stamp.
     bind_exc (format_date d stamp) (\<lambda>formatted.
     Inr (dict_set ''create_time'' formatted
           (dict_set ''create_timestamp'' stamp
             (dict_set ''desc'' (py_or desc ident)
               (dict_set ''id'' ident item))))))))"

definition extract_detail_info :: "deps \<Rightarrow> item \<Rightarrow> pyval \<Rightarrow> item prog" where
  "extract_detail_info d item data =
     bind_st (lift_exc (detail_fields d ''aweme_id'' ''create_time'' item data)) (\<lambda>item.
     bind_st (lift_exc (extract_text_extra item data)) (\<lambda>item.
     classifying_detail d item data))"

definition extract_detail_info_tiktok :: "deps \<Rightarrow> config \<Rightarrow> item \<Rightarrow> pyval \<Rightarrow> item prog" where
  "extract_detail_info_tiktok d cfg item data =
     bind_st (lift_exc (detail_fields d ''id'' ''createTime'' item data)) (\<lambda>item.
     bind_st (lift_exc (extract_text_extra_tiktok item data)) (\<lambda>item.
     classifying_detail_tiktok d cfg item data))"

text \<open>
  The container of a pipeline run. Detail mode builds it with \<^verbatim>\<open>same=False\<close> and
  without name, mark and date range, which are then never read; \<^verbatim>\<open>container.cache\<close> is
  the dictionary the extraction functions pass along.
\<close>

record container =
  all_data :: "item list"
  template :: item
  cont_name :: pyval
  cont_mark :: pyval
  same :: bool
  earliest :: int
  latest :: int

text \<open>
  \<^verbatim>\<open>
  if container.same:
      container.cache["nickname"] = container.name
      container.cache["mark"] = container.mark or container.name
  else:
      name = self.cleaner.filter_name(
          self.safe_extract(data, "nickname", _("<cancelled account>")),
          default=_("<invalid nickname>"))
      container.cache["nickname"] = name
      container.cache["mark"] = name
  \<close>
\<close>

definition extract_nickname_info :: "deps \<Rightarrow> container \<Rightarrow> item \<Rightarrow> pyval \<Rightarrow> pyerror + item" where
  "extract_nickname_info d c item data =
     (if same c then
        Inr (dict_set ''mark'' (py_or (cont_mark c) (cont_name c))
              (dict_set ''nickname'' (cont_name c) item))
      else
        bind_exc (safe_extract data ''nickname'' (PStr (translate d NAME_CANCELLED))) (\<lambda>raw.
        bind_exc (cleaner_filter_name d raw (Some (PStr (translate d NAME_INVALID)))) (\<lambda>name.
        Inr (dict_set ''mark'' (PStr name) (dict_set ''nickname'' (PStr name) item)))))"

definition extract_account_info :: "deps \<Rightarrow> container \<Rightarrow> item \<Rightarrow> pyval \<Rightarrow> pyerror + item" where
  "extract_account_info d c item data =
     bind_exc (safe_extract data ''author'' (PStr [])) (\<lambda>author.
     bind_exc (put ''uid'' (safe_extract author ''uid'' (PStr [])) item) (\<lambda>item.
     bind_exc (put ''sec_uid'' (safe_extract author ''sec_uid'' (PStr [])) item) (\<lambda>item.
     bind_exc (put ''unique_id'' (safe_extract author ''unique_id'' (PStr [])) item) (\<lambda>item.
     bind_exc (put ''signature'' (safe_extract author ''signature'' (PStr [])) item) (\<lambda>item.
     bind_exc (put ''user_age'' (safe_extract author ''user_age'' (PInt (- 1))) item) (\<lambda>item.
     extract_nickname_info d c item author))))))"

definition extract_account_info_tiktok ::
    "deps \<Rightarrow> container \<Rightarrow> item \<Rightarrow> pyval \<Rightarrow> pyerror + item" where
  "extract_account_info_tiktok d c item data =
     bind_exc (safe_extract data ''author'' (PStr [])) (\<lambda>author.
     bind_exc (put ''uid'' (safe_extract author ''id'' (PStr [])) item) (\<lambda>item.
     bind_exc (put ''sec_uid'' (safe_extract author ''secUid'' (PStr [])) item) (\<lambda>item.
     bind_exc (put ''unique_id'' (safe_extract author ''uniqueId'' (PStr [])) item) (\<lambda>item.
     bind_exc (put ''signature'' (safe_extract author ''signature'' (PStr [])) item) (\<lambda>item.
     extract_nickname_info d c (dict_set ''user_age'' (PInt (- 1)) item) author)))))"

definition extract_music :: "item \<Rightarrow> pyval \<Rightarrow> bool \<Rightarrow> pyerror + item" where
  "extract_music item data tiktok =
     bind_exc (safe_extract data ''music'' (PStr [])) (\<lambda>music_data.
     bind_exc
       (if truthy music_data then
          (if tiktok then
             bind_exc (safe_extract music_data ''authorName'' (PStr [])) (\<lambda>author.
             bind_exc (safe_extract music_data ''title'' (PStr [])) (\<lambda>title.
             bind_exc (safe_extract music_data ''playUrl'' (PStr [])) (\<lambda>url.
             Inr (author, title, url))))
           else
             bind_exc (safe_extract music_data ''author'' (PStr [])) (\<lambda>author.
             bind_exc (safe_extract music_data ''title'' (PStr [])) (\<lambda>title.
             bind_exc (safe_extract music_data ''play_url.url_list[-1]'' (PStr [])) (\<lambda>url.
             Inr (author, title, url)))))
        else Inr (PStr [], PStr [], PStr []))
       (\<lambda>atu. case atu of (author, title, url) \<Rightarrow>
          Inr (dict_set ''music_url'' url
                (dict_set ''music_title'' title
                  (dict_set ''music_author'' author item)))))"

definition statistics_keys :: "string list" where
  "statistics_keys =
     [''digg_count'', ''comment_count'', ''collect_count'', ''share_count'', ''play_count'']"

definition statistics_keys_tiktok :: "string list" where
  "statistics_keys_tiktok =
     [''diggCount'', ''commentCount'', ''collectCount'', ''shareCount'', ''playCount'']"

text \<open>The loops over the statistics keys: \<open>(target, source)\<close> pairs, in order.\<close>

fun put_statistics :: "(string \<times> string) list \<Rightarrow> pyval \<Rightarrow> item \<Rightarrow> pyerror + item" where
  "put_statistics [] data item = Inr item"
| "put_statistics (ks # rest) data item =
     bind_exc (put (fst ks) (safe_extract data (snd ks) (PInt (- 1))) item)
       (put_statistics rest data)"

definition extract_statistics :: "item \<Rightarrow> pyval \<Rightarrow> pyerror + item" where
  "extract_statistics item data =
     bind_exc (safe_extract data ''statistics'' (PStr [])) (\<lambda>stat.
       put_statistics (zip statistics_keys statistics_keys) stat item)"

definition extract_statistics_tiktok :: "item \<Rightarrow> pyval \<Rightarrow> pyerror + item" where
  "extract_statistics_tiktok item data =
     bind_exc (safe_extract data ''stats'' (PStr [])) (\<lambda>stat.
       put_statistics (zip statistics_keys statistics_keys_tiktok) stat item)"

definition extract_tags :: "item \<Rightarrow> pyval \<Rightarrow> pyerror + item" where
  "extract_tags item data =
     bind_exc (safe_extract data ''video_tag'' (PStr [])) (\<lambda>t.
       if \<not> truthy t then Inr (dict_set ''tag'' (PList []) item)
       else
         bind_exc (py_iter t) (\<lambda>xs.
         bind_exc (map_exc (\<lambda>i. safe_extract i ''tag_name'' (PStr [])) xs) (\<lambda>tags.
         Inr (dict_set ''tag'' (PList tags) item))))"

definition extract_tags_tiktok :: "item \<Rightarrow> pyval \<Rightarrow> pyerror + item" where
  "extract_tags_tiktok item data =
     bind_exc (safe_extract data ''textExtra'' (PStr [])) (\<lambda>t.
       if \<not> truthy t then Inr (dict_set ''tag'' (PList []) item)
       else
         bind_exc (py_iter t) (\<lambda>xs.
         bind_exc (map_exc (\<lambda>i. safe_extract i ''hashtagName'' (PStr [])) xs) (\<lambda>tags.
         Inr (dict_set ''tag'' (PList tags) item))))"

definition extract_extra_info :: "deps \<Rightarrow> item \<Rightarrow> pyval \<Rightarrow> pyerror + item" where
  "extract_extra_info d item data =
     bind_exc (safe_extract data ''anchor_info'' (PStr [])) (\<lambda>e.
       if truthy e then bind_exc (json_dumps d e) (\<lambda>s. Inr (dict_set ''extra'' (PStr s) item))
       else Inr (dict_set ''extra'' (PStr []) item))"

definition extract_extra_info_tiktok :: "item \<Rightarrow> pyval \<Rightarrow> pyerror + item" where
  "extract_extra_info_tiktok item data = Inr (dict_set ''extra'' (PStr []) item)"

text \<open>
  \<^verbatim>\<open>
  container.cache = container.template.copy()
  self.__extract_detail_info(container.cache, data)
  self.__extract_account_info(container, data)
  self.__extract_music(container.cache, data)
  self.__extract_statistics(container.cache, data)
  self.__extract_tags(container.cache, data)
  self.__extract_extra_info(container.cache, data)
  self.__extract_additional_info(container.cache, data)
  container.all_data.append(container.cache)
  \<close>
  \<open>extract_batch\<close> returns the finished \<^verbatim>\<open>cache\<close>; the caller appends it.
\<close>

definition extract_batch :: "deps \<Rightarrow> container \<Rightarrow> pyval \<Rightarrow> item prog" where
  "extract_batch d c data =
     bind_st (extract_detail_info d (template c) data) (\<lambda>item.
       lift_exc
         (bind_exc (extract_account_info d c item data) (\<lambda>item.
          bind_exc (extract_music item data False) (\<lambda>item.
          bind_exc (extract_statistics item data) (\<lambda>item.
          bind_exc (extract_tags item data) (\<lambda>item.
          bind_exc (extract_extra_info d item data) (\<lambda>item.
          extract_additional_info d item data False)))))))"

definition extract_batch_tiktok :: "deps \<Rightarrow> config \<Rightarrow> container \<Rightarrow> pyval \<Rightarrow> item prog" where
  "extract_batch_tiktok d cfg c data =
     bind_st (extract_detail_info_tiktok d cfg (template c) data) (\<lambda>item.
       lift_exc
         (bind_exc (extract_account_info_tiktok d c item data) (\<lambda>item.
          bind_exc (extract_music item data True) (\<lambda>item.
          bind_exc (extract_statistics_tiktok item data) (\<lambda>item.
          bind_exc (extract_tags_tiktok item data) (\<lambda>item.
          bind_exc (extract_extra_info_tiktok item data) (\<lambda>item.
          extract_additional_info d item data True)))))))"

section \<open>The normalization pipeline\<close>

text \<open>
  \<^verbatim>\<open>__platform_classify_detail\<close> converts every payload item to a data object and
  extracts it, appending each result to \<^verbatim>\<open>container.all_data\<close>.
\<close>

definition platform_classify_detail ::
    "deps \<Rightarrow> config \<Rightarrow> pyval list \<Rightarrow> container \<Rightarrow> bool \<Rightarrow> container prog" where
  "platform_classify_detail d cfg data c tiktok =
     bind_st
       (map_st (\<lambda>x. if tiktok then extract_batch_tiktok d cfg c (generate_data_object x)
                     else extract_batch d c (generate_data_object x)) data)
       (\<lambda>items. ret (c\<lparr>all_data := all_data c @ items\<rparr>))"

text \<open>\<^verbatim>\<open>[i for i in data if i.get(key)]\<close>\<close>

definition clean_extract_data :: "item list \<Rightarrow> string \<Rightarrow> item list" where
  "clean_extract_data data key = filter (\<lambda>i. truthy (dict_get_none i key)) data"

definition detail_necessary_keys :: string where
  "detail_necessary_keys = ''id''"

text \<open>\<^verbatim>\<open>for i in data: self.log.info(f"{i['type']} {i['id']} ...", False)\<close>\<close>

fun extract_item_records :: "item list \<Rightarrow> unit prog" where
  "extract_item_records [] = ret ()"
| "extract_item_records (i # data) =
     bind_st (lift_exc (dict_get i ''type'')) (\<lambda>t.
     bind_st (lift_exc (dict_get i ''id'')) (\<lambda>ident.
     bind_st (log_write (LogExtractOk t ident)) (\<lambda>u.
     extract_item_records data)))"

text \<open>
  \<^verbatim>\<open>
  for item in container.all_data:
      create_time = datetime.fromtimestamp(item["create_timestamp"]).date()
      if container.earliest <= create_time <= container.latest:
          result.append(item)
  container.all_data = result
  \<close>
\<close>

definition date_keeps :: "deps \<Rightarrow> container \<Rightarrow> item \<Rightarrow> pyerror + bool" where
  "date_keeps d c item =
     bind_exc (dict_get item ''create_timestamp'') (\<lambda>stamp.
     bind_exc (date_of_timestamp d stamp) (\<lambda>day.
     Inr (earliest c \<le> day \<and> day \<le> latest c)))"

definition date_filter :: "deps \<Rightarrow> container \<Rightarrow> container prog" where
  "date_filter d c =
     bind_st (lift_exc (filter_exc (date_keeps d c) (all_data c)))
       (\<lambda>result. ret (c\<lparr>all_data := result\<rparr>))"

text \<open>
  The custom filter as shipped in \<^verbatim>\<open>src/custom/function.py\<close>: it counts the item and
  keeps it.
  \<^verbatim>\<open>
  def condition_filter(data: dict) -> bool:
      filter_stats["total"] += 1
      return True
  \<close>
  The file suggests rules that a user may enable instead; the first one, commented out in
  the source, excludes image sets and live-photo sets:
  \<^verbatim>\<open>
  work_type = data.get("type")
  if work_type in ["<images>", "<live>"]:
      filter_stats["filtered"] += 1
      if work_type == "<images>": filter_stats["image"] += 1
      elif work_type == "<live>": filter_stats["live"] += 1
      return False
  \<close>
\<close>

definition condition_filter :: "item \<Rightarrow> filter_stats \<Rightarrow> bool \<times> filter_stats" where
  "condition_filter data fs = (True, fs\<lparr>total := total fs + 1\<rparr>)"

definition condition_filter_videos_only :: "item \<Rightarrow> filter_stats \<Rightarrow> bool \<times> filter_stats" where
  "condition_filter_videos_only data fs =
     (let fs1 = fs\<lparr>total := total fs + 1\<rparr>; work_type = dict_get_none data ''type''
      in if work_type = PStr TYPE_IMAGES then
           (False, fs1\<lparr>filtered := filtered fs1 + 1, image := image fs1 + 1\<rparr>)
         else if work_type = PStr TYPE_LIVE then
           (False, fs1\<lparr>filtered := filtered fs1 + 1, live := live fs1 + 1\<rparr>)
         else (True, fs1))"

text \<open>
  \<^verbatim>\<open>
  result = [i for i in container.all_data if condition_filter(i)]
  container.all_data = result
  \<close>
\<close>

fun filter_hook ::
    "(item \<Rightarrow> filter_stats \<Rightarrow> bool \<times> filter_stats) \<Rightarrow> item list \<Rightarrow> item list prog" where
  "filter_hook h [] = ret []"
| "filter_hook h (i # data) =
     (\<lambda>s. case h i (stats s) of
        (keep, fs) \<Rightarrow>
          bind_st (filter_hook h data) (\<lambda>r. ret (if keep then i # r else r))
            (s\<lparr>stats := fs\<rparr>))"

definition condition_filter_stage :: "deps \<Rightarrow> container \<Rightarrow> container prog" where
  "condition_filter_stage d c =
     bind_st (filter_hook (hook d) (all_data c)) (\<lambda>result. ret (c\<lparr>all_data := result\<rparr>))"

text \<open>
  \<^verbatim>\<open>
  async def __record_data(self, record, data):
      for i in data:
          await record.save(self.__extract_values(record, i))

  def __extract_values(record, data): return [data[key] for key in record.field_keys]
  \<close>
  \<^verbatim>\<open>record.save\<close> appends one row to the recorder.
\<close>

definition extract_values :: "deps \<Rightarrow> item \<Rightarrow> pyerror + pyval list" where
  "extract_values d data = map_exc (dict_get data) (field_keys d)"

definition record_save :: "pyval list \<Rightarrow> unit prog" where
  "record_save row = (\<lambda>s. (Inr (), s\<lparr>rows := rows s @ [row]\<rparr>))"

fun record_data :: "deps \<Rightarrow> item list \<Rightarrow> unit prog" where
  "record_data d [] = ret ()"
| "record_data d (i # data) =
     bind_st (lift_exc (extract_values d i)) (\<lambda>row.
     bind_st (record_save row) (\<lambda>u. record_data d data))"

text \<open>The two \<^verbatim>\<open>SimpleNamespace(...)\<close> containers the pipelines start from.\<close>

definition batch_container :: "deps \<Rightarrow> pyval \<Rightarrow> pyval \<Rightarrow> int \<Rightarrow> int \<Rightarrow> bool \<Rightarrow> container" where
  "batch_container d name mark earliest_date latest_date same_author =
     \<lparr>all_data = [], template = [(''collection_time'', PStr (collection_time d))],
      cont_name = name, cont_mark = mark, same = same_author,
      earliest = earliest_date, latest = latest_date\<rparr>"

definition detail_container :: "deps \<Rightarrow> container" where
  "detail_container d =
     \<lparr>all_data = [], template = [(''collection_time'', PStr (collection_time d))],
      cont_name = PNone, cont_mark = PNone, same = False, earliest = 0, latest = 0\<rparr>"

text \<open>
  \<^verbatim>\<open>
  async def __batch(self, data, recorder, tiktok, name, mark, earliest, latest, same=True):
      container = SimpleNamespace(all_data=[], template={"collection_time": ...}, ...)
      self.__platform_classify_detail(data, container, tiktok)
      container.all_data = self.__clean_extract_data(container.all_data, self.detail_necessary_keys)
      self.__extract_item_records(container.all_data)
      self.__date_filter(container)
      self.__condition_filter(container)
      await self.__record_data(recorder, container.all_data)
      self.__summary_detail(container.all_data)
      return container.all_data
  \<close>
\<close>

definition batch ::
    "deps \<Rightarrow> config \<Rightarrow> pyval list \<Rightarrow> bool \<Rightarrow> pyval \<Rightarrow> pyval \<Rightarrow> int \<Rightarrow> int \<Rightarrow> bool
      \<Rightarrow> item list prog" where
  "batch d cfg data tiktok name mark earliest_date latest_date same_author =
     bind_st (platform_classify_detail d cfg data
               (batch_container d name mark earliest_date latest_date same_author) tiktok) (\<lambda>c.
     bind_st (ret (c\<lparr>all_data := clean_extract_data (all_data c) detail_necessary_keys\<rparr>)) (\<lambda>c.
     bind_st (extract_item_records (all_data c)) (\<lambda>u.
     bind_st (date_filter d c) (\<lambda>c.
     bind_st (condition_filter_stage d c) (\<lambda>c.
     bind_st (record_data d (all_data c)) (\<lambda>u.
     bind_st (summary_detail (all_data c)) (\<lambda>u.
     ret (all_data c))))))))"

text \<open>
  \<^verbatim>\<open>
  async def __detail(self, data, recorder, tiktok):
      container = SimpleNamespace(all_data=[], template={...}, cache=None, same=False)
      self.__platform_classify_detail(data, container, tiktok)
      container.all_data = self.__clean_extract_data(container.all_data, self.detail_necessary_keys)
      self.__extract_item_records(container.all_data)
      await self.__record_data(recorder, container.all_data)
      self.__condition_filter(container)
      return container.all_data
  \<close>
\<close>

definition detail :: "deps \<Rightarrow> config \<Rightarrow> pyval list \<Rightarrow> bool \<Rightarrow> item list prog" where
  "detail d cfg data tiktok =
     bind_st (platform_classify_detail d cfg data (detail_container d) tiktok) (\<lambda>c.
     bind_st (ret (c\<lparr>all_data := clean_extract_data (all_data c) detail_necessary_keys\<rparr>)) (\<lambda>c.
     bind_st (extract_item_records (all_data c)) (\<lambda>u.
     bind_st (record_data d (all_data c)) (\<lambda>u.
     bind_st (condition_filter_stage d c) (\<lambda>c.
     ret (all_data c))))))"

text \<open>
  \<^verbatim>\<open>run\<close> dispatches on the mode name; the keyword arguments of batch mode are a record
  that is present exactly when the caller passes them.
\<close>

record batch_args =
  arg_name :: pyval
  arg_mark :: pyval
  arg_earliest :: int
  arg_latest :: int
  arg_same :: bool

definition run ::
    "deps \<Rightarrow> config \<Rightarrow> pyval list \<Rightarrow> string \<Rightarrow> bool \<Rightarrow> batch_args option \<Rightarrow> item list prog" where
  "run d cfg data mode tiktok kwargs =
     (if mode = ''batch'' then
        (case kwargs of
           Some a \<Rightarrow>
             batch d cfg data tiktok (arg_name a) (arg_mark a) (arg_earliest a) (arg_latest a)
               (arg_same a)
         | None \<Rightarrow> raise TypeError)
      else if mode = ''detail'' then
        (case kwargs of None \<Rightarrow> detail d cfg data tiktok | Some a \<Rightarrow> raise TypeError)
      else raise DownloaderError)"

text \<open>The \<^verbatim>\<open>sec_uid\<close> a profile payload carries, as the two readers look it up.\<close>

definition payload_sec_uid :: "bool \<Rightarrow> pyval \<Rightarrow> pyerror + pyval" where
  "payload_sec_uid tiktok data =
     (if tiktok then bind_exc (subscript_key data ''user'') (\<lambda>x. subscript_key x ''secUid'')
      else subscript_key data ''sec_uid'')"

text \<open>
  The rule of the raw-source date filter in the words of the specification: an item is kept
  when its native timestamp field is missing or falsy, or when the timestamp converts to a
  local calendar date within the inclusive range. \<open>source_item_ok\<close> holds of a payload
  item that is a dictionary whose timestamp, when present and truthy, is a number with a
  calendar date.
\<close>

definition timestamp_key :: "bool \<Rightarrow> string" where
  "timestamp_key tiktok = (if tiktok then ''createTime'' else ''create_time'')"

definition in_date_range :: "deps \<Rightarrow> int \<Rightarrow> int \<Rightarrow> pyval \<Rightarrow> bool" where
  "in_date_range d first_day last_day stamp =
     (case date_of_timestamp d stamp of
        Inr day \<Rightarrow> first_day \<le> day \<and> day \<le> last_day
      | Inl e \<Rightarrow> False)"

definition source_keeps_spec :: "deps \<Rightarrow> bool \<Rightarrow> int \<Rightarrow> int \<Rightarrow> pyval \<Rightarrow> bool" where
  "source_keeps_spec d tiktok first_day last_day item =
     (case item of
        PDict kvs \<Rightarrow>
          (case map_of kvs (timestamp_key tiktok) of
             None \<Rightarrow> True
           | Some stamp \<Rightarrow> \<not> truthy stamp \<or> in_date_range d first_day last_day stamp)
      | _ \<Rightarrow> False)"

definition source_item_ok :: "deps \<Rightarrow> bool \<Rightarrow> pyval \<Rightarrow> bool" where
  "source_item_ok d tiktok item =
     (case item of
        PDict kvs \<Rightarrow>
          (case map_of kvs (timestamp_key tiktok) of
             None \<Rightarrow> True
           | Some stamp \<Rightarrow>
               \<not> truthy stamp \<or>
               (case date_of_timestamp d stamp of Inr day \<Rightarrow> True | Inl e \<Rightarrow> False))
      | _ \<Rightarrow> False)"

section \<open>Auxiliary notions for the pipeline proofs\<close>

text \<open>
  A computation is \<open>quiet\<close> when it leaves the recorder and the counters alone and logs
  nothing but failures of the quality selector. \<open>hook_run\<close> is the custom-filter stage as
  a function of the counters: the items kept and the counters afterwards.
\<close>

definition is_parse_log :: "log_msg \<Rightarrow> bool" where
  "is_parse_log m = (case m of LogVideoParseFailed x \<Rightarrow> True | _ \<Rightarrow> False)"

definition quiet_step :: "pstate \<Rightarrow> pstate \<Rightarrow> bool" where
  "quiet_step s s' =
     (rows s' = rows s \<and> stats s' = stats s \<and>
      (\<exists>ls. logs s' = logs s @ ls \<and> list_all is_parse_log ls))"

definition quiet :: "'a prog \<Rightarrow> bool" where
  "quiet m = (\<forall>s. quiet_step s (snd (m s)))"

fun hook_run ::
    "(item \<Rightarrow> filter_stats \<Rightarrow> bool \<times> filter_stats) \<Rightarrow> item list \<Rightarrow> filter_stats
      \<Rightarrow> item list \<times> filter_stats" where
  "hook_run h [] fs = ([], fs)"
| "hook_run h (i # data) fs =
     (case h i fs of
        (keep, fs1) \<Rightarrow>
          (case hook_run h data fs1 of (r, fs2) \<Rightarrow> (if keep then i # r else r, fs2)))"

text \<open>
  Every item of a list has a truthy \<^verbatim>\<open>id\<close>; the log entries and recorder rows that a run
  adds to a state.
\<close>

definition ids_truthy :: "item list \<Rightarrow> bool" where
  "ids_truthy xs = list_all (\<lambda>i. truthy (dict_get_none i ''id'')) xs"

definition new_logs :: "pstate \<Rightarrow> pstate \<Rightarrow> log_msg list" where
  "new_logs s s' = drop (length (logs s)) (logs s')"

definition new_rows :: "pstate \<Rightarrow> pstate \<Rightarrow> pyval list list" where
  "new_rows s s' = drop (length (rows s)) (rows s')"

definition logged_id_truthy :: "log_msg \<Rightarrow> bool" where
  "logged_id_truthy m = (case m of LogExtractOk t i \<Rightarrow> truthy i | _ \<Rightarrow> True)"
section \<open>Concrete inputs\<close>

text \<open>The inputs at which the theorems below are instantiated.\<close>

definition st0 :: pstate where
  "st0 = \<lparr>logs = [], stats = \<lparr>total = 0, filtered = 0, image = 0, live = 0\<rparr>, rows = []\<rparr>"

definition cfg_first :: config where
  "cfg_first = \<lparr>VIDEO_TIKTOK_INDEX = 0, IMAGE_TIKTOK_INDEX = 0, BITRATE_INFO_TIKTOK_INDEX = 0\<rparr>"

text \<open>A Source-A variant and a Source-B variant as the platforms send them.\<close>

definition variant_json :: "variant \<Rightarrow> pyval" where
  "variant_json v =
     PDict [(''FPS'', PInt (v_fps v)), (''bit_rate'', PInt (v_bit_rate v)),
            (''play_addr'', PDict [(''data_size'', PInt (v_size v)),
                                   (''height'', PInt (v_height v)),
                                   (''width'', PInt (v_width v)),
                                   (''url_list'', PList (map PStr (v_urls v)))])]"

definition variant_json_tiktok :: "variant \<Rightarrow> pyval" where
  "variant_json_tiktok v =
     PDict [(''FPS'', PInt (v_fps v)), (''Bitrate'', PInt (v_bit_rate v)),
            (''PlayAddr'', PDict [(''DataSize'', PInt (v_size v)),
                                  (''Height'', PInt (v_height v)),
                                  (''Width'', PInt (v_width v)),
                                  (''UrlList'', PList (map PStr (v_urls v)))])]"

definition spec_variants :: "variant list" where
  "spec_variants =
     [\<lparr>v_fps = 30, v_bit_rate = 1000, v_size = 500, v_height = 480, v_width = 720,
        v_urls = [''u1'']\<rparr>,
      \<lparr>v_fps = 60, v_bit_rate = 2000, v_size = 900, v_height = 1080, v_width = 1920,
        v_urls = [''u2'', ''u3'']\<rparr>]"

definition fps_variants :: "variant list" where
  "fps_variants =
     [\<lparr>v_fps = 60, v_bit_rate = 100, v_size = 1, v_height = 10, v_width = 10,
        v_urls = [''a'']\<rparr>,
      \<lparr>v_fps = 30, v_bit_rate = 200, v_size = 1, v_height = 10, v_width = 10,
        v_urls = [''b'']\<rparr>]"

definition video_item :: "variant list \<Rightarrow> pyval" where
  "video_item vs =
     generate_data_object (PDict [(''video'', PDict [(''bit_rate'', PList (map variant_json vs))])])"

definition video_item_tiktok :: "variant list \<Rightarrow> pyval" where
  "video_item_tiktok vs =
     generate_data_object
       (PDict [(''video'', PDict [(''bitrateInfo'', PList (map variant_json_tiktok vs))])])"

text \<open>A Source-B variant without bit rate and size, and an item that carries only it.\<close>

definition partial_variant_tiktok :: pyval where
  "partial_variant_tiktok =
     PDict [(''PlayAddr'', PDict [(''Height'', PInt 5), (''Width'', PInt 6),
                                  (''UrlList'', PList [PStr ''u1'', PStr ''u2''])])]"

definition partial_item_tiktok :: pyval where
  "partial_item_tiktok =
     generate_data_object
       (PDict [(''video'', PDict [(''bitrateInfo'', PList [partial_variant_tiktok])])])"

text \<open>A Source-A variant without frame rate, and an item that carries only it.\<close>

definition partial_variant :: pyval where
  "partial_variant =
     PDict [(''bit_rate'', PInt 7),
            (''play_addr'', PDict [(''height'', PInt 5),
                                   (''url_list'', PList [PStr ''u1'', PStr ''u2''])])]"

definition partial_item :: pyval where
  "partial_item =
     generate_data_object (PDict [(''video'', PDict [(''bit_rate'', PList [partial_variant])])])"

text \<open>
  Collaborators for the concrete runs: a cleaner that changes nothing, a name filter that
  falls back to its default for an empty or missing name, UTC as the local time zone, the
  untranslated message catalogue, three recorder columns and the shipped custom filter.
\<close>

definition plain_filter_name :: "pyval \<Rightarrow> pyval option \<Rightarrow> pyerror + string" where
  "plain_filter_name text dflt =
     (case text of
        PStr (c # cs) \<Rightarrow> Inr (c # cs)
      | _ \<Rightarrow> (case dflt of Some (PStr s) \<Rightarrow> Inr s | _ \<Rightarrow> Inr []))"

definition deps0 :: deps where
  "deps0 =
     \<lparr>cleaner_filter = Inr, cleaner_clear_spaces = Inr,
      cleaner_filter_name = plain_filter_name,
      format_time = (\<lambda>t. Inr ''2024-06-15 12:00:00''),
      collection_time = ''2024-07-01 08:00:00'',
      json_dumps = (\<lambda>v. Inr ''{}''),
      tz_offset = (\<lambda>t. 0),
      translate = (\<lambda>s. s),
      container_str = (\<lambda>v. ''[]''),
      field_keys = [''id'', ''type'', ''share_url''],
      hook = condition_filter\<rparr>"

text \<open>
  Three payload items: a video created on 15 June 2024 (12:00 UTC), an image set created at
  the same instant, and an item with an identifier but no creation time.
\<close>

definition june_video :: pyval where
  "june_video = PDict [(''aweme_id'', PStr ''7001''), (''create_time'', PInt 1718452800)]"

definition june_images :: pyval where
  "june_images =
     PDict [(''aweme_id'', PStr ''7002''), (''create_time'', PInt 1718452800),
            (''images'', PList [PDict [(''url_list'', PList [PStr ''p1'', PStr ''p2''])]])]"

definition undated_video :: pyval where
  "undated_video = PDict [(''aweme_id'', PStr ''7003'')]"

definition no_id_video :: pyval where
  "no_id_video = PDict [(''create_time'', PInt 1718452800)]"

text \<open>A Source-B video whose author object carries no handle.\<close>

definition handleless_tiktok_video :: pyval where
  "handleless_tiktok_video =
     PDict [(''id'', PStr ''9001''), (''createTime'', PInt 1718452800),
            (''author'', PDict [(''nickname'', PStr ''bob'')])]"

text \<open>A profile payload with \<^verbatim>\<open>sec_uid\<close> \<open>X\<close>.\<close>

definition profile_x :: pyval where
  "profile_x = PDict [(''nickname'', PStr ''carol''), (''sec_uid'', PStr ''X''), (''uid'', PStr ''42'')]"

text \<open>The collaborators with the custom filter that excludes image and live-photo sets.\<close>

definition deps_videos_only :: deps where
  "deps_videos_only = deps0\<lparr>hook := condition_filter_videos_only\<rparr>"

text \<open>A payload item whose creation time is zero.\<close>

definition zero_time_video :: pyval where
  "zero_time_video = PDict [(''aweme_id'', PStr ''7004''), (''create_time'', PInt 0)]"
section \<open>Properties of path resolution\<close>

lemma bind_exc_simps [simp]:
  "bind_exc (Inl e) f = Inl e" "bind_exc (Inr a) f = f a"
  by (simp_all add: bind_exc_def)

lemma no_dict_map_of:
  "list_all (\<lambda>kv. no_dict (snd kv)) kvs \<Longrightarrow> map_of kvs a = Some v \<Longrightarrow> no_dict v"
  by (induction kvs) (auto split: if_splits)

lemma no_dict_getattr: "no_dict n \<Longrightarrow> no_dict (getattr_none n a)"
  by (cases n) (auto split: option.splits dest: no_dict_map_of)

lemma seq_get_cases: "seq_get xs i = Inl IndexError \<or> (\<exists>x \<in> set xs. seq_get xs i = Inr x)"
  by (auto simp: seq_get_def Let_def)

lemma no_dict_subscript:
  assumes "no_dict c"
  shows "subscript c i = Inl IndexError \<or> subscript c i = Inl TypeError
    \<or> (\<exists>v. subscript c i = Inr v \<and> no_dict v)"
proof (cases c)
  case (PList xs)
  with assms seq_get_cases [of xs i] show ?thesis
    by (auto simp: list_all_iff)
next
  case (PStr s)
  with seq_get_cases [of s i] show ?thesis by auto
qed (use assms in auto)

lemma no_dict_generate: "is_json j \<Longrightarrow> no_dict (generate_data_object j)"
  by (induction j rule: generate_data_object.induct) (auto simp: list_all_iff)

lemma seg_step_no_dict:
  assumes "no_dict n"
  shows "seg_step n a = Inr None \<or> (\<exists>v. seg_step n a = Inr (Some v) \<and> no_dict v)"
proof (cases "CHR ''['' \<in> set a")
  case True
  show ?thesis
  proof (cases "py_int (seg_index a)")
    case (Inl e)
    then have "e = ValueError" by (auto simp: py_int_def Let_def split: option.splits)
    with Inl True show ?thesis by (simp add: seg_step_def)
  next
    case (Inr i)
    with True no_dict_subscript [OF no_dict_getattr [OF assms], of "seg_name a" i]
    show ?thesis by (auto simp: seg_step_def)
  qed
next
  case False
  with no_dict_getattr [OF assms, of a] show ?thesis
    by (simp add: seg_step_def Let_def)
qed

lemma descend_no_dict:
  "no_dict n \<Longrightarrow> descend n segs = Inr None \<or> (\<exists>v. descend n segs = Inr (Some v) \<and> no_dict v)"
proof (induction segs arbitrary: n)
  case Nil
  then show ?case by simp
next
  case (Cons a segs)
  from seg_step_no_dict [OF Cons.prems, of a] show ?case
  proof
    assume "seg_step n a = Inr None"
    then show ?thesis by simp
  next
    assume "\<exists>v. seg_step n a = Inr (Some v) \<and> no_dict v"
    then obtain v where v: "seg_step n a = Inr (Some v)" "no_dict v" by blast
    with Cons.IH [OF v(2)] show ?thesis by simp
  qed
qed





lemma map_of_generate:
  "map_of (map (\<lambda>kv. (fst kv, generate_data_object (snd kv))) kvs) k
     = map_option generate_data_object (map_of kvs k)"
  by (induction kvs) auto




lemma py_int_error: "py_int s = Inl e \<Longrightarrow> e = ValueError"
  by (auto simp: py_int_def Let_def split: option.splits)

lemma spec_segment_falsy: "\<not> truthy v \<Longrightarrow> spec_segment v s = None"
  by (cases v) (auto simp: spec_segment_def spec_child_def split: sum.splits)

lemma spec_walk_falsy:
  "\<not> truthy v \<Longrightarrow> (case spec_walk v segs of None \<Rightarrow> True | Some w \<Rightarrow> \<not> truthy w)"
  by (cases segs) (auto simp: spec_segment_falsy)

lemma subscript_spec_index:
  "no_dict c \<Longrightarrow> (case subscript c i of Inl e \<Rightarrow> spec_index c i = None | Inr v \<Rightarrow> spec_index c i = Some v)"
  by (cases c) (auto simp: spec_index_def seq_get_def Let_def)

lemma getattr_spec_child:
  "getattr_none n a = (case spec_child n a of None \<Rightarrow> PNone | Some v \<Rightarrow> v)"
  by (cases n) (auto simp: spec_child_def)

lemma seg_step_Some_spec:
  assumes "no_dict n" "seg_step n a = Inr (Some v)"
  shows "spec_segment n a = Some v"
proof (cases "CHR ''['' \<in> set a")
  case True
  from assms(2) True obtain i where i: "py_int (seg_index a) = Inr i"
    by (cases "py_int (seg_index a)") (auto simp: seg_step_def dest: py_int_error)
  with assms(2) True have sub: "subscript (getattr_none n (seg_name a)) i = Inr v"
    by (auto simp: seg_step_def split: sum.splits if_splits)
  show ?thesis
  proof (cases "spec_child n (seg_name a)")
    case None
    with sub show ?thesis by (simp add: getattr_spec_child)
  next
    case (Some c)
    then have c: "getattr_none n (seg_name a) = c" by (simp add: getattr_spec_child)
    with no_dict_getattr [OF assms(1), of "seg_name a"] have "no_dict c" by simp
    from subscript_spec_index [OF this, of i] sub c have "spec_index c i = Some v" by simp
    with True i Some show ?thesis by (simp add: spec_segment_def)
  qed
next
  case False
  with assms(2) show ?thesis
    by (auto simp: seg_step_def spec_segment_def Let_def getattr_spec_child
        split: if_splits option.splits)
qed

lemma seg_step_None_spec:
  assumes "no_dict n" "seg_step n a = Inr None"
  shows "case spec_segment n a of None \<Rightarrow> True | Some v \<Rightarrow> \<not> truthy v"
proof (cases "CHR ''['' \<in> set a")
  case True
  show ?thesis
  proof (cases "py_int (seg_index a)")
    case (Inl e)
    with True show ?thesis by (simp add: spec_segment_def)
  next
    case (Inr i)
    with assms(2) True obtain e where sub: "subscript (getattr_none n (seg_name a)) i = Inl e"
      by (auto simp: seg_step_def split: sum.splits if_splits)
    show ?thesis
    proof (cases "spec_child n (seg_name a)")
      case None
      with True Inr show ?thesis by (simp add: spec_segment_def)
    next
      case (Some c)
      then have c: "getattr_none n (seg_name a) = c" by (simp add: getattr_spec_child)
      with no_dict_getattr [OF assms(1), of "seg_name a"] have "no_dict c" by simp
      from subscript_spec_index [OF this, of i] sub c have "spec_index c i = None" by simp
      with True Inr Some show ?thesis by (simp add: spec_segment_def)
    qed
  qed
next
  case False
  with assms(2) show ?thesis
    by (auto simp: seg_step_def spec_segment_def Let_def getattr_spec_child
        split: if_splits option.splits)
qed

lemma descend_spec_walk:
  "no_dict n \<Longrightarrow>
    (case descend n segs of
       Inl e \<Rightarrow> False
     | Inr None \<Rightarrow> (case spec_walk n segs of None \<Rightarrow> True | Some v \<Rightarrow> \<not> truthy v)
     | Inr (Some v) \<Rightarrow> spec_walk n segs = Some v)"
proof (induction segs arbitrary: n)
  case Nil
  then show ?case by simp
next
  case (Cons a segs)
  from seg_step_no_dict [OF Cons.prems, of a] show ?case
  proof
    assume stop: "seg_step n a = Inr None"
    show ?thesis
    proof (cases "spec_segment n a")
      case None
      with stop show ?thesis by simp
    next
      case (Some v)
      with seg_step_None_spec [OF Cons.prems stop] have "\<not> truthy v" by simp
      from spec_walk_falsy [OF this, of segs] stop Some show ?thesis by simp
    qed
  next
    assume "\<exists>v. seg_step n a = Inr (Some v) \<and> no_dict v"
    then obtain v where v: "seg_step n a = Inr (Some v)" "no_dict v" by blast
    from seg_step_Some_spec [OF Cons.prems v(1)] Cons.IH [OF v(2)] v(1)
    show ?thesis by (simp split: sum.splits option.splits)
  qed
qed

lemma safe_extract_resolve_spec:
  assumes "no_dict d"
  shows "safe_extract d p dflt = Inr (resolve_spec d p dflt)"
  using descend_spec_walk [OF assms, of "split_on CHR ''.'' p"]
  by (auto simp: safe_extract_def resolve_spec_def py_or_def split: sum.splits option.splits)

text \<open>
  Claim C6. The result of \<open>safe_extract\<close> is the one the specification describes: the
  default when a segment cannot be resolved, and otherwise the resolved value, replaced by
  the default only when that final value is falsy. The check \<^verbatim>\<open>if not data\<close> that
  the source makes at every plain segment never changes this result: a present but falsy
  intermediate node has no children and no elements, so resolution stops there anyway.
  In particular \<open>a.b\<close> yields the default when \<open>b\<close> is present and falsy (an empty
  string, zero, an empty sequence), and \<open>a.c[2]\<close> yields the default when \<open>a.c\<close> has
  one element.
\<close>

theorem falsy_only_at_final_segment:
  assumes "is_json j"
  shows "safe_extract (generate_data_object j) p dflt
           = Inr (resolve_spec (generate_data_object j) p dflt) \<and>
    (\<forall>kvs kvs' b. j = PDict kvs \<longrightarrow> map_of kvs ''a'' = Some (PDict kvs') \<longrightarrow>
        map_of kvs' ''b'' = Some b \<longrightarrow> \<not> truthy (generate_data_object b) \<longrightarrow>
        safe_extract (generate_data_object j) ''a.b'' dflt = Inr dflt) \<and>
    (\<forall>kvs kvs' x. j = PDict kvs \<longrightarrow> map_of kvs ''a'' = Some (PDict kvs') \<longrightarrow>
        map_of kvs' ''c'' = Some (PList [x]) \<longrightarrow>
        safe_extract (generate_data_object j) ''a.c[2]'' dflt = Inr dflt)"
proof (intro conjI allI impI)
  have "no_dict (generate_data_object j)" using assms by (rule no_dict_generate)
  then show "safe_extract (generate_data_object j) p dflt
           = Inr (resolve_spec (generate_data_object j) p dflt)"
    by (rule safe_extract_resolve_spec)
next
  fix kvs kvs' b
  assume j: "j = PDict kvs" and a: "map_of kvs ''a'' = Some (PDict kvs')"
    and b: "map_of kvs' ''b'' = Some b" and f: "\<not> truthy (generate_data_object b)"
  have s1: "seg_step (generate_data_object j) ''a'' = Inr (Some (generate_data_object (PDict kvs')))"
    using j a by (simp add: seg_step_def map_of_generate)
  from f have s2: "seg_step (generate_data_object (PDict kvs')) ''b'' = Inr None"
    using b by (simp add: seg_step_def map_of_generate)
  show "safe_extract (generate_data_object j) ''a.b'' dflt = Inr dflt"
    using s1 s2 by (simp add: safe_extract_def)
next
  fix kvs kvs' x
  assume j: "j = PDict kvs" and a: "map_of kvs ''a'' = Some (PDict kvs')"
    and c: "map_of kvs' ''c'' = Some (PList [x])"
  have s1: "seg_step (generate_data_object j) ''a'' = Inr (Some (generate_data_object (PDict kvs')))"
    using j a by (simp add: seg_step_def map_of_generate)
  have s2: "seg_step (generate_data_object (PDict kvs')) ''c[2]'' = Inr None"
    using c by (simp add: seg_step_def map_of_generate seg_name_def seg_index_def py_int_def
        py_strip_def py_isspace_def py_digits_def digit_val_def seq_get_def)
  show "safe_extract (generate_data_object j) ''a.c[2]'' dflt = Inr dflt"
    using s1 s2 by (simp add: safe_extract_def)
qed

theorem falsy_only_at_final_segment_witness:
  "is_json (PDict [(''a'', PDict [(''b'', PStr []), (''c'', PList [PInt 5])])]) \<and>
   safe_extract (generate_data_object (PDict [(''a'', PDict [(''b'', PStr []), (''c'', PList [PInt 5])])]))
     ''a.b'' (PInt 9) = Inr (PInt 9) \<and>
   safe_extract (generate_data_object (PDict [(''a'', PDict [(''b'', PStr []), (''c'', PList [PInt 5])])]))
     ''a.c[2]'' (PInt 9) = Inr (PInt 9) \<and>
   safe_extract (generate_data_object (PDict [(''a'', PDict [(''b'', PStr []), (''c'', PList [PInt 5])])]))
     ''a.c[0]'' (PInt 9) = Inr (PInt 5)"
proof -
  let ?j = "PDict [(''a'', PDict [(''b'', PStr []), (''c'', PList [PInt 5])])]"
  have h: "is_json ?j" by simp
  have r: "resolve_spec (generate_data_object ?j) ''a.c[0]'' (PInt 9) = PInt 5"
    by (simp add: resolve_spec_def spec_segment_def spec_child_def spec_index_def
       seg_name_def seg_index_def py_int_def
        py_strip_def py_isspace_def py_digits_def digit_val_def seq_get_def)
  from falsy_only_at_final_segment [OF h, of "''a.c[0]''" "PInt 9"]
  show ?thesis using h r by simp
qed

section \<open>Properties of the quality selector\<close>

lemma map_exc_Inr:
  "map f xs = map (\<lambda>v. Inr (g v)) vs \<Longrightarrow> map_exc f xs = Inr (map g vs)"
  by (induction xs arbitrary: vs) auto

lemma map_exc_total: "map_exc (\<lambda>x. Inr (g x)) xs = Inr (map g xs)"
  by (induction xs) auto

lemma py_insert_insort:
  fixes k :: "'a \<Rightarrow> 'k::linorder"
  assumes "\<And>x y. py_lt_list (kl y) (kl x) = Inr (k y < k x)"
  shows "py_insert (kl x, g x) (map (\<lambda>v. (kl v, g v)) ys)
           = Inr (map (\<lambda>v. (kl v, g v)) (insort_key k x ys))"
  by (induction ys) (auto simp: assms not_less)

lemma py_sort_sort_key:
  fixes k :: "'a \<Rightarrow> 'k::linorder"
  assumes "\<And>x y. py_lt_list (kl y) (kl x) = Inr (k y < k x)"
  shows "py_sort (map (\<lambda>v. (kl v, g v)) vs) = Inr (map (\<lambda>v. (kl v, g v)) (sort_key k vs))"
proof (induction vs)
  case Nil
  show ?case by simp
next
  case (Cons v vs)
  have "sort_key k (v # vs) = insort_key k v (sort_key k vs)"
    by (simp add: sort_key_def)
  with Cons py_insert_insort [of kl k v g "sort_key k vs", OF assms] show ?case by simp
qed

lemma py_lt_keylist_a: "py_lt_list (keylist_a y) (keylist_a x) = Inr (key_a y < key_a x)"
  by (auto simp: keylist_a_def key_a_def less_prod_def)

lemma variant_key_values: "variant_key (variant_values v) = Inr (keylist_a v)"
  by (simp add: variant_key_def variant_values_def keylist_a_def py_max_def max_def)

lemma sort_by_key_a:
  "sort_by_key variant_key (map variant_values vs) = Inr (map variant_values (sort_key key_a vs))"
proof -
  have "map_exc (\<lambda>x. bind_exc (variant_key x) (\<lambda>k. Inr (k, x))) (map variant_values vs)
      = Inr (map (\<lambda>v. (keylist_a v, variant_values v)) vs)"
    by (induction vs) (simp_all add: variant_key_values)
  moreover have "py_sort (map (\<lambda>v. (keylist_a v, variant_values v)) vs)
      = Inr (map (\<lambda>v. (keylist_a v, variant_values v)) (sort_key key_a vs))"
    by (rule py_sort_sort_key) (rule py_lt_keylist_a)
  ultimately show ?thesis by (simp add: sort_by_key_def comp_def)
qed

lemma seq_get_last: "xs \<noteq> [] \<Longrightarrow> seq_get xs (- 1) = Inr (last xs)"
  by (cases xs rule: rev_cases) (auto simp: seq_get_def Let_def nth_append)

lemma sort_key_Nil_iff: "sort_key k vs = [] \<longleftrightarrow> vs = []"
  by (metis length_sort length_0_conv)


lemma py_lt_keylist_b: "py_lt_list (keylist_b y) (keylist_b x) = Inr (key_b y < key_b x)"
  by (auto simp: keylist_b_def key_b_def less_prod_def)

lemma variant_key_values_tiktok: "variant_key_tiktok (variant_values_tiktok v) = Inr (keylist_b v)"
  by (simp add: variant_key_tiktok_def variant_values_tiktok_def keylist_b_def py_max_def max_def)

lemma sort_by_key_b:
  "sort_by_key variant_key_tiktok (map variant_values_tiktok vs)
     = Inr (map variant_values_tiktok (sort_key key_b vs))"
proof -
  have "map_exc (\<lambda>x. bind_exc (variant_key_tiktok x) (\<lambda>k. Inr (k, x))) (map variant_values_tiktok vs)
      = Inr (map (\<lambda>v. (keylist_b v, variant_values_tiktok v)) vs)"
    by (induction vs) (simp_all add: variant_key_values_tiktok)
  moreover have "py_sort (map (\<lambda>v. (keylist_b v, variant_values_tiktok v)) vs)
      = Inr (map (\<lambda>v. (keylist_b v, variant_values_tiktok v)) (sort_key key_b vs))"
    by (rule py_sort_sort_key) (rule py_lt_keylist_b)
  ultimately show ?thesis by (simp add: sort_by_key_def comp_def)
qed

lemma seq_get_ok: "index_ok xs i \<Longrightarrow> seq_get xs i = Inr (py_nth xs i)"
  by (auto simp: seq_get_def index_ok_def py_nth_def Let_def)

lemma video_download_try_wf:
  assumes "map read_variant xs = map (\<lambda>v. Inr (variant_values v)) vs"
    and "\<forall>v \<in> set vs. v_urls v \<noteq> []"
  shows "video_download_try (PList xs) =
    Inr (if vs = [] then (PInt (- 1), PInt (- 1), PStr [])
         else (PInt (v_height (last (sort_key key_a vs))),
               PInt (v_width (last (sort_key key_a vs))),
               PStr (last (v_urls (last (sort_key key_a vs))))))"
proof (cases "vs = []")
  case True
  with assms(1) show ?thesis by (simp add: video_download_try_def sort_by_key_def)
next
  case False
  let ?b = "last (sort_key key_a vs)"
  have ne: "sort_key key_a vs \<noteq> []" using False by (simp add: sort_key_Nil_iff)
  then have "?b \<in> set (sort_key key_a vs)" by (rule last_in_set)
  then have urls: "v_urls ?b \<noteq> []" using assms(2) by simp
  have rd: "map_exc read_variant xs = Inr (map variant_values vs)"
    using assms(1) by (rule map_exc_Inr)
  have lst: "last (map variant_values (sort_key key_a vs)) = variant_values ?b"
    using ne by (simp add: last_map)
  have sub: "subscript (PList (map PStr (v_urls ?b))) (- 1) = Inr (PStr (last (v_urls ?b)))"
    using urls by (simp add: seq_get_last last_map)
  show ?thesis
    using False ne rd lst sub
    by (simp add: video_download_try_def sort_by_key_a variant_values_def)
qed

lemma video_download_try_tiktok_wf:
  assumes "map read_variant_tiktok xs = map (\<lambda>v. Inr (variant_values_tiktok v)) vs"
    and "\<forall>v \<in> set vs. index_ok (v_urls v) (VIDEO_TIKTOK_INDEX cfg)"
  shows "video_download_try_tiktok cfg (PList xs) =
    Inr (if vs = [] then (PInt (- 1), PInt (- 1), PStr [])
         else (PInt (v_height (last (sort_key key_b vs))),
               PInt (v_width (last (sort_key key_b vs))),
               PStr (py_nth (v_urls (last (sort_key key_b vs))) (VIDEO_TIKTOK_INDEX cfg))))"
proof (cases "vs = []")
  case True
  with assms(1) show ?thesis by (simp add: video_download_try_tiktok_def sort_by_key_def)
next
  case False
  let ?b = "last (sort_key key_b vs)"
  let ?i = "VIDEO_TIKTOK_INDEX cfg"
  have ne: "sort_key key_b vs \<noteq> []" using False by (simp add: sort_key_Nil_iff)
  then have "?b \<in> set (sort_key key_b vs)" by (rule last_in_set)
  then have ok: "index_ok (v_urls ?b) ?i" using assms(2) by simp
  then have ok': "index_ok (map PStr (v_urls ?b)) ?i" by (simp add: index_ok_def)
  have rd: "map_exc read_variant_tiktok xs = Inr (map variant_values_tiktok vs)"
    using assms(1) by (rule map_exc_Inr)
  have lst: "last (map variant_values_tiktok (sort_key key_b vs)) = variant_values_tiktok ?b"
    using ne by (simp add: last_map)
  have "py_nth (map PStr (v_urls ?b)) ?i = PStr (py_nth (v_urls ?b) ?i)"
    using ok by (auto simp: py_nth_def index_ok_def)
  with seq_get_ok [OF ok']
  have sub: "subscript (PList (map PStr (v_urls ?b))) ?i = Inr (PStr (py_nth (v_urls ?b) ?i))"
    by simp
  show ?thesis
    using False ne rd lst sub
    by (simp add: video_download_try_tiktok_def sort_by_key_b variant_values_tiktok_def)
qed

lemma prog_simps [simp]:
  "bind_st (ret x) f s = f x s"
  "bind_st (raise e) f s = (Inl e, s)"
  "bind_st (lift_exc (Inr x)) f s = f x s"
  "bind_st (lift_exc (Inl e)) f s = (Inl e, s)"
  "ret x s = (Inr x, s)"
  "raise e s = (Inl e, s)"
  "lift_exc r s = (r, s)"
  "bind_st (log_write m) g s = g () (s\<lparr>logs := logs s @ [m]\<rparr>)"
  by (simp_all add: bind_st_def ret_def raise_def lift_exc_def log_write_def)

lemmas path_defs = safe_extract_def seg_step_def seg_name_def seg_index_def py_int_def
  py_strip_def py_isspace_def py_digits_def digit_val_def seq_get_def py_or_def

lemma extract_video_download_wf:
  assumes "safe_extract data ''video.bit_rate'' (PList []) = Inr (PList xs)"
    and "map read_variant xs = map (\<lambda>v. Inr (variant_values v)) vs"
    and "\<forall>v \<in> set vs. v_urls v \<noteq> []"
  shows "extract_video_download data st =
    (Inr (if vs = [] then (PInt (- 1), PInt (- 1), PStr [])
          else (PInt (v_height (last (sort_key key_a vs))),
                PInt (v_width (last (sort_key key_a vs))),
                PStr (last (v_urls (last (sort_key key_a vs)))))), st)"
  using assms(1) video_download_try_wf [OF assms(2,3)]
  by (simp add: extract_video_download_def)

lemma extract_video_download_tiktok_wf:
  assumes "safe_extract data ''video.bitrateInfo'' (PList []) = Inr (PList xs)"
    and "map read_variant_tiktok xs = map (\<lambda>v. Inr (variant_values_tiktok v)) vs"
    and "\<forall>v \<in> set vs. index_ok (v_urls v) (VIDEO_TIKTOK_INDEX cfg)"
  shows "extract_video_download_tiktok cfg data st =
    (Inr (if vs = [] then (PInt (- 1), PInt (- 1), PStr [])
          else (PInt (v_height (last (sort_key key_b vs))),
                PInt (v_width (last (sort_key key_b vs))),
                PStr (py_nth (v_urls (last (sort_key key_b vs))) (VIDEO_TIKTOK_INDEX cfg)))), st)"
  using assms(1) video_download_try_tiktok_wf [OF assms(2,3)]
  by (simp add: extract_video_download_tiktok_def)

lemma read_variant_json:
  "read_variant (generate_data_object (variant_json v)) = Inr (variant_values v)"
  by (simp add: read_variant_def variant_json_def variant_values_def comp_def)

lemma read_variant_json_tiktok:
  "read_variant_tiktok (generate_data_object (variant_json_tiktok v)) = Inr (variant_values_tiktok v)"
  by (simp add: read_variant_tiktok_def variant_json_tiktok_def variant_values_tiktok_def comp_def)

lemma video_item_bit_rate:
  "safe_extract (video_item vs) ''video.bit_rate'' (PList [])
     = Inr (PList (map (\<lambda>v. generate_data_object (variant_json v)) vs))"
  by (simp add: video_item_def path_defs comp_def)

lemma video_item_tiktok_bitrate_info:
  "safe_extract (video_item_tiktok vs) ''video.bitrateInfo'' (PList [])
     = Inr (PList (map (\<lambda>v. generate_data_object (variant_json_tiktok v)) vs))"
  by (simp add: video_item_tiktok_def path_defs comp_def)

text \<open>
  Claim C3, as the code has it. Where every variant carries integers and URL strings, the
  Source-A selector returns height, width and the last URL of the last element of the variant
  list sorted (stably, ascending) by \<open>(max(height, width), frame_rate, bit_rate,
  byte_size)\<close>, provided every variant has a URL; the Source-B selector reads no frame rate
  and returns height, width and the URL at the configured index of the last element of the
  list sorted by \<open>(max(height, width), bit_rate, byte_size)\<close>, provided the index is valid
  for every variant. Both return \<open>(-1, -1, "")\<close> for an empty list.
\<close>

theorem quality_selector_sorts:
  "(safe_extract data ''video.bit_rate'' (PList []) = Inr (PList xs) \<longrightarrow>
    map read_variant xs = map (\<lambda>v. Inr (variant_values v)) vs \<longrightarrow>
    (\<forall>v \<in> set vs. v_urls v \<noteq> []) \<longrightarrow>
    extract_video_download data st =
      (Inr (if vs = [] then (PInt (- 1), PInt (- 1), PStr [])
            else (PInt (v_height (last (sort_key key_a vs))),
                  PInt (v_width (last (sort_key key_a vs))),
                  PStr (last (v_urls (last (sort_key key_a vs)))))), st)) \<and>
   (safe_extract data ''video.bitrateInfo'' (PList []) = Inr (PList xs) \<longrightarrow>
    map read_variant_tiktok xs = map (\<lambda>v. Inr (variant_values_tiktok v)) vs \<longrightarrow>
    (\<forall>v \<in> set vs. index_ok (v_urls v) (VIDEO_TIKTOK_INDEX cfg)) \<longrightarrow>
    extract_video_download_tiktok cfg data st =
      (Inr (if vs = [] then (PInt (- 1), PInt (- 1), PStr [])
            else (PInt (v_height (last (sort_key key_b vs))),
                  PInt (v_width (last (sort_key key_b vs))),
                  PStr (py_nth (v_urls (last (sort_key key_b vs))) (VIDEO_TIKTOK_INDEX cfg)))),
       st))"
  using extract_video_download_wf [of data xs vs st]
    extract_video_download_tiktok_wf [of data xs vs cfg st]
  by blast

theorem quality_selector_sorts_witness:
  "extract_video_download (video_item spec_variants) st0
     = (Inr (PInt 1080, PInt 1920, PStr ''u3''), st0) \<and>
   extract_video_download_tiktok cfg_first (video_item_tiktok spec_variants) st0
     = (Inr (PInt 1080, PInt 1920, PStr ''u2''), st0) \<and>
   extract_video_download (video_item []) st0 = (Inr (PInt (- 1), PInt (- 1), PStr []), st0)"
proof -
  let ?xs = "map (\<lambda>v. generate_data_object (variant_json v)) spec_variants"
  let ?ys = "map (\<lambda>v. generate_data_object (variant_json_tiktok v)) spec_variants"
  have a1: "safe_extract (video_item spec_variants) ''video.bit_rate'' (PList []) = Inr (PList ?xs)"
    by (rule video_item_bit_rate)
  have a2: "map read_variant ?xs = map (\<lambda>v. Inr (variant_values v)) spec_variants"
    by (simp add: read_variant_json comp_def)
  have a3: "\<forall>v \<in> set spec_variants. v_urls v \<noteq> []"
    by (simp add: spec_variants_def)
  have b1: "safe_extract (video_item_tiktok spec_variants) ''video.bitrateInfo'' (PList [])
      = Inr (PList ?ys)"
    by (rule video_item_tiktok_bitrate_info)
  have b2: "map read_variant_tiktok ?ys = map (\<lambda>v. Inr (variant_values_tiktok v)) spec_variants"
    by (simp add: read_variant_json_tiktok comp_def)
  have b3: "\<forall>v \<in> set spec_variants. index_ok (v_urls v) (VIDEO_TIKTOK_INDEX cfg_first)"
    by (simp add: spec_variants_def cfg_first_def index_ok_def)
  have c1: "safe_extract (video_item []) ''video.bit_rate'' (PList []) = Inr (PList (map id []))"
    using video_item_bit_rate [of "[]"] by simp
  have la: "last (sort_key key_a spec_variants) = spec_variants ! 1"
    by (simp add: spec_variants_def key_a_def less_eq_prod_def)
  have lb: "last (sort_key key_b spec_variants) = spec_variants ! 1"
    by (simp add: spec_variants_def key_b_def less_eq_prod_def)
  have ne: "spec_variants \<noteq> []" by (simp add: spec_variants_def)
  from quality_selector_sorts [where data = "video_item spec_variants" and xs = ?xs
      and vs = spec_variants and st = st0] a1 a2 a3
  have A: "extract_video_download (video_item spec_variants) st0
     = (Inr (PInt 1080, PInt 1920, PStr ''u3''), st0)"
    using ne la by (simp add: spec_variants_def)
  from quality_selector_sorts [where data = "video_item_tiktok spec_variants" and xs = ?ys
      and vs = spec_variants and st = st0 and cfg = cfg_first]
    b1 b2 b3
  have B: "extract_video_download_tiktok cfg_first (video_item_tiktok spec_variants) st0
     = (Inr (PInt 1080, PInt 1920, PStr ''u2''), st0)"
    using ne lb by (simp add: spec_variants_def py_nth_def cfg_first_def)
  from quality_selector_sorts [where data = "video_item []" and xs = "[]" and vs = "[]"
      and st = st0] c1
  have C: "extract_video_download (video_item []) st0 = (Inr (PInt (- 1), PInt (- 1), PStr []), st0)"
    by simp
  from A B C show ?thesis by simp
qed

text \<open>
  Claim C3 as stated fails for Source-B: two variants of equal resolution, the first with the higher
  frame rate, the second with the higher bit rate. Sorting by the claimed tuple puts the
  first variant last; the Source-B selector returns the second.
\<close>

theorem quality_selector_tiktok_ignores_frame_rate:
  "fst (extract_video_download_tiktok cfg_first (video_item_tiktok fps_variants) st0)
     = Inr (PInt 10, PInt 10, PStr ''b'') \<and>
   v_urls (last (sort_key key_a fps_variants)) = [''a'']"
proof -
  let ?ys = "map (\<lambda>v. generate_data_object (variant_json_tiktok v)) fps_variants"
  have b1: "safe_extract (video_item_tiktok fps_variants) ''video.bitrateInfo'' (PList [])
      = Inr (PList ?ys)"
    by (rule video_item_tiktok_bitrate_info)
  have b2: "map read_variant_tiktok ?ys = map (\<lambda>v. Inr (variant_values_tiktok v)) fps_variants"
    by (simp add: read_variant_json_tiktok comp_def)
  have b3: "\<forall>v \<in> set fps_variants. index_ok (v_urls v) (VIDEO_TIKTOK_INDEX cfg_first)"
    by (simp add: fps_variants_def cfg_first_def index_ok_def)
  have lb: "last (sort_key key_b fps_variants) = fps_variants ! 1"
    by (simp add: fps_variants_def key_b_def less_eq_prod_def)
  have la: "last (sort_key key_a fps_variants) = fps_variants ! 0"
    by (simp add: fps_variants_def key_a_def less_eq_prod_def)
  have ne: "fps_variants \<noteq> []" by (simp add: fps_variants_def)
  from extract_video_download_tiktok_wf [OF b1 b2 b3, of st0]
  have "extract_video_download_tiktok cfg_first (video_item_tiktok fps_variants) st0
     = (Inr (PInt 10, PInt 10, PStr ''b''), st0)"
    using ne lb by (simp add: fps_variants_def py_nth_def cfg_first_def)
  then show ?thesis using la by (simp add: fps_variants_def)
qed

lemma getattr_error: "getattr x a = Inl e \<Longrightarrow> e = AttributeError"
  by (cases x) (auto split: option.splits)

lemma read_variant_error: "read_variant x = Inl e \<Longrightarrow> e = AttributeError"
  by (auto simp: read_variant_def bind_exc_def split: sum.splits dest: getattr_error)

lemma read_variant_tiktok_error: "read_variant_tiktok x = Inl e \<Longrightarrow> e = AttributeError"
  by (auto simp: read_variant_tiktok_def bind_exc_def split: sum.splits dest: getattr_error)

lemma map_exc_fails:
  assumes "\<And>x e. f x = Inl e \<Longrightarrow> e = err" and "\<exists>x \<in> set xs. f x = Inl err"
  shows "map_exc f xs = Inl err"
  using assms(2)
proof (induction xs)
  case Nil
  then show ?case by simp
next
  case (Cons x xs)
  show ?case
  proof (cases "f x")
    case (Inl e)
    with assms(1) show ?thesis by auto
  next
    case (Inr y)
    with Cons have "map_exc f xs = Inl err" by auto
    with Inr show ?thesis by simp
  qed
qed

lemma safe_extract_plain2:
  "CHR ''['' \<notin> set a \<Longrightarrow> CHR ''['' \<notin> set b \<Longrightarrow> split_on CHR ''.'' p = [a, b] \<Longrightarrow>
   safe_extract x p d = Inr (py_or (getattr_none (getattr_none x a) b) d)"
  by (cases "getattr_none x a") (auto simp: safe_extract_def seg_step_def py_or_def Let_def)

lemma safe_extract_indexed2:
  assumes "no_dict x" "CHR ''['' \<notin> set a" "split_on CHR ''.'' p = [a, b]"
    "CHR ''['' \<in> set b" "py_int (seg_index b) = Inr i"
  shows "safe_extract x p d =
     Inr (case subscript (getattr_none (getattr_none x a) (seg_name b)) i of
            Inr v \<Rightarrow> py_or v d | Inl e \<Rightarrow> d)"
proof -
  let ?c = "getattr_none (getattr_none x a) (seg_name b)"
  have "no_dict ?c" using assms(1) by (intro no_dict_getattr)
  from no_dict_subscript [OF this, of i] show ?thesis
    using assms(2-5)
    by (cases "getattr_none x a")
       (auto simp: safe_extract_def seg_step_def Let_def)
qed

lemma digit_val_char_of: "(n::nat) < 10 \<Longrightarrow> digit_val (char_of (48 + n)) = Some (int n)"
  by (simp add: digit_val_def Let_def)

lemma digit_char_props:
  fixes n :: nat
  assumes "n < 10"
  shows "char_of (48 + n) \<noteq> CHR ''_''" "char_of (48 + n) \<noteq> CHR ''.''"
    "char_of (48 + n) \<noteq> CHR '']''" "char_of (48 + n) \<noteq> CHR ''[''"
    "char_of (48 + n) \<noteq> CHR ''-''" "char_of (48 + n) \<noteq> CHR ''+''"
    "\<not> py_isspace (char_of (48 + n))"
proof -
  have v: "(of_char (char_of (48 + n)) :: nat) = 48 + n" using assms by simp
  show "char_of (48 + n) \<noteq> CHR ''_''" using v assms by (auto simp del: of_char_of)
  show "char_of (48 + n) \<noteq> CHR ''.''" using v assms by (auto simp del: of_char_of)
  show "char_of (48 + n) \<noteq> CHR '']''" using v assms by (auto simp del: of_char_of)
  show "char_of (48 + n) \<noteq> CHR ''[''" using v assms by (auto simp del: of_char_of)
  show "char_of (48 + n) \<noteq> CHR ''-''" using v assms by (auto simp del: of_char_of)
  show "char_of (48 + n) \<noteq> CHR ''+''" using v assms by (auto simp del: of_char_of)
  show "\<not> py_isspace (char_of (48 + n))" using assms by (auto simp: py_isspace_def)
qed

lemma dec_nat_chars: "c \<in> set (dec_nat n) \<Longrightarrow> \<exists>m<10. c = char_of (48 + (m::nat))"
proof (induction n rule: dec_nat.induct)
  case (1 n)
  show ?case
  proof (cases "n < 10")
    case True
    with "1.prems" show ?thesis by (subst (asm) dec_nat.simps) auto
  next
    case False
    with "1.prems" have "c \<in> set (dec_nat (n div 10)) \<or> c = char_of (48 + n mod 10)"
      by (subst (asm) dec_nat.simps) auto
    then show ?thesis
    proof
      assume "c \<in> set (dec_nat (n div 10))"
      with "1.IH" False show ?thesis by simp
    next
      assume "c = char_of (48 + n mod 10)"
      moreover have "n mod 10 < 10" by simp
      ultimately show ?thesis by blast
    qed
  qed
qed

lemma dec_nat_nonempty: "dec_nat n \<noteq> []"
  by (subst dec_nat.simps) simp

lemma digits_acc_digits:
  "(\<And>c. c \<in> set s \<Longrightarrow> \<exists>m<10. c = char_of (48 + (m::nat))) \<Longrightarrow>
   digits_acc acc s = Some (foldl (\<lambda>a c. a * 10 + (int (of_char c) - 48)) acc s)"
proof (induction acc s rule: digits_acc.induct)
  case (1 acc)
  show ?case by simp
next
  case (2 acc c)
  then obtain m :: nat where "m < 10" "c = char_of (48 + m)" by auto
  then show ?case by (simp add: digit_val_char_of)
next
  case (3 acc c d ds)
  from "3.prems" obtain m :: nat where m: "m < 10" "c = char_of (48 + m)" by auto
  then have nu: "c \<noteq> CHR ''_''" using digit_char_props(1) by simp
  have dv: "digit_val c = Some (int m)" using m by (simp add: digit_val_char_of)
  have "digits_acc (acc * 10 + int m) (d # ds)
      = Some (foldl (\<lambda>a c. a * 10 + (int (of_char c) - 48)) (acc * 10 + int m) (d # ds))"
    using "3.IH"(2) [OF nu dv] "3.prems" by simp
  with nu dv m show ?case by simp
qed

lemma foldl_dec_nat: "foldl (\<lambda>a c. a * 10 + (int (of_char c) - 48)) 0 (dec_nat n) = int n"
proof (induction n rule: dec_nat.induct)
  case (1 n)
  show ?case
  proof (cases "n < 10")
    case True
    then show ?thesis by (subst dec_nat.simps) simp
  next
    case False
    have "n mod 10 < 10" by simp
    then have "int (of_char (char_of (48 + n mod 10))) - 48 = int (n mod 10)" by simp
    with "1.IH" False show ?thesis
      by (subst dec_nat.simps) (simp add: zmod_int zdiv_int)
  qed
qed

lemma py_digits_dec_nat: "py_digits (dec_nat n) = Some (int n)"
proof -
  obtain c cs where s: "dec_nat n = c # cs" using dec_nat_nonempty [of n] by (cases "dec_nat n") auto
  then have "c \<in> set (dec_nat n)" by simp
  then obtain m :: nat where m: "m < 10" "c = char_of (48 + m)" using dec_nat_chars by blast
  have "digits_acc (int m) cs = Some (foldl (\<lambda>a c. a * 10 + (int (of_char c) - 48)) (int m) cs)"
    using dec_nat_chars [of _ n] s by (intro digits_acc_digits) auto
  moreover have "foldl (\<lambda>a c. a * 10 + (int (of_char c) - 48)) (int m) cs = int n"
    using foldl_dec_nat [of n] s m by simp
  ultimately show ?thesis using s m by (simp add: py_digits_def digit_val_char_of)
qed

lemma dec_int_chars:
  assumes "c \<in> set (dec_int i)"
  shows "c \<noteq> CHR ''.'' \<and> c \<noteq> CHR '']'' \<and> c \<noteq> CHR ''[''"
proof -
  from assms consider "c = CHR ''-''" | m :: nat where "m < 10" "c = char_of (48 + m)"
    by (auto simp: dec_int_def dest: dec_nat_chars split: if_splits)
  then show ?thesis
  proof cases
    case 1
    then show ?thesis by simp
  next
    case 2
    from digit_char_props(2-4) [OF 2(1)] 2(2) show ?thesis by simp
  qed
qed

lemma py_strip_dec_nat: "py_strip (dec_nat n) = dec_nat n"
proof -
  obtain c cs where s: "dec_nat n = c # cs"
    using dec_nat_nonempty [of n] by (cases "dec_nat n") auto
  obtain d ds where r: "rev (dec_nat n) = d # ds"
    using dec_nat_nonempty [of n] by (cases "rev (dec_nat n)") auto
  have "c \<in> set (dec_nat n)" using s by simp
  then have c: "\<not> py_isspace c" using dec_nat_chars digit_char_props(7) by blast
  have "d \<in> set (rev (dec_nat n))" using r by simp
  then have "d \<in> set (dec_nat n)" by simp
  then have d: "\<not> py_isspace d" using dec_nat_chars digit_char_props(7) by blast
  have "dropWhile py_isspace (dec_nat n) = dec_nat n" using s c by simp
  moreover have "dropWhile py_isspace (rev (dec_nat n)) = rev (dec_nat n)" using r d by simp
  ultimately show ?thesis by (simp add: py_strip_def)
qed

lemma py_int_dec_int: "py_int (dec_int i) = Inr i"
proof (cases "i < 0")
  case True
  let ?s = "dec_nat (nat (- i))"
  obtain d ds where r: "rev ?s = d # ds"
    using dec_nat_nonempty [of "nat (- i)"] by (cases "rev ?s") auto
  have "d \<in> set (rev ?s)" using r by simp
  then have "d \<in> set ?s" by simp
  then have d: "\<not> py_isspace d" using dec_nat_chars digit_char_props(7) by blast
  have m: "\<not> py_isspace CHR ''-''" by (simp add: py_isspace_def)
  have "dropWhile py_isspace (rev ?s @ [CHR ''-'']) = rev ?s @ [CHR ''-'']"
    using r d by simp
  then have "py_strip (CHR ''-'' # ?s) = CHR ''-'' # ?s"
    using m by (simp add: py_strip_def)
  with True show ?thesis
    by (simp add: py_int_def dec_int_def py_digits_dec_nat)
next
  case False
  let ?s = "dec_nat (nat i)"
  obtain c cs where s: "?s = c # cs"
    using dec_nat_nonempty [of "nat i"] by (cases ?s) auto
  have "c \<in> set ?s" using s by simp
  then obtain m :: nat where m: "m < 10" "c = char_of (48 + m)" using dec_nat_chars by blast
  have ns: "c \<noteq> CHR ''-''" "c \<noteq> CHR ''+''" using m digit_char_props by auto
  have "py_digits (c # cs) = Some (int (nat i))" using py_digits_dec_nat [of "nat i"] s by simp
  with False ns s show ?thesis
    using py_strip_dec_nat [of "nat i"]
    by (simp add: py_int_def dec_int_def)
qed

lemma split_on_absent: "c \<notin> set s \<Longrightarrow> split_on c s = [s]"
  by (induction s) auto

lemma tiktok_url_path:
  "split_on CHR ''.'' (''PlayAddr.UrlList['' @ dec_int i @ '']'')
     = [''PlayAddr'', ''UrlList['' @ dec_int i @ '']'']"
proof -
  have "CHR ''.'' \<notin> set (dec_int i @ '']'')" using dec_int_chars [of _ i] by auto
  then have "split_on CHR ''.'' (dec_int i @ '']'') = [dec_int i @ '']'']"
    by (rule split_on_absent)
  then show ?thesis by simp
qed

lemma tiktok_url_segment:
  "CHR ''['' \<in> set (''UrlList['' @ dec_int i @ '']'')"
  "seg_name (''UrlList['' @ dec_int i @ '']'') = ''UrlList''"
  "py_int (seg_index (''UrlList['' @ dec_int i @ '']'')) = Inr i"
proof -
  show "CHR ''['' \<in> set (''UrlList['' @ dec_int i @ '']'')" by simp
  show "seg_name (''UrlList['' @ dec_int i @ '']'') = ''UrlList''" by (simp add: seg_name_def)
  have "takeWhile (\<lambda>c. c \<noteq> CHR '']'') (dec_int i @ '']'') = dec_int i"
    using dec_int_chars [of _ i] by (simp add: takeWhile_append2)
  then show "py_int (seg_index (''UrlList['' @ dec_int i @ '']'')) = Inr i"
    by (simp add: seg_index_def py_int_dec_int)
qed

lemma safe_extract_no_dict:
  assumes "no_dict d" "no_dict dflt" "safe_extract d p dflt = Inr v"
  shows "no_dict v"
  using descend_no_dict [OF assms(1), of "split_on CHR ''.'' p"] assms(2,3)
  by (auto simp: safe_extract_def py_or_def split: if_splits)

lemma seq_get_first: "xs \<noteq> [] \<Longrightarrow> seq_get xs 0 = Inr (hd xs)"
  by (cases xs) (auto simp: seq_get_def Let_def)

lemma video_download_degrade_first:
  assumes "no_dict (PList xs)" "xs \<noteq> []"
  shows "video_download_degrade (PList xs)
    = Inr (first_variant_values (hd xs) ''play_addr'' ''height'' ''width'' ''url_list'' (- 1))"
proof -
  have nd: "no_dict (hd xs)" using assms by (cases xs) auto
  have h: "safe_extract (hd xs) ''play_addr.height'' (PInt (- 1))
      = Inr (py_or (getattr_none (getattr_none (hd xs) ''play_addr'') ''height'') (PInt (- 1)))"
    by (rule safe_extract_plain2) simp_all
  have w: "safe_extract (hd xs) ''play_addr.width'' (PInt (- 1))
      = Inr (py_or (getattr_none (getattr_none (hd xs) ''play_addr'') ''width'') (PInt (- 1)))"
    by (rule safe_extract_plain2) simp_all
  have "py_int (seg_index ''url_list[-1]'') = Inr (- 1)"
    by (simp add: path_defs)
  with nd have u: "safe_extract (hd xs) ''play_addr.url_list[-1]'' (PStr [])
      = Inr (case subscript (getattr_none (getattr_none (hd xs) ''play_addr'')
                 (seg_name ''url_list[-1]'')) (- 1) of
               Inr v \<Rightarrow> py_or v (PStr []) | Inl e \<Rightarrow> PStr [])"
    by (intro safe_extract_indexed2) simp_all
  show ?thesis
    using assms(2) h w u
    by (simp add: video_download_degrade_def first_variant_values_def seq_get_first seg_name_def)
qed

lemma video_download_degrade_tiktok_first:
  assumes "no_dict (PList xs)" "xs \<noteq> []"
  shows "video_download_degrade_tiktok cfg (PList xs)
    = Inr (first_variant_values (hd xs) ''PlayAddr'' ''Height'' ''Width'' ''UrlList''
             (VIDEO_TIKTOK_INDEX cfg))"
proof -
  let ?i = "VIDEO_TIKTOK_INDEX cfg"
  have nd: "no_dict (hd xs)" using assms by (cases xs) auto
  have h: "safe_extract (hd xs) ''PlayAddr.Height'' (PInt (- 1))
      = Inr (py_or (getattr_none (getattr_none (hd xs) ''PlayAddr'') ''Height'') (PInt (- 1)))"
    by (rule safe_extract_plain2) simp_all
  have w: "safe_extract (hd xs) ''PlayAddr.Width'' (PInt (- 1))
      = Inr (py_or (getattr_none (getattr_none (hd xs) ''PlayAddr'') ''Width'') (PInt (- 1)))"
    by (rule safe_extract_plain2) simp_all
  have u: "safe_extract (hd xs) (''PlayAddr.UrlList['' @ dec_int ?i @ '']'') (PStr [])
      = Inr (case subscript (getattr_none (getattr_none (hd xs) ''PlayAddr'')
                 (seg_name (''UrlList['' @ dec_int ?i @ '']''))) ?i of
               Inr v \<Rightarrow> py_or v (PStr []) | Inl e \<Rightarrow> PStr [])"
    using nd
  proof (rule safe_extract_indexed2)
    show "CHR ''['' \<notin> set ''PlayAddr''" by simp
    show "split_on CHR ''.'' (''PlayAddr.UrlList['' @ dec_int ?i @ '']'')
        = [''PlayAddr'', ''UrlList['' @ dec_int ?i @ '']'']"
      by (rule tiktok_url_path)
    show "CHR ''['' \<in> set (''UrlList['' @ dec_int ?i @ '']'')" by (rule tiktok_url_segment)
    show "py_int (seg_index (''UrlList['' @ dec_int ?i @ '']'')) = Inr ?i"
      by (rule tiktok_url_segment)
  qed
  show ?thesis
    using assms(2) h w u
    by (simp add: video_download_degrade_tiktok_def first_variant_values_def seq_get_first
        tiktok_url_segment del: append.simps)
qed

lemma extract_video_download_degrade:
  assumes "no_dict data"
    and "safe_extract data ''video.bit_rate'' (PList []) = Inr (PList xs)"
    and "\<exists>x \<in> set xs. read_variant x = Inl AttributeError"
  shows "extract_video_download data st =
    (Inr (first_variant_values (hd xs) ''play_addr'' ''height'' ''width'' ''url_list'' (- 1)),
     st\<lparr>logs := logs st @ [LogVideoParseFailed data]\<rparr>)"
proof -
  have nd: "no_dict (PList xs)" using assms(1,2) by (intro safe_extract_no_dict [OF assms(1) _ assms(2)]) simp
  have ne: "xs \<noteq> []" using assms(3) by auto
  have "map_exc read_variant xs = Inl AttributeError"
    using read_variant_error assms(3) by (rule map_exc_fails)
  then have "video_download_try (PList xs) = Inl AttributeError"
    by (simp add: video_download_try_def)
  with assms(2) video_download_degrade_first [OF nd ne] show ?thesis
    by (simp add: extract_video_download_def)
qed

lemma extract_video_download_tiktok_degrade:
  assumes "no_dict data"
    and "safe_extract data ''video.bitrateInfo'' (PList []) = Inr (PList xs)"
    and "\<exists>x \<in> set xs. read_variant_tiktok x = Inl AttributeError"
  shows "extract_video_download_tiktok cfg data st =
    (Inr (first_variant_values (hd xs) ''PlayAddr'' ''Height'' ''Width'' ''UrlList''
            (VIDEO_TIKTOK_INDEX cfg)),
     st\<lparr>logs := logs st @ [LogVideoParseFailed data]\<rparr>)"
proof -
  have nd: "no_dict (PList xs)" by (intro safe_extract_no_dict [OF assms(1) _ assms(2)]) simp
  have ne: "xs \<noteq> []" using assms(3) by auto
  have "map_exc read_variant_tiktok xs = Inl AttributeError"
    using read_variant_tiktok_error assms(3) by (rule map_exc_fails)
  then have "video_download_try_tiktok cfg (PList xs) = Inl AttributeError"
    by (simp add: video_download_try_tiktok_def)
  with assms(2) video_download_degrade_tiktok_first [OF nd ne, of cfg] show ?thesis
    by (simp add: extract_video_download_tiktok_def)
qed

text \<open>
  Claim C7, as the code has it. On a data-object tree whose variant list holds a variant
  without one of the expected sub-fields, neither selector raises: it writes one log entry
  with the payload and returns the height and the width of the first raw variant, each
  \<open>-1\<close> when missing or falsy, with a URL candidate of that variant, the empty string when
  there is none. The Source-A selector takes the last URL candidate, the Source-B selector
  the one at the configured index.
\<close>

theorem quality_selector_degrades:
  assumes "no_dict data"
  shows "(safe_extract data ''video.bit_rate'' (PList []) = Inr (PList xs) \<longrightarrow>
      (\<exists>x \<in> set xs. read_variant x = Inl AttributeError) \<longrightarrow>
      extract_video_download data st =
        (Inr (first_variant_values (hd xs) ''play_addr'' ''height'' ''width'' ''url_list'' (- 1)),
         st\<lparr>logs := logs st @ [LogVideoParseFailed data]\<rparr>)) \<and>
    (safe_extract data ''video.bitrateInfo'' (PList []) = Inr (PList xs) \<longrightarrow>
      (\<exists>x \<in> set xs. read_variant_tiktok x = Inl AttributeError) \<longrightarrow>
      extract_video_download_tiktok cfg data st =
        (Inr (first_variant_values (hd xs) ''PlayAddr'' ''Height'' ''Width'' ''UrlList''
                (VIDEO_TIKTOK_INDEX cfg)),
         st\<lparr>logs := logs st @ [LogVideoParseFailed data]\<rparr>))"
  using extract_video_download_degrade [OF assms, of xs st]
    extract_video_download_tiktok_degrade [OF assms, of xs cfg st]
  by blast

lemma partial_item_facts:
  "no_dict partial_item"
  "safe_extract partial_item ''video.bit_rate'' (PList [])
     = Inr (PList [generate_data_object partial_variant])"
  "read_variant (generate_data_object partial_variant) = Inl AttributeError"
  by (simp_all add: partial_item_def partial_variant_def path_defs read_variant_def)

lemma partial_item_tiktok_facts:
  "no_dict partial_item_tiktok"
  "safe_extract partial_item_tiktok ''video.bitrateInfo'' (PList [])
     = Inr (PList [generate_data_object partial_variant_tiktok])"
  "read_variant_tiktok (generate_data_object partial_variant_tiktok) = Inl AttributeError"
  by (simp_all add: partial_item_tiktok_def partial_variant_tiktok_def path_defs
      read_variant_tiktok_def)

theorem quality_selector_degrades_witness:
  "no_dict partial_item \<and>
   extract_video_download partial_item st0 =
     (Inr (PInt 5, PInt (- 1), PStr ''u2''), st0\<lparr>logs := [LogVideoParseFailed partial_item]\<rparr>)"
proof -
  have ex: "\<exists>x \<in> set [generate_data_object partial_variant]. read_variant x = Inl AttributeError"
    using partial_item_facts(3) by simp
  have v: "first_variant_values (generate_data_object partial_variant)
      ''play_addr'' ''height'' ''width'' ''url_list'' (- 1) = (PInt 5, PInt (- 1), PStr ''u2'')"
    by (simp add: first_variant_values_def partial_variant_def seq_get_def py_or_def)
  from quality_selector_degrades [OF partial_item_facts(1),
      where xs = "[generate_data_object partial_variant]" and st = st0]
    partial_item_facts(2) ex v
  show ?thesis using partial_item_facts(1) by (simp add: st0_def)
qed

text \<open>
  Claim C7 as stated fails for Source-B with the first URL configured: the first raw variant offers
  \<open>u1\<close> and \<open>u2\<close>, and the selector returns \<open>u1\<close>, not the last candidate.
\<close>

theorem quality_selector_tiktok_degrades_to_configured_url:
  "fst (extract_video_download_tiktok cfg_first partial_item_tiktok st0)
     = Inr (PInt 5, PInt 6, PStr ''u1'') \<and>
   fst (extract_video_download_tiktok cfg_first partial_item_tiktok st0)
     \<noteq> Inr (PInt 5, PInt 6, PStr (last [''u1'', ''u2'']))"
proof -
  have ex: "\<exists>x \<in> set [generate_data_object partial_variant_tiktok].
      read_variant_tiktok x = Inl AttributeError"
    using partial_item_tiktok_facts(3) by simp
  have v: "first_variant_values (generate_data_object partial_variant_tiktok)
      ''PlayAddr'' ''Height'' ''Width'' ''UrlList'' (VIDEO_TIKTOK_INDEX cfg_first)
      = (PInt 5, PInt 6, PStr ''u1'')"
    by (simp add: first_variant_values_def partial_variant_tiktok_def seq_get_def py_or_def
        cfg_first_def)
  from extract_video_download_tiktok_degrade [OF partial_item_tiktok_facts(1,2) ex,
      of cfg_first st0] v
  show ?thesis by simp
qed

section \<open>Properties of share links\<close>

lemma map_of_dict_set: "map_of (dict_set k v d) k' = (if k' = k then Some v else map_of d k')"
  by (induction d) auto

lemma dict_get_dict_set:
  "dict_get (dict_set k v d) k' = (if k' = k then Inr v else dict_get d k')"
  by (simp add: dict_get_def map_of_dict_set)

lemma dict_get_none_dict_set:
  "dict_get_none (dict_set k v d) k' = (if k' = k then v else dict_get_none d k')"
  by (simp add: dict_get_none_def map_of_dict_set)

lemma safe_extract_plain1:
  "CHR ''['' \<notin> set a \<Longrightarrow> split_on CHR ''.'' p = [a] \<Longrightarrow>
   safe_extract x p d = Inr (py_or (getattr_none x a) d)"
  by (auto simp: safe_extract_def seg_step_def py_or_def Let_def)

lemma split_on_nonempty: "split_on c s \<noteq> []"
  by (induction s) (auto split: list.splits)

lemma safe_extract_falsy_root:
  "\<not> truthy x \<Longrightarrow> safe_extract x p d = Inr d"
proof -
  assume f: "\<not> truthy x"
  obtain a as where s: "split_on CHR ''.'' p = a # as"
    using split_on_nonempty [of "CHR ''.''" p] by (cases "split_on CHR ''.'' p") auto
  have g: "\<And>n. getattr_none x n = PNone" using f by (cases x) auto
  have "seg_step x a = Inr None"
    by (cases "py_int (seg_index a)") (auto simp: seg_step_def g dest: py_int_error)
  with s show ?thesis by (simp add: safe_extract_def)
qed

lemma account_info_tiktok_unique_id:
  assumes "extract_account_info_tiktok d c item data = Inr item'"
    and "safe_extract data ''author'' (PStr []) = Inr author"
  shows "dict_get item' ''unique_id'' = Inr (py_or (getattr_none author ''uniqueId'') (PStr []))"
proof -
  have u: "safe_extract author ''uniqueId'' (PStr [])
      = Inr (py_or (getattr_none author ''uniqueId'') (PStr []))"
    by (rule safe_extract_plain1) simp_all
  from assms show ?thesis
    by (auto simp: extract_account_info_tiktok_def put_def u extract_nickname_info_def
        bind_exc_def dict_get_dict_set split: sum.splits if_splits)
qed

lemma type_names_distinct:
  "TYPE_VIDEO \<noteq> TYPE_IMAGES" "TYPE_VIDEO \<noteq> TYPE_LIVE" "TYPE_IMAGES \<noteq> TYPE_LIVE"
  "TYPE_IMAGES \<noteq> TYPE_VIDEO" "TYPE_LIVE \<noteq> TYPE_VIDEO" "TYPE_LIVE \<noteq> TYPE_IMAGES"
  by (simp_all add: TYPE_VIDEO_def TYPE_IMAGES_def TYPE_LIVE_def)

lemma additional_info_share_url:
  assumes "dict_get item ''type'' = Inr wtype" "dict_get item ''id'' = Inr wid"
    and "dict_get item ''unique_id'' = Inr u"
  shows "extract_additional_info d item data tiktok =
    Inr (dict_set ''share_url''
           (PStr (generate_link d wtype wid (if tiktok then u else PNone)))
           (dict_set ''ratio''
              (py_or (getattr_none (getattr_none data ''video'') ''ratio'') (PStr [])) item))"
proof -
  have "safe_extract data ''video.ratio'' (PStr [])
      = Inr (py_or (getattr_none (getattr_none data ''video'') ''ratio'') (PStr []))"
    by (rule safe_extract_plain2) simp_all
  with assms show ?thesis by (simp add: extract_additional_info_def)
qed

text \<open>
  Claim C10. The share link depends on the truth value of the handle and on the type, not
  on the platform: with an empty handle the Source-A formats are used (a video yields
  \<open>https://www.douyin.com/video/{id}\<close>), with a non-empty handle a video and an image set
  get the Source-B formats and every other type, live-photo sets included, the empty
  string. The Source-B author extractor stores the empty string as handle when the author
  carries no \<open>uniqueId\<close>, and \<open>extract_additional_info\<close> then builds the Source-A link
  although its platform flag is set.
\<close>

theorem share_link_dispatch:
  "(\<not> truthy unique_id \<longrightarrow>
      generate_link d wtype wid unique_id =
        (if wtype = PStr TYPE_VIDEO then ''https://www.douyin.com/video/'' @ py_str d wid
         else if wtype = PStr TYPE_IMAGES \<or> wtype = PStr TYPE_LIVE
           then ''https://www.douyin.com/note/'' @ py_str d wid
         else [])) \<and>
   (truthy unique_id \<longrightarrow>
      generate_link d wtype wid unique_id =
        (if wtype = PStr TYPE_VIDEO
           then ''https://www.tiktok.com/@'' @ py_str d unique_id @ ''/video/'' @ py_str d wid
         else if wtype = PStr TYPE_IMAGES
           then ''https://www.tiktok.com/@'' @ py_str d unique_id @ ''/photo/'' @ py_str d wid
         else [])) \<and>
   (truthy unique_id \<longrightarrow> generate_link d (PStr TYPE_LIVE) wid unique_id = []) \<and>
   (extract_account_info_tiktok d c item0 data = Inr item1 \<longrightarrow>
      safe_extract data ''author'' (PStr []) = Inr author \<longrightarrow>
      \<not> truthy (getattr_none author ''uniqueId'') \<longrightarrow>
      dict_get item1 ''unique_id'' = Inr (PStr [])) \<and>
   (dict_get item ''type'' = Inr (PStr TYPE_VIDEO) \<longrightarrow> dict_get item ''id'' = Inr wid \<longrightarrow>
      dict_get item ''unique_id'' = Inr u \<longrightarrow> \<not> truthy u \<longrightarrow>
      bind_exc (extract_additional_info d item data True) (\<lambda>r. dict_get r ''share_url'')
        = Inr (PStr (''https://www.douyin.com/video/'' @ py_str d wid)))"
proof (intro conjI impI)
  show "generate_link d wtype wid unique_id =
        (if wtype = PStr TYPE_VIDEO then ''https://www.douyin.com/video/'' @ py_str d wid
         else if wtype = PStr TYPE_IMAGES \<or> wtype = PStr TYPE_LIVE
           then ''https://www.douyin.com/note/'' @ py_str d wid
         else [])" if "\<not> truthy unique_id"
    using that by (simp add: generate_link_def)
  show "generate_link d wtype wid unique_id =
        (if wtype = PStr TYPE_VIDEO
           then ''https://www.tiktok.com/@'' @ py_str d unique_id @ ''/video/'' @ py_str d wid
         else if wtype = PStr TYPE_IMAGES
           then ''https://www.tiktok.com/@'' @ py_str d unique_id @ ''/photo/'' @ py_str d wid
         else [])" if "truthy unique_id"
    using that by (simp add: generate_link_def)
  show "generate_link d (PStr TYPE_LIVE) wid unique_id = []" if "truthy unique_id"
    using that by (simp add: generate_link_def type_names_distinct)
  show "dict_get item1 ''unique_id'' = Inr (PStr [])"
    if "extract_account_info_tiktok d c item0 data = Inr item1"
      and "safe_extract data ''author'' (PStr []) = Inr author"
      and "\<not> truthy (getattr_none author ''uniqueId'')"
    using account_info_tiktok_unique_id [OF that(1,2)] that(3) by (simp add: py_or_def)
  show "bind_exc (extract_additional_info d item data True) (\<lambda>r. dict_get r ''share_url'')
        = Inr (PStr (''https://www.douyin.com/video/'' @ py_str d wid))"
    if "dict_get item ''type'' = Inr (PStr TYPE_VIDEO)" "dict_get item ''id'' = Inr wid"
      "dict_get item ''unique_id'' = Inr u" "\<not> truthy u"
    using additional_info_share_url [OF that(1-3), of d data True] that(4)
    by (simp add: dict_get_dict_set generate_link_def)
qed

theorem share_link_dispatch_witness:
  "generate_link deps0 (PStr TYPE_VIDEO) (PStr ''9001'') (PStr []) = ''https://www.douyin.com/video/9001'' \<and>
   generate_link deps0 (PStr TYPE_LIVE) (PStr ''9001'') (PStr ''bob'') = [] \<and>
   (case fst (batch deps0 cfg_first [handleless_tiktok_video] True (PStr ''bob'') (PStr [])
        739038 739067 True st0) of
      Inr items \<Rightarrow> map (\<lambda>i. dict_get_none i ''share_url'') items
    | Inl e \<Rightarrow> []) = [PStr ''https://www.douyin.com/video/9001'']"
proof -
  have f: "\<not> truthy (PStr [])" and t: "truthy (PStr ''bob'')" by simp_all
  from share_link_dispatch [where unique_id = "PStr []" and wtype = "PStr TYPE_VIDEO"
      and wid = "PStr ''9001''" and d = deps0] f
  have a: "generate_link deps0 (PStr TYPE_VIDEO) (PStr ''9001'') (PStr [])
      = ''https://www.douyin.com/video/9001''"
    by (simp add: py_str_def)
  from share_link_dispatch [where unique_id = "PStr ''bob''" and wid = "PStr ''9001''"
      and d = deps0] t
  have b: "generate_link deps0 (PStr TYPE_LIVE) (PStr ''9001'') (PStr ''bob'') = []"
    by blast
  have c: "(case fst (batch deps0 cfg_first [handleless_tiktok_video] True (PStr ''bob'') (PStr [])
        739038 739067 True st0) of
      Inr items \<Rightarrow> map (\<lambda>i. dict_get_none i ''share_url'') items
    | Inl e \<Rightarrow> []) = [PStr ''https://www.douyin.com/video/9001'']"
    by code_simp
  from a b c show ?thesis by simp
qed

section \<open>Properties of identity preprocessing\<close>

lemma subscript_key_error: "subscript_key x k = Inl e \<Longrightarrow> e = KeyError \<or> e = TypeError"
  by (cases x) (auto simp: dict_get_def split: option.splits)

lemma user_fields_error: "user_fields data = Inl e \<Longrightarrow> e = KeyError \<or> e = TypeError"
  by (auto simp: user_fields_def bind_exc_def split: sum.splits dest: subscript_key_error)

lemma user_fields_tiktok_error:
  "user_fields_tiktok data = Inl e \<Longrightarrow> e = KeyError \<or> e = TypeError"
  by (auto simp: user_fields_tiktok_def bind_exc_def split: sum.splits dest: subscript_key_error)

text \<open>What \<^verbatim>\<open>info.get("sec_uid")\<close> yields after either reader.\<close>

lemma get_user_info_result:
  "(if tiktok then get_user_info_tiktok data else get_user_info data) st =
     (case (if tiktok then user_fields_tiktok data else user_fields data) of
        Inr info \<Rightarrow> (Inr info, st)
      | Inl e \<Rightarrow> (Inr [], st\<lparr>logs := logs st @ [LogUserInfoFailed data]\<rparr>))"
  by (auto simp: get_user_info_def get_user_info_tiktok_def user_info_or_empty_def
      split: sum.splits dest: user_fields_error user_fields_tiktok_error)

lemma info_sec_uid_payload:
  "dict_get_none (case (if tiktok then user_fields_tiktok data else user_fields data) of
        Inr info \<Rightarrow> info | Inl e \<Rightarrow> []) ''sec_uid'' = PStr u
   \<Longrightarrow> payload_sec_uid tiktok data = Inr (PStr u)"
  by (cases tiktok)
     (auto simp: user_fields_def user_fields_tiktok_def payload_sec_uid_def bind_exc_def
        dict_get_none_def split: sum.splits)

text \<open>
  Claim C9. For a single-profile payload (a dictionary), reading the account information
  never raises and does not touch the recorder; when the \<^verbatim>\<open>sec_uid\<close> it yields
  (\<^verbatim>\<open>None\<close> when the account information cannot be read) differs from the expected
  identifier, \<open>preprocessing_data\<close> writes the mismatch to the log and returns the triple
  of empty strings. In particular this is the result whenever the payload does not carry
  the expected identifier as its \<^verbatim>\<open>sec_uid\<close>.
\<close>

theorem identity_mismatch_empty_triple:
  "\<exists>info st1.
     (if tiktok then get_user_info_tiktok (PDict kvs) else get_user_info (PDict kvs)) st
       = (Inr info, st1) \<and>
     rows st1 = rows st \<and> stats st1 = stats st \<and>
     (dict_get_none info ''sec_uid'' \<noteq> PStr user_id \<longrightarrow>
        preprocessing_data d (PDict kvs) tiktok mode mark user_id st =
          (Inr (PStr [], PStr [], PStr []),
           st1\<lparr>logs := logs st1 @ [LogSecUidMismatch user_id (dict_get_none info ''sec_uid'')]\<rparr>)) \<and>
     (payload_sec_uid tiktok (PDict kvs) \<noteq> Inr (PStr user_id) \<longrightarrow>
        dict_get_none info ''sec_uid'' \<noteq> PStr user_id)"
proof (cases "if tiktok then user_fields_tiktok (PDict kvs) else user_fields (PDict kvs)")
  case (Inl e)
  let ?st1 = "st\<lparr>logs := logs st @ [LogUserInfoFailed (PDict kvs)]\<rparr>"
  have g: "(if tiktok then get_user_info_tiktok (PDict kvs) else get_user_info (PDict kvs)) st
      = (Inr [], ?st1)"
    using get_user_info_result [of tiktok "PDict kvs" st] Inl by simp
  have p: "preprocessing_data d (PDict kvs) tiktok mode mark user_id st =
      (Inr (PStr [], PStr [], PStr []),
       ?st1\<lparr>logs := logs ?st1 @ [LogSecUidMismatch user_id (dict_get_none [] ''sec_uid'')]\<rparr>)"
    using g by (simp add: preprocessing_data_def bind_st_def dict_get_none_def log_write_def ret_def)
  show ?thesis
    using g p by (intro exI [of _ "[]"] exI [of _ ?st1]) (simp add: dict_get_none_def)
next
  case (Inr info)
  have g: "(if tiktok then get_user_info_tiktok (PDict kvs) else get_user_info (PDict kvs)) st
      = (Inr info, st)"
    using get_user_info_result [of tiktok "PDict kvs" st] Inr by simp
  have p: "dict_get_none info ''sec_uid'' \<noteq> PStr user_id \<Longrightarrow>
      preprocessing_data d (PDict kvs) tiktok mode mark user_id st =
      (Inr (PStr [], PStr [], PStr []),
       st\<lparr>logs := logs st @ [LogSecUidMismatch user_id (dict_get_none info ''sec_uid'')]\<rparr>)"
    using g by (simp add: preprocessing_data_def bind_st_def log_write_def ret_def)
  have q: "payload_sec_uid tiktok (PDict kvs) \<noteq> Inr (PStr user_id) \<Longrightarrow>
      dict_get_none info ''sec_uid'' \<noteq> PStr user_id"
    using info_sec_uid_payload [of tiktok "PDict kvs" user_id] Inr by auto
  show ?thesis
    using g p q by (intro exI [of _ info] exI [of _ st]) simp
qed

theorem identity_mismatch_empty_triple_witness:
  "payload_sec_uid False profile_x = Inr (PStr ''X'') \<and> ''X'' \<noteq> ''Y'' \<and>
   preprocessing_data deps0 profile_x False (PStr ''post'') (PStr []) ''Y'' st0 =
     (Inr (PStr [], PStr [], PStr []), st0\<lparr>logs := [LogSecUidMismatch ''Y'' (PStr ''X'')]\<rparr>)"
proof -
  let ?kvs = "[(''nickname'', PStr ''carol''), (''sec_uid'', PStr ''X''), (''uid'', PStr ''42'')]"
  have px: "profile_x = PDict ?kvs" by (simp add: profile_x_def)
  have g: "get_user_info (PDict ?kvs) st0 = (Inr ?kvs, st0)"
    by (simp add: get_user_info_def user_fields_def user_info_or_empty_def dict_get_def)
  have s: "payload_sec_uid False (PDict ?kvs) = Inr (PStr ''X'')"
    by (simp add: payload_sec_uid_def dict_get_def)
  from identity_mismatch_empty_triple [of False ?kvs st0 "''Y''" deps0 "PStr ''post''" "PStr []"]
  obtain info st1 where
    a: "get_user_info (PDict ?kvs) st0 = (Inr info, st1)" and
    b: "dict_get_none info ''sec_uid'' \<noteq> PStr ''Y'' \<longrightarrow>
        preprocessing_data deps0 (PDict ?kvs) False (PStr ''post'') (PStr []) ''Y'' st0 =
          (Inr (PStr [], PStr [], PStr []),
           st1\<lparr>logs := logs st1 @ [LogSecUidMismatch ''Y'' (dict_get_none info ''sec_uid'')]\<rparr>)"
    by auto
  from a g have i: "info = ?kvs" "st1 = st0" by simp_all
  have "dict_get_none ?kvs ''sec_uid'' = PStr ''X''" by (simp add: dict_get_none_def)
  with b i have "preprocessing_data deps0 (PDict ?kvs) False (PStr ''post'') (PStr []) ''Y'' st0 =
          (Inr (PStr [], PStr [], PStr []),
           st0\<lparr>logs := logs st0 @ [LogSecUidMismatch ''Y'' (PStr ''X'')]\<rparr>)"
    by simp
  with s px show ?thesis by (simp add: st0_def)
qed

section \<open>Properties of the date filters\<close>

lemma filter_exc_Inr:
  "(\<And>x. x \<in> set xs \<Longrightarrow> p x = Inr (q x)) \<Longrightarrow> filter_exc p xs = Inr (filter q xs)"
  by (induction xs) auto

lemma filter_exc_result:
  "filter_exc p xs = Inr r \<Longrightarrow> r = filter (\<lambda>x. p x = Inr True) xs"
proof (induction xs arbitrary: r)
  case Nil
  then show ?case by simp
next
  case (Cons x xs)
  then show ?case
    by (cases "p x"; cases "filter_exc p xs") auto
qed

lemma filter_exc_error:
  "x \<in> set xs \<Longrightarrow> p x = Inl e \<Longrightarrow> \<exists>e'. filter_exc p xs = Inl e'"
proof (induction xs)
  case Nil
  then show ?case by simp
next
  case (Cons y ys)
  then show ?case
    by (cases "p y"; cases "filter_exc p ys") auto
qed

lemma source_keeps_ok:
  "source_item_ok d tiktok item \<Longrightarrow>
   source_keeps d (timestamp_key tiktok) e l item = Inr (source_keeps_spec d tiktok e l item)"
  by (cases item)
     (auto simp: source_item_ok_def source_keeps_def source_keeps_spec_def in_date_range_def
        split: option.splits sum.splits)

lemma source_keeps_True:
  "source_keeps d (timestamp_key tiktok) e l item = Inr True \<longleftrightarrow> source_keeps_spec d tiktok e l item"
  by (cases item)
     (auto simp: source_keeps_def source_keeps_spec_def in_date_range_def bind_exc_def
        split: option.splits sum.splits)

lemma source_date_filter_unfold:
  "source_date_filter d data e l tiktok = source_date_filter_impl d data (timestamp_key tiktok) e l"
  by (simp add: source_date_filter_def timestamp_key_def)

text \<open>
  Claim C8. Where every payload item is a dictionary whose timestamp, if present and truthy,
  is a number with a calendar date, the raw-source date filter returns exactly the items
  whose native timestamp field (\<^verbatim>\<open>create_time\<close>, for Source-B \<^verbatim>\<open>createTime\<close>) is
  missing or falsy or whose local calendar date lies between the two boundary dates, both
  included, in their order; and whenever the filter returns at all, it returns exactly
  these items.
\<close>

theorem source_date_filter_keeps:
  "((\<forall>item \<in> set data. source_item_ok d tiktok item) \<longrightarrow>
      source_date_filter d data e l tiktok st =
        (Inr (filter (source_keeps_spec d tiktok e l) data),
         st\<lparr>logs := logs st @
            [LogSummary (length (filter (source_keeps_spec d tiktok e l) data))]\<rparr>)) \<and>
   (\<forall>r st'. source_date_filter d data e l tiktok st = (Inr r, st') \<longrightarrow>
      r = filter (source_keeps_spec d tiktok e l) data)"
proof (intro conjI impI allI)
  assume ok: "\<forall>item \<in> set data. source_item_ok d tiktok item"
  have "filter_exc (source_keeps d (timestamp_key tiktok) e l) data
      = Inr (filter (source_keeps_spec d tiktok e l) data)"
    using ok by (intro filter_exc_Inr source_keeps_ok) simp
  then show "source_date_filter d data e l tiktok st =
        (Inr (filter (source_keeps_spec d tiktok e l) data),
         st\<lparr>logs := logs st @
            [LogSummary (length (filter (source_keeps_spec d tiktok e l) data))]\<rparr>)"
    by (simp add: source_date_filter_unfold source_date_filter_impl_def summary_detail_def)
next
  fix r st'
  assume "source_date_filter d data e l tiktok st = (Inr r, st')"
  then have "filter_exc (source_keeps d (timestamp_key tiktok) e l) data = Inr r"
    by (cases "filter_exc (source_keeps d (timestamp_key tiktok) e l) data")
       (auto simp: source_date_filter_unfold source_date_filter_impl_def summary_detail_def)
  from filter_exc_result [OF this] show "r = filter (source_keeps_spec d tiktok e l) data"
    by (simp add: source_keeps_True)
qed

theorem source_date_filter_keeps_witness:
  "source_item_ok deps0 False june_video \<and> source_item_ok deps0 False undated_video \<and>
   fst (source_date_filter deps0 [june_video, undated_video] 739038 739067 False st0)
     = Inr [june_video, undated_video] \<and>
   fst (source_date_filter deps0 [june_video, undated_video] 739068 739098 False st0)
     = Inr [undated_video] \<and>
   fst (source_date_filter deps0 [june_video, undated_video] 739052 739052 False st0)
     = Inr [june_video, undated_video]"
proof -
  have day: "date_of_timestamp deps0 (PInt 1718452800) = Inr 739052"
    by (simp add: date_of_timestamp_def deps0_def)
  have ok: "\<forall>item \<in> set [june_video, undated_video]. source_item_ok deps0 False item"
    by (simp add: source_item_ok_def june_video_def undated_video_def timestamp_key_def day)
  have k1: "\<And>e l. source_keeps_spec deps0 False e l june_video = (e \<le> 739052 \<and> 739052 \<le> l)"
    by (simp add: source_keeps_spec_def june_video_def timestamp_key_def in_date_range_def day)
  have k2: "\<And>e l. source_keeps_spec deps0 False e l undated_video"
    by (simp add: source_keeps_spec_def undated_video_def timestamp_key_def)
  from source_date_filter_keeps [of "[june_video, undated_video]" deps0 False 739038 739067 st0] ok
  have a: "fst (source_date_filter deps0 [june_video, undated_video] 739038 739067 False st0)
     = Inr [june_video, undated_video]"
    by (simp add: k1 k2)
  from source_date_filter_keeps [of "[june_video, undated_video]" deps0 False 739068 739098 st0] ok
  have b: "fst (source_date_filter deps0 [june_video, undated_video] 739068 739098 False st0)
     = Inr [undated_video]"
    by (simp add: k1 k2)
  from source_date_filter_keeps [of "[june_video, undated_video]" deps0 False 739052 739052 st0] ok
  have c: "fst (source_date_filter deps0 [june_video, undated_video] 739052 739052 False st0)
     = Inr [june_video, undated_video]"
    by (simp add: k1 k2)
  from ok a b c show ?thesis by simp
qed

section \<open>Properties of the pipeline\<close>

lemma quiet_step_refl: "quiet_step s s"
  by (simp add: quiet_step_def)

lemma quiet_step_trans: "quiet_step s s1 \<Longrightarrow> quiet_step s1 s2 \<Longrightarrow> quiet_step s s2"
  by (auto simp: quiet_step_def)

lemma quiet_ret: "quiet (ret x)"
  by (simp add: quiet_def quiet_step_refl)

lemma quiet_raise: "quiet (raise e)"
  by (simp add: quiet_def quiet_step_refl)

lemma quiet_lift: "quiet (lift_exc r)"
  by (simp add: quiet_def quiet_step_refl)

lemma quiet_bind:
  assumes "quiet m" "\<And>a. quiet (f a)"
  shows "quiet (bind_st m f)"
proof -
  have "quiet_step s (snd (bind_st m f s))" for s
  proof (cases "m s")
    case (Pair r s1)
    have 1: "quiet_step s s1" using assms(1) Pair by (auto simp: quiet_def dest: spec [of _ s])
    show ?thesis
    proof (cases r)
      case (Inl e)
      with Pair 1 show ?thesis by (simp add: bind_st_def)
    next
      case (Inr a)
      have "quiet_step s1 (snd (f a s1))" using assms(2) by (simp add: quiet_def)
      with 1 have "quiet_step s (snd (f a s1))" by (rule quiet_step_trans)
      with Pair Inr show ?thesis by (simp add: bind_st_def)
    qed
  qed
  then show ?thesis by (simp add: quiet_def)
qed

lemma quiet_log_parse: "quiet (log_write (LogVideoParseFailed x))"
  by (simp add: quiet_def quiet_step_def log_write_def is_parse_log_def)

lemma quiet_map_st: "(\<And>x. quiet (f x)) \<Longrightarrow> quiet (map_st f xs)"
  by (induction xs) (auto intro!: quiet_bind quiet_ret)

lemma quiet_extract_video_download: "quiet (extract_video_download data)"
  unfolding extract_video_download_def
  by (intro quiet_bind quiet_lift) (auto intro!: quiet_bind quiet_ret quiet_raise quiet_lift quiet_log_parse split: sum.splits)

lemma quiet_extract_video_download_tiktok: "quiet (extract_video_download_tiktok cfg data)"
  unfolding extract_video_download_tiktok_def
  by (intro quiet_bind quiet_lift) (auto intro!: quiet_bind quiet_ret quiet_raise quiet_lift quiet_log_parse split: sum.splits)

lemma quiet_extract_video_info: "quiet (extract_video_info item data t)"
  unfolding extract_video_info_def
  by (intro quiet_bind quiet_lift quiet_extract_video_download)

lemma quiet_extract_video_info_tiktok: "quiet (extract_video_info_tiktok cfg item data t)"
  unfolding extract_video_info_tiktok_def
  by (intro quiet_bind quiet_lift quiet_extract_video_download_tiktok)

lemma quiet_classify_slides_item: "quiet (classify_slides_item i)"
  unfolding classify_slides_item_def
  by (intro quiet_bind quiet_lift)
     (auto intro!: quiet_bind quiet_ret quiet_lift quiet_extract_video_download split: prod.splits)

lemma quiet_extract_image_info: "quiet (extract_image_info d item data images)"
  unfolding extract_image_info_def
  by (intro quiet_bind quiet_lift)
     (auto intro!: quiet_bind quiet_ret quiet_lift quiet_map_st quiet_classify_slides_item)

lemma quiet_classifying_detail: "quiet (classifying_detail d item data)"
  unfolding classifying_detail_def
  by (intro quiet_bind quiet_lift)
     (auto intro!: quiet_extract_image_info quiet_extract_video_info)

lemma quiet_classifying_detail_tiktok: "quiet (classifying_detail_tiktok d cfg item data)"
  unfolding classifying_detail_tiktok_def
  by (intro quiet_bind quiet_lift)
     (auto intro!: quiet_lift quiet_extract_video_info_tiktok)

lemma quiet_extract_batch: "quiet (extract_batch d c data)"
  unfolding extract_batch_def extract_detail_info_def
  by (intro quiet_bind quiet_lift quiet_classifying_detail)

lemma quiet_extract_batch_tiktok: "quiet (extract_batch_tiktok d cfg c data)"
  unfolding extract_batch_tiktok_def extract_detail_info_tiktok_def
  by (intro quiet_bind quiet_lift quiet_classifying_detail_tiktok)

lemma quiet_platform_classify_detail: "quiet (platform_classify_detail d cfg data c tiktok)"
  unfolding platform_classify_detail_def
  by (intro quiet_bind quiet_ret quiet_map_st)
     (auto intro!: quiet_extract_batch quiet_extract_batch_tiktok)

lemma bind_st_Inr:
  assumes "bind_st m f s = (Inr r, s')"
  obtains a s1 where "m s = (Inr a, s1)" "f a s1 = (Inr r, s')"
  using assms by (auto simp: bind_st_def split: prod.splits sum.splits)

lemma map_st_length: "map_st f xs s = (Inr ys, s') \<Longrightarrow> length ys = length xs"
proof (induction xs arbitrary: ys s s')
  case Nil
  then show ?case by simp
next
  case (Cons x xs)
  from Cons.prems obtain y s1 where 1: "f x s = (Inr y, s1)"
    and 2: "bind_st (map_st f xs) (\<lambda>ys. ret (y # ys)) s1 = (Inr ys, s')"
    by (auto elim: bind_st_Inr)
  from 2 obtain zs s2 where 3: "map_st f xs s1 = (Inr zs, s2)" and 4: "ys = y # zs"
    by (auto elim!: bind_st_Inr)
  from Cons.IH [OF 3] 4 show ?case by simp
qed

lemma platform_classify_detail_Inr:
  assumes "platform_classify_detail d cfg data c tiktok s = (Inr c', s')"
  shows "\<exists>items. c' = c\<lparr>all_data := all_data c @ items\<rparr> \<and> length items = length data"
    and "quiet_step s s'"
proof -
  from assms show "\<exists>items. c' = c\<lparr>all_data := all_data c @ items\<rparr> \<and> length items = length data"
    by (auto simp: platform_classify_detail_def elim!: bind_st_Inr dest: map_st_length)
  from quiet_platform_classify_detail [of d cfg data c tiktok] assms
  show "quiet_step s s'" by (auto simp: quiet_def dest: spec [of _ s])
qed

lemma extract_item_records_Inr:
  "extract_item_records xs s = (Inr u, s') \<Longrightarrow>
   s' = s\<lparr>logs := logs s @
      map (\<lambda>i. LogExtractOk (dict_get_none i ''type'') (dict_get_none i ''id'')) xs\<rparr>"
proof (induction xs arbitrary: s)
  case Nil
  then show ?case by simp
next
  case (Cons i xs)
  from Cons.prems obtain t ident where t: "dict_get i ''type'' = Inr t"
    and ident: "dict_get i ''id'' = Inr ident"
    and rest: "extract_item_records xs (s\<lparr>logs := logs s @ [LogExtractOk t ident]\<rparr>) = (Inr u, s')"
    by (cases "dict_get i ''type''"; cases "dict_get i ''id''") auto
  from t ident have "dict_get_none i ''type'' = t" "dict_get_none i ''id'' = ident"
    by (auto simp: dict_get_def dict_get_none_def split: option.splits)
  with Cons.IH [OF rest] show ?case by simp
qed

lemma date_filter_Inr:
  "date_filter d c s = (Inr c', s') \<Longrightarrow>
   s' = s \<and> c' = c\<lparr>all_data := filter (\<lambda>i. date_keeps d c i = Inr True) (all_data c)\<rparr>"
  by (cases "filter_exc (date_keeps d c) (all_data c)")
     (auto simp: date_filter_def dest: filter_exc_result)

lemma filter_hook_run:
  "filter_hook h xs s =
     (Inr (fst (hook_run h xs (stats s))), s\<lparr>stats := snd (hook_run h xs (stats s))\<rparr>)"
proof (induction xs arbitrary: s)
  case Nil
  show ?case by simp
next
  case (Cons i xs)
  show ?case
    by (auto simp: Cons bind_st_def ret_def split: prod.splits)
qed

lemma hook_run_subseq: "subseq (fst (hook_run h xs fs)) xs"
proof (induction xs arbitrary: fs)
  case Nil
  show ?case by simp
next
  case (Cons i xs)
  obtain keep fs1 where h: "h i fs = (keep, fs1)" by (cases "h i fs")
  obtain r fs2 where r: "hook_run h xs fs1 = (r, fs2)" by (cases "hook_run h xs fs1")
  from Cons [of fs1] r have "subseq r xs" by simp
  then have "subseq r (i # xs)" "subseq (i # r) (i # xs)" by auto
  with h r show ?case by simp
qed

lemma record_data_Inr:
  "record_data d xs s = (Inr u, s') \<Longrightarrow>
   \<exists>rws. map_exc (extract_values d) xs = Inr rws \<and> s' = s\<lparr>rows := rows s @ rws\<rparr>"
proof (induction xs arbitrary: s)
  case Nil
  then show ?case by simp
next
  case (Cons i xs)
  from Cons.prems obtain row where row: "extract_values d i = Inr row"
    and rest: "record_data d xs (s\<lparr>rows := rows s @ [row]\<rparr>) = (Inr u, s')"
    by (cases "extract_values d i") (auto simp: bind_st_def record_save_def)
  from Cons.IH [OF rest] obtain rws where "map_exc (extract_values d) xs = Inr rws"
    "s' = s\<lparr>rows := rows s @ [row] @ rws\<rparr>" by auto
  with row show ?case by simp
qed

lemma date_keeps_all_data: "date_keeps d (c\<lparr>all_data := xs\<rparr>) = date_keeps d c"
  by (rule ext) (simp add: date_keeps_def)

lemma batch_Inr:
  assumes "batch d cfg data tiktok name mark e l sm st = (Inr result, st')"
  obtains c s1 rws where
    "platform_classify_detail d cfg data (batch_container d name mark e l sm) tiktok st
       = (Inr c, s1)"
    "result = fst (hook_run (hook d)
        (filter (\<lambda>i. date_keeps d c i = Inr True) (clean_extract_data (all_data c) ''id''))
        (stats s1))"
    "map_exc (extract_values d) result = Inr rws"
    "st' = s1\<lparr>logs := logs s1 @
              map (\<lambda>i. LogExtractOk (dict_get_none i ''type'') (dict_get_none i ''id''))
                (clean_extract_data (all_data c) ''id'') @ [LogSummary (length result)],
            stats := snd (hook_run (hook d)
              (filter (\<lambda>i. date_keeps d c i = Inr True) (clean_extract_data (all_data c) ''id''))
              (stats s1)),
            rows := rows s1 @ rws\<rparr>"
    "\<exists>dated. filter_exc (date_keeps d c) (clean_extract_data (all_data c) ''id'') = Inr dated"
proof -
  let ?cleaned = "\<lambda>c. clean_extract_data (all_data c) ''id''"
  from assms obtain c s1 where
    1: "platform_classify_detail d cfg data (batch_container d name mark e l sm) tiktok st
          = (Inr c, s1)"
    and r1: "bind_st (ret (c\<lparr>all_data := ?cleaned c\<rparr>)) (\<lambda>c.
       bind_st (extract_item_records (all_data c)) (\<lambda>u.
       bind_st (date_filter d c) (\<lambda>c.
       bind_st (condition_filter_stage d c) (\<lambda>c.
       bind_st (record_data d (all_data c)) (\<lambda>u.
       bind_st (summary_detail (all_data c)) (\<lambda>u.
       ret (all_data c))))))) s1 = (Inr result, st')"
    unfolding batch_def detail_necessary_keys_def by (rule bind_st_Inr)
  let ?c2 = "c\<lparr>all_data := ?cleaned c\<rparr>"
  from r1 have r2: "bind_st (extract_item_records (?cleaned c)) (\<lambda>u.
       bind_st (date_filter d ?c2) (\<lambda>c.
       bind_st (condition_filter_stage d c) (\<lambda>c.
       bind_st (record_data d (all_data c)) (\<lambda>u.
       bind_st (summary_detail (all_data c)) (\<lambda>u.
       ret (all_data c)))))) s1 = (Inr result, st')"
    by simp
  from r2 obtain u s2 where
    2: "extract_item_records (?cleaned c) s1 = (Inr u, s2)"
    and r3: "bind_st (date_filter d ?c2) (\<lambda>c.
       bind_st (condition_filter_stage d c) (\<lambda>c.
       bind_st (record_data d (all_data c)) (\<lambda>u.
       bind_st (summary_detail (all_data c)) (\<lambda>u.
       ret (all_data c))))) s2 = (Inr result, st')"
    by (rule bind_st_Inr)
  from r3 obtain c3 s3 where
    3: "date_filter d ?c2 s2 = (Inr c3, s3)"
    and r4: "bind_st (condition_filter_stage d c3) (\<lambda>c.
       bind_st (record_data d (all_data c)) (\<lambda>u.
       bind_st (summary_detail (all_data c)) (\<lambda>u.
       ret (all_data c)))) s3 = (Inr result, st')"
    by (rule bind_st_Inr)
  let ?dated = "filter (\<lambda>i. date_keeps d c i = Inr True) (?cleaned c)"
  from date_filter_Inr [OF 3] have s3: "s3 = s2" and c3: "all_data c3 = ?dated"
    by (simp_all add: date_keeps_all_data)
  from r4 obtain c4 s4 where
    4: "condition_filter_stage d c3 s3 = (Inr c4, s4)"
    and r5: "bind_st (record_data d (all_data c4)) (\<lambda>u.
       bind_st (summary_detail (all_data c4)) (\<lambda>u.
       ret (all_data c4))) s4 = (Inr result, st')"
    by (rule bind_st_Inr)
  from 4 have c4: "all_data c4 = fst (hook_run (hook d) ?dated (stats s3))"
    and s4: "s4 = s3\<lparr>stats := snd (hook_run (hook d) ?dated (stats s3))\<rparr>"
    by (auto simp: condition_filter_stage_def bind_st_def filter_hook_run ret_def c3)
  from r5 obtain u5 s5 where
    5: "record_data d (all_data c4) s4 = (Inr u5, s5)"
    and r6: "bind_st (summary_detail (all_data c4)) (\<lambda>u. ret (all_data c4)) s5
        = (Inr result, st')"
    by (rule bind_st_Inr)
  from record_data_Inr [OF 5] obtain rws where
    rws: "map_exc (extract_values d) (all_data c4) = Inr rws" and s5: "s5 = s4\<lparr>rows := rows s4 @ rws\<rparr>"
    by auto
  from r6 have res: "result = all_data c4"
    and st': "st' = s5\<lparr>logs := logs s5 @ [LogSummary (length (all_data c4))]\<rparr>"
    by (auto simp: summary_detail_def)
  from extract_item_records_Inr [OF 2] have s2: "s2 = s1\<lparr>logs := logs s1 @
      map (\<lambda>i. LogExtractOk (dict_get_none i ''type'') (dict_get_none i ''id'')) (?cleaned c)\<rparr>" .
  have A: "result = fst (hook_run (hook d) ?dated (stats s1))"
    using res c4 s3 s2 by simp
  have B: "map_exc (extract_values d) result = Inr rws" using rws res by simp
  have C: "st' = s1\<lparr>logs := logs s1 @
              map (\<lambda>i. LogExtractOk (dict_get_none i ''type'') (dict_get_none i ''id''))
                (?cleaned c) @ [LogSummary (length result)],
            stats := snd (hook_run (hook d) ?dated (stats s1)),
            rows := rows s1 @ rws\<rparr>"
    using st' s5 s4 s3 s2 res by simp
  from 3 have D: "\<exists>dated. filter_exc (date_keeps d c) (?cleaned c) = Inr dated"
    by (cases "filter_exc (date_keeps d c) (?cleaned c)")
       (auto simp: date_filter_def date_keeps_all_data)
  from 1 A B C D show thesis by (rule that)
qed

lemma detail_Inr:
  assumes "detail d cfg data tiktok st = (Inr result, st')"
  obtains c s1 rws where
    "platform_classify_detail d cfg data (detail_container d) tiktok st = (Inr c, s1)"
    "result = fst (hook_run (hook d) (clean_extract_data (all_data c) ''id'') (stats s1))"
    "map_exc (extract_values d) (clean_extract_data (all_data c) ''id'') = Inr rws"
    "st' = s1\<lparr>logs := logs s1 @
              map (\<lambda>i. LogExtractOk (dict_get_none i ''type'') (dict_get_none i ''id''))
                (clean_extract_data (all_data c) ''id''),
            stats := snd (hook_run (hook d) (clean_extract_data (all_data c) ''id'') (stats s1)),
            rows := rows s1 @ rws\<rparr>"
proof -
  let ?cleaned = "\<lambda>c. clean_extract_data (all_data c) ''id''"
  from assms obtain c s1 where
    1: "platform_classify_detail d cfg data (detail_container d) tiktok st = (Inr c, s1)"
    and r1: "bind_st (ret (c\<lparr>all_data := ?cleaned c\<rparr>)) (\<lambda>c.
       bind_st (extract_item_records (all_data c)) (\<lambda>u.
       bind_st (record_data d (all_data c)) (\<lambda>u.
       bind_st (condition_filter_stage d c) (\<lambda>c.
       ret (all_data c))))) s1 = (Inr result, st')"
    unfolding detail_def detail_necessary_keys_def by (rule bind_st_Inr)
  let ?c2 = "c\<lparr>all_data := ?cleaned c\<rparr>"
  from r1 have r2: "bind_st (extract_item_records (?cleaned c)) (\<lambda>u.
       bind_st (record_data d (?cleaned c)) (\<lambda>u.
       bind_st (condition_filter_stage d ?c2) (\<lambda>c.
       ret (all_data c)))) s1 = (Inr result, st')"
    by simp
  from r2 obtain u s2 where
    2: "extract_item_records (?cleaned c) s1 = (Inr u, s2)"
    and r3: "bind_st (record_data d (?cleaned c)) (\<lambda>u.
       bind_st (condition_filter_stage d ?c2) (\<lambda>c.
       ret (all_data c))) s2 = (Inr result, st')"
    by (rule bind_st_Inr)
  from r3 obtain u3 s3 where
    3: "record_data d (?cleaned c) s2 = (Inr u3, s3)"
    and r4: "bind_st (condition_filter_stage d ?c2) (\<lambda>c. ret (all_data c)) s3
        = (Inr result, st')"
    by (rule bind_st_Inr)
  from record_data_Inr [OF 3] obtain rws where
    rws: "map_exc (extract_values d) (?cleaned c) = Inr rws"
    and s3: "s3 = s2\<lparr>rows := rows s2 @ rws\<rparr>"
    by auto
  from r4 have res: "result = fst (hook_run (hook d) (?cleaned c) (stats s3))"
    and st': "st' = s3\<lparr>stats := snd (hook_run (hook d) (?cleaned c) (stats s3))\<rparr>"
    by (auto simp: condition_filter_stage_def bind_st_def filter_hook_run ret_def)
  from extract_item_records_Inr [OF 2] have s2: "s2 = s1\<lparr>logs := logs s1 @
      map (\<lambda>i. LogExtractOk (dict_get_none i ''type'') (dict_get_none i ''id'')) (?cleaned c)\<rparr>" .
  have A: "result = fst (hook_run (hook d) (?cleaned c) (stats s1))"
    using res s3 s2 by simp
  have C: "st' = s1\<lparr>logs := logs s1 @
              map (\<lambda>i. LogExtractOk (dict_get_none i ''type'') (dict_get_none i ''id''))
                (?cleaned c),
            stats := snd (hook_run (hook d) (?cleaned c) (stats s1)),
            rows := rows s1 @ rws\<rparr>"
    using st' s3 s2 by simp
  from 1 A rws C show thesis by (rule that)
qed

lemma clean_extract_data_ids:
  "i \<in> set (clean_extract_data xs ''id'') \<Longrightarrow> truthy (dict_get_none i ''id'')"
  by (simp add: clean_extract_data_def)

lemma subseq_member: "subseq xs ys \<Longrightarrow> x \<in> set xs \<Longrightarrow> x \<in> set ys"
  using list_emb_set [of "(=)" xs ys x] by auto

lemma ids_truthy_clean: "ids_truthy (clean_extract_data xs ''id'')"
  by (simp add: ids_truthy_def clean_extract_data_def list_all_iff)

lemma ids_truthy_subseq: "subseq xs ys \<Longrightarrow> ids_truthy ys \<Longrightarrow> ids_truthy xs"
  by (auto simp: ids_truthy_def list_all_iff dest: subseq_member)

lemma logged_ids_clean:
  "list_all logged_id_truthy
     (map (\<lambda>i. LogExtractOk (dict_get_none i ''type'') (dict_get_none i ''id''))
        (clean_extract_data xs ''id''))"
  by (simp add: list_all_iff logged_id_truthy_def clean_extract_data_def)

lemma parse_log_id: "is_parse_log m \<Longrightarrow> logged_id_truthy m"
  by (cases m) (simp_all add: is_parse_log_def logged_id_truthy_def)

lemma quiet_step_new:
  assumes "quiet_step s s1"
  shows "rows s1 = rows s" "stats s1 = stats s"
    "\<exists>ls. logs s1 = logs s @ ls \<and> list_all logged_id_truthy ls"
  using assms by (auto simp: quiet_step_def list_all_iff dest: parse_log_id)

lemma batch_post:
  assumes "batch d cfg data tiktok name mark e l sm st = (Inr result, st')"
  shows "\<exists>c s1. platform_classify_detail d cfg data (batch_container d name mark e l sm) tiktok st
            = (Inr c, s1) \<and>
          length (all_data c) = length data \<and>
          subseq result (clean_extract_data (all_data c) ''id'') \<and>
          result = fst (hook_run (hook d)
            (filter (\<lambda>i. date_keeps d c i = Inr True) (clean_extract_data (all_data c) ''id''))
            (stats st)) \<and>
          ids_truthy result \<and>
          list_all logged_id_truthy (new_logs st st') \<and>
          rows st' = rows st @ new_rows st st' \<and>
          map_exc (extract_values d) result = Inr (new_rows st st')"
proof -
  from assms obtain c s1 rws where
    1: "platform_classify_detail d cfg data (batch_container d name mark e l sm) tiktok st
       = (Inr c, s1)"
    and 2: "result = fst (hook_run (hook d)
        (filter (\<lambda>i. date_keeps d c i = Inr True) (clean_extract_data (all_data c) ''id''))
        (stats s1))"
    and 3: "map_exc (extract_values d) result = Inr rws"
    and 4: "st' = s1\<lparr>logs := logs s1 @
              map (\<lambda>i. LogExtractOk (dict_get_none i ''type'') (dict_get_none i ''id''))
                (clean_extract_data (all_data c) ''id'') @ [LogSummary (length result)],
            stats := snd (hook_run (hook d)
              (filter (\<lambda>i. date_keeps d c i = Inr True) (clean_extract_data (all_data c) ''id''))
              (stats s1)),
            rows := rows s1 @ rws\<rparr>"
    by (rule batch_Inr) blast
  let ?cleaned = "clean_extract_data (all_data c) ''id''"
  from platform_classify_detail_Inr [OF 1] have len: "length (all_data c) = length data"
    and q: "quiet_step st s1"
    by (auto simp: batch_container_def)
  from quiet_step_new [OF q] obtain ls where
    r: "rows s1 = rows st" and s: "stats s1 = stats st"
    and ls: "logs s1 = logs st @ ls" "list_all logged_id_truthy ls"
    by auto
  have "subseq result (filter (\<lambda>i. date_keeps d c i = Inr True) ?cleaned)"
    unfolding 2 by (rule hook_run_subseq)
  also have "subseq \<dots> ?cleaned" by simp
  finally have sub: "subseq result ?cleaned" .
  then have ids: "ids_truthy result" using ids_truthy_clean by (rule ids_truthy_subseq)
  have nl: "new_logs st st' = ls @
      map (\<lambda>i. LogExtractOk (dict_get_none i ''type'') (dict_get_none i ''id'')) ?cleaned
      @ [LogSummary (length result)]"
    using 4 ls(1) by (simp add: new_logs_def)
  have lg: "list_all logged_id_truthy (new_logs st st')"
    unfolding nl using ls(2) logged_ids_clean [of "all_data c"]
    by (simp add: logged_id_truthy_def)
  have nr: "new_rows st st' = rws" using 4 r by (simp add: new_rows_def)
  have ap: "rows st' = rows st @ new_rows st st'" using 4 r nr by simp
  from 1 len sub 2 s ids lg ap 3 nr show ?thesis by auto
qed

lemma detail_post:
  assumes "detail d cfg data tiktok st = (Inr result, st')"
  shows "\<exists>c s1. platform_classify_detail d cfg data (detail_container d) tiktok st = (Inr c, s1) \<and>
          length (all_data c) = length data \<and>
          subseq result (clean_extract_data (all_data c) ''id'') \<and>
          result = fst (hook_run (hook d) (clean_extract_data (all_data c) ''id'') (stats st)) \<and>
          ids_truthy result \<and>
          list_all logged_id_truthy (new_logs st st') \<and>
          rows st' = rows st @ new_rows st st' \<and>
          map_exc (extract_values d) (clean_extract_data (all_data c) ''id'')
            = Inr (new_rows st st')"
proof -
  from assms obtain c s1 rws where
    1: "platform_classify_detail d cfg data (detail_container d) tiktok st = (Inr c, s1)"
    and 2: "result = fst (hook_run (hook d) (clean_extract_data (all_data c) ''id'') (stats s1))"
    and 3: "map_exc (extract_values d) (clean_extract_data (all_data c) ''id'') = Inr rws"
    and 4: "st' = s1\<lparr>logs := logs s1 @
              map (\<lambda>i. LogExtractOk (dict_get_none i ''type'') (dict_get_none i ''id''))
                (clean_extract_data (all_data c) ''id''),
            stats := snd (hook_run (hook d) (clean_extract_data (all_data c) ''id'') (stats s1)),
            rows := rows s1 @ rws\<rparr>"
    by (rule detail_Inr)
  let ?cleaned = "clean_extract_data (all_data c) ''id''"
  from platform_classify_detail_Inr [OF 1] have len: "length (all_data c) = length data"
    and q: "quiet_step st s1"
    by (auto simp: detail_container_def)
  from quiet_step_new [OF q] obtain ls where
    r: "rows s1 = rows st" and s: "stats s1 = stats st"
    and ls: "logs s1 = logs st @ ls" "list_all logged_id_truthy ls"
    by auto
  have sub: "subseq result ?cleaned" unfolding 2 by (rule hook_run_subseq)
  then have ids: "ids_truthy result" using ids_truthy_clean by (rule ids_truthy_subseq)
  have nl: "new_logs st st' = ls @
      map (\<lambda>i. LogExtractOk (dict_get_none i ''type'') (dict_get_none i ''id'')) ?cleaned"
    using 4 ls(1) by (simp add: new_logs_def)
  have lg: "list_all logged_id_truthy (new_logs st st')"
    unfolding nl using ls(2) logged_ids_clean [of "all_data c"] by simp
  have nr: "new_rows st st' = rws" using 4 r by (simp add: new_rows_def)
  have ap: "rows st' = rows st @ new_rows st st'" using 4 r nr by simp
  from 1 len sub 2 s ids lg ap 3 nr show ?thesis by auto
qed

text \<open>
  Claim C1. Whenever a pipeline run returns, every item of the returned list has a truthy
  \<^verbatim>\<open>id\<close>, in batch mode and in detail mode: the returned list is a sublist of the
  extracted items that pass the \<^verbatim>\<open>id\<close> check, every item the run logs as extracted has a
  truthy \<^verbatim>\<open>id\<close>, and every row the run appends to the recorder is the row of an item
  with a truthy \<^verbatim>\<open>id\<close>.
\<close>

theorem pipeline_output_ids:
  "(batch d cfg data tiktok name mark e l sm st = (Inr result, st') \<longrightarrow>
      ids_truthy result \<and> list_all logged_id_truthy (new_logs st st') \<and>
      (\<exists>persisted. ids_truthy persisted \<and>
         map_exc (extract_values d) persisted = Inr (new_rows st st')) \<and>
      (\<exists>c s1. platform_classify_detail d cfg data (batch_container d name mark e l sm) tiktok st
                 = (Inr c, s1) \<and>
               subseq result (clean_extract_data (all_data c) ''id''))) \<and>
   (detail d cfg data tiktok st = (Inr result, st') \<longrightarrow>
      ids_truthy result \<and> list_all logged_id_truthy (new_logs st st') \<and>
      (\<exists>persisted. ids_truthy persisted \<and>
         map_exc (extract_values d) persisted = Inr (new_rows st st')) \<and>
      (\<exists>c s1. platform_classify_detail d cfg data (detail_container d) tiktok st = (Inr c, s1) \<and>
               subseq result (clean_extract_data (all_data c) ''id''))) \<and>
   (run d cfg data mode tiktok kwargs st = (Inr result, st') \<longrightarrow> ids_truthy result)"
proof (intro conjI impI)
  assume b: "batch d cfg data tiktok name mark e l sm st = (Inr result, st')"
  from batch_post [OF b] show "ids_truthy result" by blast
  from batch_post [OF b] show "list_all logged_id_truthy (new_logs st st')" by blast
  from batch_post [OF b]
  show "\<exists>persisted. ids_truthy persisted \<and>
         map_exc (extract_values d) persisted = Inr (new_rows st st')" by blast
  from batch_post [OF b]
  show "\<exists>c s1. platform_classify_detail d cfg data (batch_container d name mark e l sm) tiktok st
                 = (Inr c, s1) \<and>
               subseq result (clean_extract_data (all_data c) ''id'')" by blast
next
  assume b: "detail d cfg data tiktok st = (Inr result, st')"
  from detail_post [OF b] show "ids_truthy result" by blast
  from detail_post [OF b] show "list_all logged_id_truthy (new_logs st st')" by blast
  from detail_post [OF b]
  show "\<exists>persisted. ids_truthy persisted \<and>
         map_exc (extract_values d) persisted = Inr (new_rows st st')"
    using ids_truthy_clean by blast
  from detail_post [OF b]
  show "\<exists>c s1. platform_classify_detail d cfg data (detail_container d) tiktok st = (Inr c, s1) \<and>
               subseq result (clean_extract_data (all_data c) ''id'')" by blast
next
  assume r: "run d cfg data mode tiktok kwargs st = (Inr result, st')"
  show "ids_truthy result"
  proof (cases "mode = ''batch''")
    case True
    with r obtain a where "kwargs = Some a"
      and "batch d cfg data tiktok (arg_name a) (arg_mark a) (arg_earliest a) (arg_latest a)
             (arg_same a) st = (Inr result, st')"
      by (cases kwargs) (auto simp: run_def)
    from batch_post [OF this(2)] show ?thesis by blast
  next
    case False
    with r have "detail d cfg data tiktok st = (Inr result, st')"
      by (cases kwargs) (auto simp: run_def split: if_splits)
    from detail_post [OF this] show ?thesis by blast
  qed
qed

lemma run_returns:
  assumes "case fst (m st) of Inr r \<Rightarrow> True | Inl e \<Rightarrow> False"
  shows "m st = (Inr (case fst (m st) of Inr r \<Rightarrow> r | Inl e \<Rightarrow> []), snd (m st))"
  using assms by (cases "m st"; cases "fst (m st)") auto

theorem pipeline_output_ids_witness:
  "(case fst (batch deps0 cfg_first [june_video, no_id_video, june_images] False
        (PStr ''alice'') (PStr []) 739038 739067 True st0) of
      Inr r \<Rightarrow> map (\<lambda>i. dict_get_none i ''id'') r | Inl e \<Rightarrow> [])
     = [PStr ''7001'', PStr ''7002''] \<and>
   ids_truthy (case fst (batch deps0 cfg_first [june_video, no_id_video, june_images] False
        (PStr ''alice'') (PStr []) 739038 739067 True st0) of Inr r \<Rightarrow> r | Inl e \<Rightarrow> []) \<and>
   ids_truthy (case fst (detail deps0 cfg_first [june_video, no_id_video, june_images] False st0)
        of Inr r \<Rightarrow> r | Inl e \<Rightarrow> [])"
proof -
  let ?b = "batch deps0 cfg_first [june_video, no_id_video, june_images] False
        (PStr ''alice'') (PStr []) 739038 739067 True"
  let ?d = "detail deps0 cfg_first [june_video, no_id_video, june_images] False"
  have ids: "(case fst (?b st0) of Inr r \<Rightarrow> map (\<lambda>i. dict_get_none i ''id'') r | Inl e \<Rightarrow> [])
     = [PStr ''7001'', PStr ''7002'']"
    by code_simp
  have rb: "case fst (?b st0) of Inr r \<Rightarrow> True | Inl e \<Rightarrow> False" by code_simp
  have rd: "case fst (?d st0) of Inr r \<Rightarrow> True | Inl e \<Rightarrow> False" by code_simp
  from pipeline_output_ids [where d = deps0 and cfg = cfg_first
      and data = "[june_video, no_id_video, june_images]" and tiktok = False
      and name = "PStr ''alice''" and mark = "PStr []" and e = 739038 and l = 739067
      and sm = True and st = st0
      and result = "case fst (?b st0) of Inr r \<Rightarrow> r | Inl e \<Rightarrow> []" and st' = "snd (?b st0)"]
    run_returns [of ?b st0, OF rb]
  have a: "ids_truthy (case fst (?b st0) of Inr r \<Rightarrow> r | Inl e \<Rightarrow> [])" by blast
  from pipeline_output_ids [where d = deps0 and cfg = cfg_first
      and data = "[june_video, no_id_video, june_images]" and tiktok = False and st = st0
      and result = "case fst (?d st0) of Inr r \<Rightarrow> r | Inl e \<Rightarrow> []" and st' = "snd (?d st0)"]
    run_returns [of ?d st0, OF rd]
  have b: "ids_truthy (case fst (?d st0) of Inr r \<Rightarrow> r | Inl e \<Rightarrow> [])" by blast
  from ids a b show ?thesis by blast
qed

text \<open>
  Claim C5, as the code has it. Batch mode applies the custom filter before it persists:
  the returned items are those the filter keeps among the items that passed the \<^verbatim>\<open>id\<close>
  check and the date filter, and the rows appended to the recorder are exactly the rows of
  the returned items, one each, in order. Detail mode persists before it filters: the rows
  appended are exactly the rows of the extracted items that passed the \<^verbatim>\<open>id\<close> check,
  one each, in input order, and the returned list is what the custom filter keeps of
  these, a sublist of the persisted items.
\<close>

theorem persistence_and_custom_filter:
  "(batch d cfg data tiktok name mark e l sm st = (Inr result, st') \<longrightarrow>
      rows st' = rows st @ new_rows st st' \<and>
      map_exc (extract_values d) result = Inr (new_rows st st') \<and>
      (\<exists>c s1. platform_classify_detail d cfg data (batch_container d name mark e l sm) tiktok st
                 = (Inr c, s1) \<and>
               length (all_data c) = length data \<and>
               result = fst (hook_run (hook d)
                 (filter (\<lambda>i. date_keeps d c i = Inr True)
                    (clean_extract_data (all_data c) ''id''))
                 (stats st)))) \<and>
   (detail d cfg data tiktok st = (Inr result, st') \<longrightarrow>
      rows st' = rows st @ new_rows st st' \<and>
      (\<exists>c s1. platform_classify_detail d cfg data (detail_container d) tiktok st = (Inr c, s1) \<and>
               length (all_data c) = length data \<and>
               map_exc (extract_values d) (clean_extract_data (all_data c) ''id'')
                 = Inr (new_rows st st') \<and>
               result = fst (hook_run (hook d) (clean_extract_data (all_data c) ''id'')
                               (stats st)) \<and>
               subseq result (clean_extract_data (all_data c) ''id'')))"
proof (intro conjI impI)
  assume b: "batch d cfg data tiktok name mark e l sm st = (Inr result, st')"
  from batch_post [OF b] show "rows st' = rows st @ new_rows st st'" by blast
  from batch_post [OF b] show "map_exc (extract_values d) result = Inr (new_rows st st')"
    by blast
  from batch_post [OF b]
  show "\<exists>c s1. platform_classify_detail d cfg data (batch_container d name mark e l sm) tiktok st
                 = (Inr c, s1) \<and>
               length (all_data c) = length data \<and>
               result = fst (hook_run (hook d)
                 (filter (\<lambda>i. date_keeps d c i = Inr True)
                    (clean_extract_data (all_data c) ''id''))
                 (stats st))" by blast
next
  assume b: "detail d cfg data tiktok st = (Inr result, st')"
  from detail_post [OF b] show "rows st' = rows st @ new_rows st st'" by blast
  from detail_post [OF b]
  show "\<exists>c s1. platform_classify_detail d cfg data (detail_container d) tiktok st = (Inr c, s1) \<and>
               length (all_data c) = length data \<and>
               map_exc (extract_values d) (clean_extract_data (all_data c) ''id'')
                 = Inr (new_rows st st') \<and>
               result = fst (hook_run (hook d) (clean_extract_data (all_data c) ''id'')
                               (stats st)) \<and>
               subseq result (clean_extract_data (all_data c) ''id'')" by blast
qed

theorem persistence_and_custom_filter_witness:
  "map_exc (extract_values deps_videos_only)
      (case fst (batch deps_videos_only cfg_first [june_video, june_images] False
          (PStr ''alice'') (PStr []) 739038 739067 True st0) of Inr r \<Rightarrow> r | Inl e \<Rightarrow> [])
     = Inr (rows (snd (batch deps_videos_only cfg_first [june_video, june_images] False
          (PStr ''alice'') (PStr []) 739038 739067 True st0))) \<and>
   length (rows (snd (detail deps_videos_only cfg_first [june_video, june_images] False st0))) = 2 \<and>
   (case fst (detail deps_videos_only cfg_first [june_video, june_images] False st0) of
      Inr r \<Rightarrow> map (\<lambda>i. dict_get_none i ''id'') r | Inl e \<Rightarrow> []) = [PStr ''7001'']"
proof -
  let ?b = "batch deps_videos_only cfg_first [june_video, june_images] False
          (PStr ''alice'') (PStr []) 739038 739067 True"
  let ?d = "detail deps_videos_only cfg_first [june_video, june_images] False"
  have rb: "case fst (?b st0) of Inr r \<Rightarrow> True | Inl e \<Rightarrow> False" by code_simp
  have rd: "case fst (?d st0) of Inr r \<Rightarrow> True | Inl e \<Rightarrow> False" by code_simp
  have r0: "rows st0 = []" by (simp add: st0_def)
  from persistence_and_custom_filter [where d = deps_videos_only and cfg = cfg_first
      and data = "[june_video, june_images]" and tiktok = False
      and name = "PStr ''alice''" and mark = "PStr []" and e = 739038 and l = 739067
      and sm = True and st = st0
      and result = "case fst (?b st0) of Inr r \<Rightarrow> r | Inl e \<Rightarrow> []" and st' = "snd (?b st0)"]
    run_returns [of ?b st0, OF rb]
  have "rows (snd (?b st0)) = rows st0 @ new_rows st0 (snd (?b st0))"
    "map_exc (extract_values deps_videos_only)
       (case fst (?b st0) of Inr r \<Rightarrow> r | Inl e \<Rightarrow> []) = Inr (new_rows st0 (snd (?b st0)))"
    by blast+
  then have a: "map_exc (extract_values deps_videos_only)
       (case fst (?b st0) of Inr r \<Rightarrow> r | Inl e \<Rightarrow> []) = Inr (rows (snd (?b st0)))"
    using r0 by simp
  have b: "length (rows (snd (?d st0))) = 2" by code_simp
  have c: "(case fst (?d st0) of
      Inr r \<Rightarrow> map (\<lambda>i. dict_get_none i ''id'') r | Inl e \<Rightarrow> []) = [PStr ''7001'']"
    by code_simp
  from a b c show ?thesis by blast
qed

text \<open>
  Claim C5 as stated fails for batch mode with a custom filter that excludes image sets: the image
  set 7002 passes the \<^verbatim>\<open>id\<close> check and the date filter (with the shipped filter the run
  returns it), yet with the excluding filter batch mode persists the row of the video 7001
  only.
\<close>

theorem batch_persists_after_custom_filter:
  "(case fst (batch deps0 cfg_first [june_video, june_images] False
        (PStr ''alice'') (PStr []) 739038 739067 True st0) of
      Inr r \<Rightarrow> map (\<lambda>i. dict_get_none i ''id'') r | Inl e \<Rightarrow> [])
     = [PStr ''7001'', PStr ''7002''] \<and>
   rows (snd (batch deps_videos_only cfg_first [june_video, june_images] False
        (PStr ''alice'') (PStr []) 739038 739067 True st0))
     = [[PStr ''7001'', PStr TYPE_VIDEO, PStr ''https://www.douyin.com/video/7001'']]"
  by code_simp

text \<open>
  A batch run returns only if the date filter could convert the timestamp of every item
  that passed the \<^verbatim>\<open>id\<close> check: each of these items carries a number as its
  \<^verbatim>\<open>create_timestamp\<close>. The empty string that extraction stores for a missing or zero
  creation time is no number.
\<close>

lemma filter_exc_all_defined:
  "filter_exc p xs = Inr r \<Longrightarrow> x \<in> set xs \<Longrightarrow> \<exists>b. p x = Inr b"
  using filter_exc_error [of x xs p] by (cases "p x") auto

lemma date_keeps_defined:
  "date_keeps d c item = Inr b \<Longrightarrow>
   \<exists>stamp t. dict_get item ''create_timestamp'' = Inr stamp \<and> as_int stamp = Some t"
  by (auto simp: date_keeps_def date_of_timestamp_def bind_exc_def
      split: sum.splits option.splits)

lemma batch_returns_only_with_timestamps:
  assumes "batch d cfg data tiktok name mark e l sm st = (Inr result, st')"
  shows "\<exists>c s1. platform_classify_detail d cfg data (batch_container d name mark e l sm) tiktok st
            = (Inr c, s1) \<and>
          (\<forall>item \<in> set (clean_extract_data (all_data c) ''id'').
             \<exists>stamp t. dict_get item ''create_timestamp'' = Inr stamp \<and> as_int stamp = Some t)"
proof -
  from assms obtain c s1 dated where
    1: "platform_classify_detail d cfg data (batch_container d name mark e l sm) tiktok st
       = (Inr c, s1)"
    and 2: "filter_exc (date_keeps d c) (clean_extract_data (all_data c) ''id'') = Inr dated"
    by (rule batch_Inr) blast
  have "\<exists>stamp t. dict_get item ''create_timestamp'' = Inr stamp \<and> as_int stamp = Some t"
    if "item \<in> set (clean_extract_data (all_data c) ''id'')" for item
    using filter_exc_all_defined [OF 2 that] date_keeps_defined by blast
  with 1 show ?thesis by blast
qed

text \<open>
  Claim C4 fails on the code. A batch of two items, the second with an identifier but no
  creation time: extraction stores the empty string as its \<^verbatim>\<open>create_timestamp\<close>, the
  date filter passes it to \<^verbatim>\<open>datetime.fromtimestamp\<close>, and the run ends with
  \<^verbatim>\<open>TypeError\<close>: nothing is returned and nothing is persisted, also not the first item.
  A creation time of zero has the same effect.
\<close>

theorem batch_aborts_on_missing_timestamp:
  "batch deps0 cfg_first [june_video, undated_video] False (PStr ''alice'') (PStr [])
     739038 739067 True st0
     = (Inl TypeError,
        st0\<lparr>logs := [LogExtractOk (PStr TYPE_VIDEO) (PStr ''7001''),
                      LogExtractOk (PStr TYPE_VIDEO) (PStr ''7003'')]\<rparr>) \<and>
   fst (batch deps0 cfg_first [june_video, zero_time_video] False (PStr ''alice'') (PStr [])
     739038 739067 True st0) = Inl TypeError"
  by code_simp

end
